theory Spec2Isabelle
  imports Complex_Main
begin

section \<open>The RPC transformer of alg/gdal\_rpc.cpp\<close>

text \<open>
  A shallow embedding of the rational polynomial (RPC) transformer. A C \<open>double\<close> is
  idealised as a \<open>real\<close>: sums and products are exact, and a quotient whose divisor is zero
  (a non-finite double in the source) has no counterpart, so statements that depend on such a
  quotient assume the divisor to be nonzero. The sentinel \<open>HUGE_VAL\<close> that the transform
  writes into the coordinate arrays is a constructor of its own. A C \<open>int\<close> is an \<open>int\<close>.
  A fixed-size array \<open>double[20]\<close> is a list, read by index.
\<close>

subsection \<open>The RPC model\<close>

text \<open>\<open>GDALRPCInfoV2\<close>, with the fields that gdal\_rpc.cpp reads. The two error estimates are
  NaN when unknown, which is \<open>None\<close> here.\<close>

record GDALRPCInfoV2 =
  dfLINE_OFF :: real
  dfSAMP_OFF :: real
  dfLAT_OFF :: real
  dfLONG_OFF :: real
  dfHEIGHT_OFF :: real
  dfLINE_SCALE :: real
  dfSAMP_SCALE :: real
  dfLAT_SCALE :: real
  dfLONG_SCALE :: real
  dfHEIGHT_SCALE :: real
  adfLINE_NUM_COEFF :: "real list"
  adfLINE_DEN_COEFF :: "real list"
  adfSAMP_NUM_COEFF :: "real list"
  adfSAMP_DEN_COEFF :: "real list"
  dfMIN_LONG :: real
  dfMIN_LAT :: real
  dfMAX_LONG :: real
  dfMAX_LAT :: real
  dfERR_BIAS :: "real option"
  dfERR_RAND :: "real option"

subsection \<open>Polynomial evaluator\<close>

text \<open>\<open>RPCComputeTerms\<close>: the twenty entries of \<open>padfTerms\<close>, in index order.\<close>

definition RPCComputeTerms :: "real \<Rightarrow> real \<Rightarrow> real \<Rightarrow> real list" where
  "RPCComputeTerms dfLong dfLat dfHeight =
     [1,
      dfLong,
      dfLat,
      dfHeight,
      dfLong * dfLat,
      dfLong * dfHeight,
      dfLat * dfHeight,
      dfLong * dfLong,
      dfLat * dfLat,
      dfHeight * dfHeight,
      dfLong * dfLat * dfHeight,
      dfLong * dfLong * dfLong,
      dfLong * dfLat * dfLat,
      dfLong * dfHeight * dfHeight,
      dfLong * dfLong * dfLat,
      dfLat * dfLat * dfLat,
      dfLat * dfHeight * dfHeight,
      dfLong * dfLong * dfHeight,
      dfLat * dfLat * dfHeight,
      dfHeight * dfHeight * dfHeight]"

text \<open>The scalar \<open>RPCEvaluate\<close>: the loop \<open>for (i = 0; i < 20; i += 2)\<close> with its two
  accumulators, then their sum.\<close>

function RPCEvaluate_loop :: "real list \<Rightarrow> real list \<Rightarrow> nat \<Rightarrow> real \<Rightarrow> real \<Rightarrow> real \<times> real" where
  "RPCEvaluate_loop padfTerms padfCoefs i dfSum1 dfSum2 =
     (if i < 20
      then RPCEvaluate_loop padfTerms padfCoefs (i + 2)
             (dfSum1 + padfTerms ! i * padfCoefs ! i)
             (dfSum2 + padfTerms ! (i + 1) * padfCoefs ! (i + 1))
      else (dfSum1, dfSum2))"
  by pat_completeness auto
termination
  by (relation "measure (\<lambda>(t, c, i, s1, s2). 20 - i)") auto

declare RPCEvaluate_loop.simps [simp del]

definition RPCEvaluate :: "real list \<Rightarrow> real list \<Rightarrow> real" where
  "RPCEvaluate padfTerms padfCoefs =
     (case RPCEvaluate_loop padfTerms padfCoefs 0 0 0 of (dfSum1, dfSum2) \<Rightarrow> dfSum1 + dfSum2)"

text \<open>The SSE2 variant \<open>RPCEvaluate4\<close>. A register \<open>XMMReg2Double\<close> is a pair of lanes;
  \<open>Load2ValAligned (p + i)\<close> loads \<open>p[i]\<close> and \<open>p[i + 1]\<close>; \<open>GetHorizSum\<close> adds the two lanes.
  \<open>padfCoefs\<close> holds the four coefficient vectors one after the other.\<close>

type_synonym XMMReg2Double = "real \<times> real"

definition Load2ValAligned :: "real list \<Rightarrow> nat \<Rightarrow> XMMReg2Double" where
  "Load2ValAligned p i = (p ! i, p ! (i + 1))"

definition xmm_mul :: "XMMReg2Double \<Rightarrow> XMMReg2Double \<Rightarrow> XMMReg2Double" where
  "xmm_mul a b = (fst a * fst b, snd a * snd b)"

definition xmm_add :: "XMMReg2Double \<Rightarrow> XMMReg2Double \<Rightarrow> XMMReg2Double" where
  "xmm_add a b = (fst a + fst b, snd a + snd b)"

definition GetHorizSum :: "XMMReg2Double \<Rightarrow> real" where
  "GetHorizSum a = fst a + snd a"

function RPCEvaluate4_loop ::
  "real list \<Rightarrow> real list \<Rightarrow> nat \<Rightarrow> XMMReg2Double \<Rightarrow> XMMReg2Double \<Rightarrow> XMMReg2Double \<Rightarrow> XMMReg2Double
     \<Rightarrow> XMMReg2Double \<times> XMMReg2Double \<times> XMMReg2Double \<times> XMMReg2Double" where
  "RPCEvaluate4_loop padfTerms padfCoefs i sum1 sum2 sum3 sum4 =
     (if i < 20
      then (let terms = Load2ValAligned padfTerms i;
                coefs1 = Load2ValAligned padfCoefs i;
                coefs2 = Load2ValAligned padfCoefs (i + 20);
                coefs3 = Load2ValAligned padfCoefs (i + 40);
                coefs4 = Load2ValAligned padfCoefs (i + 60)
            in RPCEvaluate4_loop padfTerms padfCoefs (i + 2)
                 (xmm_add sum1 (xmm_mul terms coefs1))
                 (xmm_add sum2 (xmm_mul terms coefs2))
                 (xmm_add sum3 (xmm_mul terms coefs3))
                 (xmm_add sum4 (xmm_mul terms coefs4)))
      else (sum1, sum2, sum3, sum4))"
  by pat_completeness auto
termination
  by (relation "measure (\<lambda>(t, c, i, s). 20 - i)") auto

declare RPCEvaluate4_loop.simps [simp del]

definition RPCEvaluate4 :: "real list \<Rightarrow> real list \<Rightarrow> real \<times> real \<times> real \<times> real" where
  "RPCEvaluate4 padfTerms padfCoefs =
     (case RPCEvaluate4_loop padfTerms padfCoefs 0 (0, 0) (0, 0) (0, 0) (0, 0) of
        (sum1, sum2, sum3, sum4) \<Rightarrow>
          (GetHorizSum sum1, GetHorizSum sum2, GetHorizSum sum3, GetHorizSum sum4))"

text \<open>The layout of \<open>padfCoeffs\<close> that \<open>GDALCreateRPCTransformerV2\<close> fills with four
  \<open>memcpy\<close> calls: LINE\_NUM, LINE\_DEN, SAMP\_NUM, then SAMP\_DEN.\<close>

definition padfCoeffs :: "GDALRPCInfoV2 \<Rightarrow> real list" where
  "padfCoeffs psRPCInfo =
     take 20 (adfLINE_NUM_COEFF psRPCInfo) @ take 20 (adfLINE_DEN_COEFF psRPCInfo) @
     take 20 (adfSAMP_NUM_COEFF psRPCInfo) @ take 20 (adfSAMP_DEN_COEFF psRPCInfo)"

text \<open>The dot product of the first twenty entries, the specification's reading of the
  evaluator.\<close>

definition dot20 :: "real list \<Rightarrow> real list \<Rightarrow> real" where
  "dot20 terms coefs = (\<Sum>i<20. terms ! i * coefs ! i)"

text \<open>The same sum over the twenty coefficients that start at position \<open>k\<close> of a longer
  array.\<close>

definition dot20_at :: "real list \<Rightarrow> real list \<Rightarrow> nat \<Rightarrow> real" where
  "dot20_at terms coefs k = (\<Sum>i<20. terms ! i * coefs ! (i + k))"

subsection \<open>Forward transform\<close>

text \<open>\<open>RPCTransformPoint\<close>, the build without SSE2: the dateline wrap of the longitude
  difference, the three normalisations, the four evaluations and the denormalisation with the
  half-pixel shift. The debug warnings about normalised values above 1.5 change no result and
  are left out.\<close>

definition RPCTransformPoint :: "GDALRPCInfoV2 \<Rightarrow> real \<Rightarrow> real \<Rightarrow> real \<Rightarrow> real \<times> real" where
  "RPCTransformPoint sRPC dfLong dfLat dfHeight =
     (let diffLong0 = dfLong - dfLONG_OFF sRPC;
          diffLong = (if diffLong0 < - 270 then diffLong0 + 360
                      else if diffLong0 > 270 then diffLong0 - 360
                      else diffLong0);
          dfNormalizedLong = diffLong / dfLONG_SCALE sRPC;
          dfNormalizedLat = (dfLat - dfLAT_OFF sRPC) / dfLAT_SCALE sRPC;
          dfNormalizedHeight = (dfHeight - dfHEIGHT_OFF sRPC) / dfHEIGHT_SCALE sRPC;
          padfTerms = RPCComputeTerms dfNormalizedLong dfNormalizedLat dfNormalizedHeight;
          dfResultX = RPCEvaluate padfTerms (adfSAMP_NUM_COEFF sRPC) /
                      RPCEvaluate padfTerms (adfSAMP_DEN_COEFF sRPC);
          dfResultY = RPCEvaluate padfTerms (adfLINE_NUM_COEFF sRPC) /
                      RPCEvaluate padfTerms (adfLINE_DEN_COEFF sRPC)
      in (dfResultX * dfSAMP_SCALE sRPC + dfSAMP_OFF sRPC + 0.5,
          dfResultY * dfLINE_SCALE sRPC + dfLINE_OFF sRPC + 0.5))"

text \<open>The same function in the build with SSE2 (\<open>USE_SSE2_OPTIM\<close>), which evaluates the four
  sums at once from \<open>padfCoeffs\<close>.\<close>

definition RPCTransformPoint_SSE2 :: "GDALRPCInfoV2 \<Rightarrow> real \<Rightarrow> real \<Rightarrow> real \<Rightarrow> real \<times> real" where
  "RPCTransformPoint_SSE2 sRPC dfLong dfLat dfHeight =
     (let diffLong0 = dfLong - dfLONG_OFF sRPC;
          diffLong = (if diffLong0 < - 270 then diffLong0 + 360
                      else if diffLong0 > 270 then diffLong0 - 360
                      else diffLong0);
          dfNormalizedLong = diffLong / dfLONG_SCALE sRPC;
          dfNormalizedLat = (dfLat - dfLAT_OFF sRPC) / dfLAT_SCALE sRPC;
          dfNormalizedHeight = (dfHeight - dfHEIGHT_OFF sRPC) / dfHEIGHT_SCALE sRPC;
          padfTerms = RPCComputeTerms dfNormalizedLong dfNormalizedLat dfNormalizedHeight
      in case RPCEvaluate4 padfTerms (padfCoeffs sRPC) of
           (dfLineNum, dfLineDen, dfSampNum, dfSampDen) \<Rightarrow>
             (let dfResultX = dfSampNum / dfSampDen;
                  dfResultY = dfLineNum / dfLineDen
              in (dfResultX * dfSAMP_SCALE sRPC + dfSAMP_OFF sRPC + 0.5,
                  dfResultY * dfLINE_SCALE sRPC + dfLINE_OFF sRPC + 0.5)))"

text \<open>The model of the concrete scenario: offsets \<open>-105\<close>, \<open>40\<close>, \<open>2000\<close>, scales 1, 1, 500,
  pixel offsets and scales 5000, and coefficient vectors whose entry 0 is 1 and whose other
  entries are 0.\<close>

definition unit_coeffs :: "real list" where
  "unit_coeffs = 1 # replicate 19 0"

definition scenario_rpc :: GDALRPCInfoV2 where
  "scenario_rpc =
     \<lparr> dfLINE_OFF = 5000, dfSAMP_OFF = 5000, dfLAT_OFF = 40, dfLONG_OFF = - 105,
       dfHEIGHT_OFF = 2000, dfLINE_SCALE = 5000, dfSAMP_SCALE = 5000, dfLAT_SCALE = 1,
       dfLONG_SCALE = 1, dfHEIGHT_SCALE = 500,
       adfLINE_NUM_COEFF = unit_coeffs, adfLINE_DEN_COEFF = unit_coeffs,
       adfSAMP_NUM_COEFF = unit_coeffs, adfSAMP_DEN_COEFF = unit_coeffs,
       dfMIN_LONG = - 106, dfMIN_LAT = 39, dfMAX_LONG = - 104, dfMAX_LAT = 41,
       dfERR_BIAS = None, dfERR_RAND = None \<rparr>"

subsection \<open>The transformer state\<close>

datatype DEMResampleAlg = DRA_NearestNeighbour | DRA_Bilinear | DRA_CubicSpline

datatype GDALRIOResampleAlg = GRIORA_NearestNeighbour | GRIORA_Bilinear | GRIORA_CubicSpline

text \<open>The elevation raster is the external raster-access collaborator. The transformer uses
  its band count, its size, its geotransform (\<open>None\<close> when \<open>GetGeoTransform\<close> fails), the
  bulk read of a window of band 1 as \<open>Float64\<close> (\<open>RasterIO\<close>, \<open>None\<close> for
  an error; the window is given as \<open>nXOff nYOff nXSize nYSize\<close> and returned row by row), the
  nodata value of band 1 when it has one, and the interpolation of band 1 at a fractional
  pixel and line (\<open>GDALInterpolateAtPoint\<close>, \<open>None\<close> when it reports failure). The block
  cache that \<open>GDALInterpolateAtPoint\<close> consults is read-through and is not modelled.\<close>

record GDALDataset =
  GetRasterCount :: int
  GetGeoTransform :: "real list option"
  GetRasterXSize :: int
  GetRasterYSize :: int
  RasterIO :: "int \<Rightarrow> int \<Rightarrow> int \<Rightarrow> int \<Rightarrow> real list option"
  GetNoDataValue :: "real option"
  GDALInterpolateAtPoint :: "GDALRIOResampleAlg \<Rightarrow> real \<Rightarrow> real \<Rightarrow> real option"

text \<open>A coordinate transformation maps one point \<open>(x, y)\<close> with \<open>z = 0\<close> to \<open>(x, y, z)\<close>, or
  fails. A footprint geometry is known by its containment test alone
  (\<open>OGRPreparedGeometryContains\<close> on a point).\<close>

type_synonym OGRCoordinateTransformation = "real \<Rightarrow> real \<Rightarrow> (real \<times> real \<times> real) option"

type_synonym OGRGeometry = "real \<Rightarrow> real \<Rightarrow> bool"

text \<open>\<open>GDALRPCTransformInfo\<close>. The function table \<open>sTI\<close>, the aligned copy of the
  coefficients (see \<open>padfCoeffs\<close>), the DEM cache and the two debug settings
  (\<open>bRPCInverseVerbose\<close>, \<open>pszRPCInverseLog\<close>) are left out: they change no result. A
  \<open>char *\<close> that may be null is a \<open>string option\<close>.\<close>

record GDALRPCTransformInfo =
  sRPC :: GDALRPCInfoV2
  adfPLToLatLongGeoTransform :: "real list"
  dfRefZ :: real
  bReversed :: int
  dfPixErrThreshold :: real
  dfHeightOffset :: real
  dfHeightScale :: real
  pszDEMPath :: "string option"
  eResampleAlg :: DEMResampleAlg
  bHasDEMMissingValue :: bool
  dfDEMMissingValue :: real
  pszDEMSRS :: "string option"
  bApplyDEMVDatumShift :: bool
  poDS :: "GDALDataset option"
  poCT :: "OGRCoordinateTransformation option"
  nMaxIterations :: int
  adfDEMGeoTransform :: "real list"
  adfDEMReverseGeoTransform :: "real list"
  pszRPCFootprint :: "string option"
  poRPCFootprintGeom :: "OGRGeometry option"
  poRPCFootprintPreparedGeom :: "OGRGeometry option"

text \<open>\<open>GDALApplyGeoTransform\<close> (declared in gdal.h): the affine map of a six-entry
  geotransform.\<close>

definition GDALApplyGeoTransform :: "real list \<Rightarrow> real \<Rightarrow> real \<Rightarrow> real \<times> real" where
  "GDALApplyGeoTransform gt dfPixel dfLine =
     (gt ! 0 + dfPixel * gt ! 1 + dfLine * gt ! 2,
      gt ! 3 + dfPixel * gt ! 4 + dfLine * gt ! 5)"

subsection \<open>Elevation sampler\<close>

text \<open>\<open>GDALRPCGetDEMHeight\<close>: the choice of the resampling kernel and the interpolation of
  band 1. It is only called with a dataset; without one the source would dereference a null
  pointer, which is \<open>None\<close> here.\<close>

definition GDALRPCGetDEMHeight :: "GDALRPCTransformInfo \<Rightarrow> real \<Rightarrow> real \<Rightarrow> real option" where
  "GDALRPCGetDEMHeight psTransform dfXIn dfYIn =
     (let eResample = (case eResampleAlg psTransform of
                         DRA_NearestNeighbour \<Rightarrow> GRIORA_NearestNeighbour
                       | DRA_Bilinear \<Rightarrow> GRIORA_Bilinear
                       | DRA_CubicSpline \<Rightarrow> GRIORA_CubicSpline)
      in case poDS psTransform of
           None \<Rightarrow> None
         | Some ds \<Rightarrow> GDALInterpolateAtPoint ds eResample dfXIn dfYIn)"

text \<open>\<open>GDALRPCGetHeightAtLongLat\<close>. The result is the height (\<open>None\<close> for \<open>false\<close>) and
  the DEM pixel and line written through \<open>pdfDEMPixel\<close> and \<open>pdfDEMLine\<close> (\<open>None\<close> when the
  function returns before writing them). The second pass after \<open>goto retry\<close>, with
  \<open>bRetried\<close> set, comes first.\<close>

definition GDALRPCGetHeightAtLongLat_retried ::
  "GDALRPCTransformInfo \<Rightarrow> real \<Rightarrow> real \<Rightarrow> real \<Rightarrow> real option \<times> (real \<times> real) option" where
  "GDALRPCGetHeightAtLongLat_retried psTransform dfVDatumShift dfXTemp dfYTemp =
     (case GDALApplyGeoTransform (adfDEMReverseGeoTransform psTransform) dfXTemp dfYTemp of
        (dfX, dfY) \<Rightarrow>
          (case GDALRPCGetDEMHeight psTransform dfX dfY of
             Some dfDEMH \<Rightarrow>
               (Some (dfVDatumShift +
                        (dfHeightOffset psTransform + dfDEMH * dfHeightScale psTransform)),
                Some (dfX, dfY))
           | None \<Rightarrow>
               if bHasDEMMissingValue psTransform
               then (Some (dfVDatumShift +
                             (dfHeightOffset psTransform +
                              dfDEMMissingValue psTransform * dfHeightScale psTransform)),
                     Some (dfX, dfY))
               else (None, Some (dfX, dfY))))"

definition GDALRPCGetHeightAtLongLat ::
  "GDALRPCTransformInfo \<Rightarrow> real \<Rightarrow> real \<Rightarrow> real option \<times> (real \<times> real) option" where
  "GDALRPCGetHeightAtLongLat psTransform dfXIn dfYIn =
     (case poDS psTransform of
        None \<Rightarrow>
          (Some (0 + (dfHeightOffset psTransform + 0 * dfHeightScale psTransform)), None)
      | Some ds \<Rightarrow>
          (case (case poCT psTransform of
                   None \<Rightarrow> Some (dfXIn, dfYIn, 0)
                 | Some ct \<Rightarrow>
                     (case ct dfXIn dfYIn of
                        None \<Rightarrow> None
                      | Some (x, y, dfZ) \<Rightarrow>
                          Some (x, y, if bApplyDEMVDatumShift psTransform then - dfZ else 0))) of
             None \<Rightarrow> (None, None)
           | Some (dfXTemp, dfYTemp, dfVDatumShift) \<Rightarrow>
               (case GDALApplyGeoTransform (adfDEMReverseGeoTransform psTransform)
                       dfXTemp dfYTemp of
                  (dfX, dfY) \<Rightarrow>
                    (case GDALRPCGetDEMHeight psTransform dfX dfY of
                       Some dfDEMH \<Rightarrow>
                         (Some (dfVDatumShift +
                                  (dfHeightOffset psTransform +
                                   dfDEMH * dfHeightScale psTransform)),
                          Some (dfX, dfY))
                     | None \<Rightarrow>
                         (let nRasterXSize = GetRasterXSize ds;
                              dfMinDEMLong = adfDEMGeoTransform psTransform ! 0;
                              dfMaxDEMLong = adfDEMGeoTransform psTransform ! 0 +
                                real_of_int nRasterXSize * adfDEMGeoTransform psTransform ! 1
                          in if poCT psTransform = None \<and> (dfXIn \<ge> 180 \<or> dfXIn \<le> - 180) \<and>
                                \<bar>dfMinDEMLong - (- 180)\<bar> < 0.1 \<and> \<bar>dfMaxDEMLong - 180\<bar> < 0.1
                             then (if dfXIn \<ge> 180
                                   then GDALRPCGetHeightAtLongLat_retried psTransform
                                          dfVDatumShift (dfXIn - 360) dfYIn
                                   else GDALRPCGetHeightAtLongLat_retried psTransform
                                          dfVDatumShift (dfXIn + 360) dfYIn)
                             else if bHasDEMMissingValue psTransform
                             then (Some (dfVDatumShift +
                                           (dfHeightOffset psTransform +
                                            dfDEMMissingValue psTransform *
                                              dfHeightScale psTransform)),
                                   Some (dfX, dfY))
                             else (None, Some (dfX, dfY)))))))"

subsection \<open>Validity footprint\<close>

definition RPCIsValidLongLat :: "GDALRPCTransformInfo \<Rightarrow> real \<Rightarrow> real \<Rightarrow> bool" where
  "RPCIsValidLongLat psTransform dfLong dfLat =
     (case poRPCFootprintPreparedGeom psTransform of
        None \<Rightarrow> True
      | Some geom \<Rightarrow> geom dfLong dfLat)"

subsection \<open>Inverse transform\<close>

text \<open>The variables that the loop of \<open>RPCInverseTransformPoint\<close> carries from one iteration
  to the next. \<open>nEvaluations\<close> is not in the source: it counts the calls of
  \<open>RPCTransformPoint\<close> that the loop has made.\<close>

record inverse_vars =
  dfResultX :: real
  dfResultY :: real
  dfLastResultX :: real
  dfLastResultY :: real
  dfLastPixelDeltaX :: real
  dfLastPixelDeltaY :: real
  bLastPixelDeltaValid :: bool
  nCountConsecutiveErrorBelow2 :: int
  nEvaluations :: nat

text \<open>The height used by one iteration: the sampled one, or on the first iteration the
  height found by snapping the DEM pixel and line to the raster, or the reference height;
  \<open>None\<close> is the \<open>return false\<close> of a later iteration. The second \<open>else if\<close> of the
  snapping tests and assigns \<open>dfDEMPixel\<close>, as the source does.\<close>

definition inverse_iteration_height ::
  "GDALRPCTransformInfo \<Rightarrow> int \<Rightarrow> real \<Rightarrow> real \<Rightarrow> real option" where
  "inverse_iteration_height psTransform iIter dfGuessX dfGuessY =
     (case GDALRPCGetHeightAtLongLat psTransform dfGuessX dfGuessY of
        (Some dfDEMH, _) \<Rightarrow> Some dfDEMH
      | (None, dem) \<Rightarrow>
          if iIter = 0
          then (case poDS psTransform of
                  None \<Rightarrow> Some (dfRefZ psTransform)
                | Some ds \<Rightarrow>
                    (let dfDEMPixel0 = (case dem of None \<Rightarrow> 0 | Some (dx, dy) \<Rightarrow> dx);
                         dfDEMLine0 = (case dem of None \<Rightarrow> 0 | Some (dx, dy) \<Rightarrow> dy);
                         dfDEMPixel1 =
                           (if dfDEMPixel0 \<ge> real_of_int (GetRasterXSize ds)
                            then real_of_int (GetRasterXSize ds) - 0.5
                            else if dfDEMPixel0 < 0 then 0.5 else dfDEMPixel0);
                         dfDEMLine1 =
                           (if dfDEMLine0 \<ge> real_of_int (GetRasterYSize ds)
                            then real_of_int (GetRasterYSize ds) - 0.5
                            else dfDEMLine0);
                         dfDEMPixel2 =
                           (if dfDEMLine0 \<ge> real_of_int (GetRasterYSize ds) then dfDEMPixel1
                            else if dfDEMPixel1 < 0 then 0.5 else dfDEMPixel1)
                     in case GDALRPCGetDEMHeight psTransform dfDEMPixel2 dfDEMLine1 of
                          Some dfDEMH \<Rightarrow> Some dfDEMH
                        | None \<Rightarrow> Some (dfRefZ psTransform)))
          else None)"

text \<open>The loop \<open>for (; iIter < nMaxIterations; iIter++)\<close>. The result is the longitude and
  latitude on convergence (\<open>iIter = -1\<close> in the source), \<open>None\<close> when the function returns
  false, and the number of forward evaluations made.\<close>

function RPCInverseTransformPoint_loop ::
  "GDALRPCTransformInfo \<Rightarrow> real \<Rightarrow> real \<Rightarrow> real \<Rightarrow> int \<Rightarrow> int \<Rightarrow> inverse_vars
     \<Rightarrow> (real \<times> real) option \<times> nat" where
  "RPCInverseTransformPoint_loop psTransform dfPixel dfLine dfUserHeight nMaxIter iIter v =
     (if iIter < nMaxIter
      then (case inverse_iteration_height psTransform iIter (dfResultX v) (dfResultY v) of
              None \<Rightarrow> (None, nEvaluations v)
            | Some dfDEMH \<Rightarrow>
                (case RPCTransformPoint (sRPC psTransform) (dfResultX v) (dfResultY v)
                        (dfUserHeight + dfDEMH) of
                   (dfBackPixel, dfBackLine) \<Rightarrow>
                     (let n = Suc (nEvaluations v);
                          gt = adfPLToLatLongGeoTransform psTransform;
                          dfPixelDeltaX = dfBackPixel - dfPixel;
                          dfPixelDeltaY = dfBackLine - dfLine;
                          dfError = max \<bar>dfPixelDeltaX\<bar> \<bar>dfPixelDeltaY\<bar>
                      in if dfError < dfPixErrThreshold psTransform
                         then (Some (dfResultX v, dfResultY v), n)
                         else if poDS psTransform \<noteq> None \<and> bLastPixelDeltaValid v \<and>
                                 dfPixelDeltaX * dfLastPixelDeltaX v < 0 \<and>
                                 dfPixelDeltaY * dfLastPixelDeltaY v < 0
                         then RPCInverseTransformPoint_loop psTransform dfPixel dfLine
                                dfUserHeight nMaxIter (iIter + 1)
                                (v\<lparr>dfResultX :=
                                     (\<bar>dfPixelDeltaX\<bar> * dfLastResultX v +
                                      \<bar>dfLastPixelDeltaX v\<bar> * dfResultX v) /
                                     (\<bar>dfPixelDeltaX\<bar> + \<bar>dfLastPixelDeltaX v\<bar>),
                                   dfResultY :=
                                     (\<bar>dfPixelDeltaY\<bar> * dfLastResultY v +
                                      \<bar>dfLastPixelDeltaY v\<bar> * dfResultY v) /
                                     (\<bar>dfPixelDeltaY\<bar> + \<bar>dfLastPixelDeltaY v\<bar>),
                                   bLastPixelDeltaValid := False,
                                   nCountConsecutiveErrorBelow2 := 0,
                                   nEvaluations := n\<rparr>)
                         else (let dfBoostFactor =
                                     (if poDS psTransform \<noteq> None \<and>
                                         nCountConsecutiveErrorBelow2 v \<ge> 5 \<and> dfError < 2
                                      then 10 else 1);
                                   dfNewResultX = dfResultX v -
                                     (dfPixelDeltaX * gt ! 1 * dfBoostFactor) -
                                     (dfPixelDeltaY * gt ! 2 * dfBoostFactor);
                                   dfNewResultY = dfResultY v -
                                     (dfPixelDeltaX * gt ! 4 * dfBoostFactor) -
                                     (dfPixelDeltaY * gt ! 5 * dfBoostFactor)
                               in RPCInverseTransformPoint_loop psTransform dfPixel dfLine
                                    dfUserHeight nMaxIter (iIter + 1)
                                    (v\<lparr>dfLastResultX := dfResultX v,
                                       dfLastResultY := dfResultY v,
                                       dfResultX := dfNewResultX,
                                       dfResultY := dfNewResultY,
                                       dfLastPixelDeltaX := dfPixelDeltaX,
                                       dfLastPixelDeltaY := dfPixelDeltaY,
                                       bLastPixelDeltaValid := True,
                                       nCountConsecutiveErrorBelow2 :=
                                         (if dfError < 2
                                          then nCountConsecutiveErrorBelow2 v + 1 else 0),
                                       nEvaluations := n\<rparr>)))))
      else (None, nEvaluations v))"
  by pat_completeness auto
termination
  by (relation "measure (\<lambda>(t, p, l, h, nMaxIter, iIter, v). nat (nMaxIter - iIter))") auto

declare RPCInverseTransformPoint_loop.simps [simp del]

text \<open>The iteration budget \<open>nMaxIterations\<close> of \<open>RPCInverseTransformPoint\<close>.\<close>

definition inverse_nMaxIterations :: "GDALRPCTransformInfo \<Rightarrow> int" where
  "inverse_nMaxIterations psTransform =
     (if nMaxIterations psTransform > 0 then nMaxIterations psTransform
      else if poDS psTransform \<noteq> None then 20 else 10)"

definition RPCInverseTransformPoint_count ::
  "GDALRPCTransformInfo \<Rightarrow> real \<Rightarrow> real \<Rightarrow> real \<Rightarrow> (real \<times> real) option \<times> nat" where
  "RPCInverseTransformPoint_count psTransform dfPixel dfLine dfUserHeight =
     (let gt = adfPLToLatLongGeoTransform psTransform
      in RPCInverseTransformPoint_loop psTransform dfPixel dfLine dfUserHeight
           (inverse_nMaxIterations psTransform) 0
           \<lparr> dfResultX = gt ! 0 + gt ! 1 * dfPixel + gt ! 2 * dfLine,
             dfResultY = gt ! 3 + gt ! 4 * dfPixel + gt ! 5 * dfLine,
             dfLastResultX = 0, dfLastResultY = 0,
             dfLastPixelDeltaX = 0, dfLastPixelDeltaY = 0,
             bLastPixelDeltaValid = False,
             nCountConsecutiveErrorBelow2 = 0,
             nEvaluations = 0 \<rparr>)"

text \<open>\<open>RPCInverseTransformPoint\<close> itself: \<open>None\<close> for \<open>false\<close>, else the longitude and
  latitude it stores.\<close>

definition RPCInverseTransformPoint ::
  "GDALRPCTransformInfo \<Rightarrow> real \<Rightarrow> real \<Rightarrow> real \<Rightarrow> (real \<times> real) option" where
  "RPCInverseTransformPoint psTransform dfPixel dfLine dfUserHeight =
     fst (RPCInverseTransformPoint_count psTransform dfPixel dfLine dfUserHeight)"

subsection \<open>What the transformer takes from outside\<close>

text \<open>Functions and settings of the C library and of the rest of GDAL that gdal\_rpc.cpp
  calls and that are not part of it: the number parsers and printers (\<open>CPLAtof\<close>, \<open>atoi\<close>,
  \<open>CPLTestBool\<close>, \<open>printf\<close> with \<open>%.15g\<close>, \<open>%.17g\<close>, \<open>%d\<close> and \<open>%f\<close>), the kernel
  \<open>CubicSplineKernel\<close>, the comparison macro \<open>ARE_REAL_EQUAL\<close>, the configuration option
  \<open>GDAL_RPC_DEM_OPTIM\<close> as read by the transform, the dataset opener \<open>GDALOpen\<close>, the
  inversion of a geotransform \<open>GDALInvGeoTransform\<close> (\<open>None\<close> when it fails), the
  reconciliation of the DEM's
  spatial reference with WGS84 (from the SRS override, the vertical-datum switch, the dataset
  and the RPC: the coordinate transformation to use, if one is needed), the footprint parser
  (\<open>createFromGeoJson\<close> when the text starts with a brace, else \<open>createFromWkt\<close>),
  \<open>OGRHasPreparedGeometrySupport\<close>, and \<open>GDALExtractRPCInfoV2\<close> on a metadata list.\<close>

record externals =
  CPLAtof :: "string \<Rightarrow> real"
  atoi :: "string \<Rightarrow> int"
  CPLTestBool :: "string \<Rightarrow> bool"
  printf_g15 :: "real \<Rightarrow> string"
  printf_g17 :: "real \<Rightarrow> string"
  printf_d :: "int \<Rightarrow> string"
  printf_f :: "real \<Rightarrow> string"
  CubicSplineKernel :: "real \<Rightarrow> real"
  ARE_REAL_EQUAL :: "real \<Rightarrow> real \<Rightarrow> bool"
  GDAL_RPC_DEM_OPTIM :: bool
  GDALOpen :: "string \<Rightarrow> GDALDataset option"
  GDALInvGeoTransform :: "real list \<Rightarrow> real list option"
  DEMCoordinateTransformation ::
    "string option \<Rightarrow> bool \<Rightarrow> GDALDataset \<Rightarrow> GDALRPCInfoV2 \<Rightarrow> OGRCoordinateTransformation option"
  createFootprintGeom :: "string \<Rightarrow> OGRGeometry option"
  OGRHasPreparedGeometrySupport :: bool
  GDALExtractRPCInfoV2 :: "(string \<times> string) list \<Rightarrow> GDALRPCInfoV2 option"

subsection \<open>Batch row optimizer\<close>

text \<open>An entry of the coordinate arrays after a transform: a finite value or the sentinel
  \<open>HUGE_VAL\<close>. The coordinates passed in are finite, so the test \<open>padfX[i] == HUGE_VAL\<close>
  at the head of the loop of \<open>GDALRPCTransformWholeLineWithDEM\<close> is not taken.\<close>

datatype coord = Finite real | HUGE_VAL

text \<open>What a transform leaves at index \<open>i\<close> of \<open>padfX\<close>, \<open>padfY\<close> and \<open>panSuccess\<close>.\<close>

record point_result =
  padfX_i :: coord
  padfY_i :: coord
  panSuccess_i :: bool

text \<open>\<open>static_cast<int>\<close> of a double truncates towards zero.\<close>

definition double_to_int :: "real \<Rightarrow> int" where
  "double_to_int x = (if x \<ge> 0 then \<lfloor>x\<rfloor> else \<lceil>x\<rceil>)"

text \<open>Reading \<open>padfDEMBuffer\<close> at an \<open>int\<close> offset.\<close>

definition buffer_at :: "real list \<Rightarrow> int \<Rightarrow> real" where
  "buffer_at padfDEMBuffer k = padfDEMBuffer ! nat k"

text \<open>The lines that end an iteration of the whole-line loop, and that the source repeats
  inside the two nodata branches of the bilinear case: the footprint test, then the forward
  transform at the height \<open>dfZ_i + (dfHeightOffset + dfDEMH) * dfHeightScale\<close>. Every step
  takes the return value \<open>bRet\<close> so far and gives the new one.\<close>

definition whole_line_finish ::
  "GDALRPCTransformInfo \<Rightarrow> bool \<Rightarrow> real \<Rightarrow> real \<Rightarrow> real \<Rightarrow> real \<Rightarrow> bool \<times> point_result" where
  "whole_line_finish psTransform bRet x y dfZ_i dfDEMH =
     (if \<not> RPCIsValidLongLat psTransform x y
      then (False, \<lparr>padfX_i = HUGE_VAL, padfY_i = HUGE_VAL, panSuccess_i = False\<rparr>)
      else (case RPCTransformPoint (sRPC psTransform) x y
                   (dfZ_i + (dfHeightOffset psTransform + dfDEMH) * dfHeightScale psTransform) of
              (px, py) \<Rightarrow>
                (bRet, \<lparr>padfX_i = Finite px, padfY_i = Finite py, panSuccess_i = True\<rparr>)))"

text \<open>The two nested loops of the cubic case over \<open>k_i\<close> and \<open>k_j\<close>, which accumulate
  \<open>dfSumH\<close> and \<open>dfSumWeight\<close> and skip nodata samples.\<close>

definition cubic_sums ::
  "externals \<Rightarrow> real option \<Rightarrow> real list \<Rightarrow> int \<Rightarrow> int \<Rightarrow> int \<Rightarrow> real \<Rightarrow> real \<Rightarrow> real \<times> real" where
  "cubic_sums ext noData padfDEMBuffer nXWidth nXLeft nXNew dfDeltaX dfDeltaY =
     foldl (\<lambda>(dfSumH, dfSumWeight) (k_i, k_j).
              (let dKernIndX = k_j - 1;
                   dKernIndY = k_i - 1;
                   dfPixelWeight =
                     CubicSplineKernel ext (real_of_int dKernIndX - dfDeltaX) *
                     CubicSplineKernel ext (real_of_int dKernIndY - dfDeltaY);
                   dfElev = buffer_at padfDEMBuffer (k_i * nXWidth + nXNew - nXLeft + k_j)
               in if (case noData of None \<Rightarrow> False
                      | Some dfNoDataValue \<Rightarrow> ARE_REAL_EQUAL ext dfNoDataValue dfElev)
                  then (dfSumH, dfSumWeight)
                  else (dfSumH + dfElev * dfPixelWeight, dfSumWeight + dfPixelWeight)))
       (0, 0)
       (concat (map (\<lambda>k_i. map (\<lambda>k_j. (k_i, k_j)) [0, 1, 2, 3]) [0, 1, 2, 3]))"

text \<open>The loop of the bilinear case over the four samples: whether a nodata sample was
  found, and the first index that is not nodata (\<open>-1\<close> when there is none).\<close>

definition bilinear_scan :: "externals \<Rightarrow> real \<Rightarrow> real list \<Rightarrow> bool \<times> int" where
  "bilinear_scan ext dfNoDataValue adfElevData =
     foldl (\<lambda>(bFoundNoDataElev, k_valid_sample) k_i.
              if ARE_REAL_EQUAL ext dfNoDataValue (adfElevData ! nat k_i)
              then (True, k_valid_sample)
              else if k_valid_sample < 0 then (bFoundNoDataElev, k_i)
              else (bFoundNoDataElev, k_valid_sample))
       (False, - 1) [0, 1, 2, 3]"

text \<open>One iteration of the loop of \<open>GDALRPCTransformWholeLineWithDEM\<close>, for the point
  \<open>(x, y)\<close> with height \<open>dfZ_i\<close>.\<close>

definition whole_line_point ::
  "externals \<Rightarrow> GDALRPCTransformInfo \<Rightarrow> real option \<Rightarrow> real list \<Rightarrow> int \<Rightarrow> int \<Rightarrow> real
     \<Rightarrow> bool \<Rightarrow> real \<Rightarrow> real \<Rightarrow> real \<Rightarrow> bool \<times> point_result" where
  "whole_line_point ext psTransform noData padfDEMBuffer nXLeft nXWidth dfDeltaY bRet x y dfZ_i =
     (let rgt = adfDEMReverseGeoTransform psTransform
      in if eResampleAlg psTransform = DRA_CubicSpline
         then (let dfX = rgt ! 0 + x * rgt ! 1 - 0.5;
                   nX = double_to_int dfX;
                   dfDeltaX = dfX - real_of_int nX;
                   nXNew = nX - 1
               in case cubic_sums ext noData padfDEMBuffer nXWidth nXLeft nXNew
                         dfDeltaX dfDeltaY of
                    (dfSumH, dfSumWeight) \<Rightarrow>
                      if dfSumWeight = 0
                      then (if bHasDEMMissingValue psTransform
                            then whole_line_finish psTransform bRet x y dfZ_i
                                   (dfDEMMissingValue psTransform)
                            else (False, \<lparr>padfX_i = Finite x, padfY_i = Finite y,
                                          panSuccess_i = False\<rparr>))
                      else whole_line_finish psTransform bRet x y dfZ_i (dfSumH / dfSumWeight))
         else if eResampleAlg psTransform = DRA_Bilinear
         then (let dfX = rgt ! 0 + x * rgt ! 1 - 0.5;
                   nX = double_to_int dfX;
                   dfDeltaX = dfX - real_of_int nX;
                   adfElevData =
                     [buffer_at padfDEMBuffer (nX - nXLeft),
                      buffer_at padfDEMBuffer (nX - nXLeft + 1),
                      buffer_at padfDEMBuffer (nXWidth + nX - nXLeft),
                      buffer_at padfDEMBuffer (nXWidth + nX - nXLeft + 1)];
                   scan = (case noData of
                             None \<Rightarrow> (False, - 1)
                           | Some dfNoDataValue \<Rightarrow> bilinear_scan ext dfNoDataValue adfElevData)
               in if fst scan
                  then (if snd scan \<ge> 0
                        then whole_line_finish psTransform bRet x y dfZ_i
                               (adfElevData ! nat (snd scan))
                        else if bHasDEMMissingValue psTransform
                        then whole_line_finish psTransform bRet x y dfZ_i
                               (dfDEMMissingValue psTransform)
                        else (False, \<lparr>padfX_i = HUGE_VAL, padfY_i = HUGE_VAL,
                                      panSuccess_i = False\<rparr>))
                  else (let dfDeltaX1 = 1 - dfDeltaX;
                            dfDeltaY1 = 1 - dfDeltaY;
                            dfXZ1 = adfElevData ! 0 * dfDeltaX1 + adfElevData ! 1 * dfDeltaX;
                            dfXZ2 = adfElevData ! 2 * dfDeltaX1 + adfElevData ! 3 * dfDeltaX;
                            dfYZ = dfXZ1 * dfDeltaY1 + dfXZ2 * dfDeltaY
                        in whole_line_finish psTransform bRet x y dfZ_i dfYZ))
         else (let dfX = rgt ! 0 + x * rgt ! 1;
                   nX = double_to_int dfX;
                   dfDEMH = buffer_at padfDEMBuffer (nX - nXLeft)
               in if (case noData of None \<Rightarrow> False
                      | Some dfNoDataValue \<Rightarrow> ARE_REAL_EQUAL ext dfNoDataValue dfDEMH)
                  then (if bHasDEMMissingValue psTransform
                        then whole_line_finish psTransform bRet x y dfZ_i
                               (dfDEMMissingValue psTransform)
                        else (False, \<lparr>padfX_i = HUGE_VAL, padfY_i = HUGE_VAL,
                                      panSuccess_i = False\<rparr>))
                  else whole_line_finish psTransform bRet x y dfZ_i dfDEMH))"

text \<open>A loop \<open>for (int i = 0; i < nPointCount; i++)\<close> whose body leaves a result at index
  \<open>i\<close> and may clear \<open>bRet\<close>, which starts as \<open>TRUE\<close>.\<close>

definition point_loop ::
  "(bool \<Rightarrow> nat \<Rightarrow> bool \<times> point_result) \<Rightarrow> nat \<Rightarrow> bool \<times> point_result list" where
  "point_loop body nPointCount =
     foldl (\<lambda>(bRet, out) i. case body bRet i of (bRet', r) \<Rightarrow> (bRet', out @ [r]))
       (True, []) [0..<nPointCount]"

text \<open>The entry \<open>padfZ ? padfZ[i] : 0.0\<close>.\<close>

definition Z_at :: "real list option \<Rightarrow> nat \<Rightarrow> real" where
  "Z_at padfZ i = (case padfZ of None \<Rightarrow> 0 | Some zs \<Rightarrow> zs ! i)"

text \<open>The result of a call that only clears every success flag and leaves the coordinates
  as they were.\<close>

definition all_failed :: "nat \<Rightarrow> real list \<Rightarrow> real list \<Rightarrow> point_result list" where
  "all_failed nPointCount padfX padfY =
     map (\<lambda>i. \<lparr>padfX_i = Finite (padfX ! i), padfY_i = Finite (padfY ! i),
                panSuccess_i = False\<rparr>) [0..<nPointCount]"

text \<open>\<open>GDALRPCTransformWholeLineWithDEM\<close>. The allocation of the buffer is taken to
  succeed; a failed read clears every flag.\<close>

definition GDALRPCTransformWholeLineWithDEM ::
  "externals \<Rightarrow> GDALRPCTransformInfo \<Rightarrow> GDALDataset \<Rightarrow> nat \<Rightarrow> real list \<Rightarrow> real list
     \<Rightarrow> real list option \<Rightarrow> int \<Rightarrow> int \<Rightarrow> int \<Rightarrow> int \<Rightarrow> bool \<times> point_result list" where
  "GDALRPCTransformWholeLineWithDEM ext psTransform ds nPointCount padfX padfY padfZ
       nXLeft nXWidth nYTop nYHeight =
     (case RasterIO ds nXLeft nYTop nXWidth nYHeight of
        None \<Rightarrow> (False, all_failed nPointCount padfX padfY)
      | Some padfDEMBuffer \<Rightarrow>
          (let dfY = adfDEMReverseGeoTransform psTransform ! 3 +
                     padfY ! 0 * adfDEMReverseGeoTransform psTransform ! 5 - 0.5;
               nY = double_to_int dfY;
               dfDeltaY = dfY - real_of_int nY
           in point_loop
                (\<lambda>bRet i. whole_line_point ext psTransform (GetNoDataValue ds) padfDEMBuffer
                              nXLeft nXWidth dfDeltaY bRet (padfX ! i) (padfY ! i) (Z_at padfZ i))
                nPointCount))"

subsection \<open>The transform\<close>

text \<open>One iteration of the per-point loop of the ground-to-image direction.\<close>

definition forward_point ::
  "GDALRPCTransformInfo \<Rightarrow> bool \<Rightarrow> real \<Rightarrow> real \<Rightarrow> real \<Rightarrow> bool \<times> point_result" where
  "forward_point psTransform bRet x y dfZ_i =
     (if \<not> RPCIsValidLongLat psTransform x y
      then (False, \<lparr>padfX_i = HUGE_VAL, padfY_i = HUGE_VAL, panSuccess_i = False\<rparr>)
      else (case fst (GDALRPCGetHeightAtLongLat psTransform x y) of
              None \<Rightarrow> (False, \<lparr>padfX_i = HUGE_VAL, padfY_i = HUGE_VAL, panSuccess_i = False\<rparr>)
            | Some dfHeight \<Rightarrow>
                (case RPCTransformPoint (sRPC psTransform) x y (dfZ_i + dfHeight) of
                   (px, py) \<Rightarrow>
                     (bRet, \<lparr>padfX_i = Finite px, padfY_i = Finite py, panSuccess_i = True\<rparr>))))"

text \<open>The per-point loop of the ground-to-image direction (the path taken when the row
  optimizer does not apply).\<close>

definition GDALRPCTransform_forward_loop ::
  "GDALRPCTransformInfo \<Rightarrow> nat \<Rightarrow> real list \<Rightarrow> real list \<Rightarrow> real list option
     \<Rightarrow> bool \<times> point_result list" where
  "GDALRPCTransform_forward_loop psTransform nPointCount padfX padfY padfZ =
     point_loop (\<lambda>bRet i. forward_point psTransform bRet (padfX ! i) (padfY ! i) (Z_at padfZ i))
       nPointCount"

text \<open>One iteration of the loop of the image-to-ground direction. As in the source, the
  footprint test after the solve is applied to \<open>padfX[i]\<close> and \<open>padfY[i]\<close>, which still
  hold the pixel and line passed in.\<close>

definition inverse_point ::
  "GDALRPCTransformInfo \<Rightarrow> bool \<Rightarrow> real \<Rightarrow> real \<Rightarrow> real \<Rightarrow> bool \<times> point_result" where
  "inverse_point psTransform bRet x y z =
     (case RPCInverseTransformPoint psTransform x y z of
        None \<Rightarrow> (False, \<lparr>padfX_i = HUGE_VAL, padfY_i = HUGE_VAL, panSuccess_i = False\<rparr>)
      | Some (dfResX, dfResY) \<Rightarrow>
          if \<not> RPCIsValidLongLat psTransform x y
          then (False, \<lparr>padfX_i = HUGE_VAL, padfY_i = HUGE_VAL, panSuccess_i = False\<rparr>)
          else (bRet, \<lparr>padfX_i = Finite dfResX, padfY_i = Finite dfResY,
                       panSuccess_i = True\<rparr>))"

text \<open>The loop in the test of the row optimizer that checks the latitudes and finds the
  least and greatest longitude; it stops at the first latitude that differs.\<close>

function optimizer_scan ::
  "nat \<Rightarrow> real list \<Rightarrow> real list \<Rightarrow> nat \<Rightarrow> real \<Rightarrow> real \<Rightarrow> bool \<times> real \<times> real" where
  "optimizer_scan nPointCount padfX padfY i dfMinX dfMaxX =
     (if i < nPointCount
      then (if padfY ! i \<noteq> padfY ! 0 then (False, dfMinX, dfMaxX)
            else optimizer_scan nPointCount padfX padfY (i + 1)
                   (if padfX ! i < dfMinX then padfX ! i else dfMinX)
                   (if padfX ! i > dfMaxX then padfX ! i else dfMaxX))
      else (True, dfMinX, dfMaxX))"
  by pat_completeness auto
termination
  by (relation "measure (\<lambda>(n, xs, ys, i, lo, hi). n - i)") auto

declare optimizer_scan.simps [simp del]

text \<open>The applicability test of the row optimizer: the window \<open>(nXLeft, nXWidth, nYTop,
  nYHeight)\<close> to read when the optimizer engages, else \<open>None\<close>.\<close>

definition optimizer_window ::
  "externals \<Rightarrow> GDALRPCTransformInfo \<Rightarrow> nat \<Rightarrow> real list \<Rightarrow> real list
     \<Rightarrow> (GDALDataset \<times> int \<times> int \<times> int \<times> int) option" where
  "optimizer_window ext psTransform nPointCount padfX padfY =
     (case poDS psTransform of
        None \<Rightarrow> None
      | Some ds \<Rightarrow>
          if nPointCount \<ge> 10 \<and> poCT psTransform = None \<and>
             padfY ! 0 = padfY ! (nPointCount - 1) \<and>
             padfY ! 0 = padfY ! (nPointCount div 2) \<and>
             adfDEMReverseGeoTransform psTransform ! 1 > 0 \<and>
             adfDEMReverseGeoTransform psTransform ! 2 = 0 \<and>
             adfDEMReverseGeoTransform psTransform ! 4 = 0 \<and>
             GDAL_RPC_DEM_OPTIM ext
          then (case optimizer_scan nPointCount padfX padfY 1 (padfX ! 0) (padfX ! 0) of
                  (bUseOptimized, dfMinX, dfMaxX) \<Rightarrow>
                    if bUseOptimized
                    then (case (GDALApplyGeoTransform (adfDEMReverseGeoTransform psTransform)
                                  dfMinX (padfY ! 0),
                                GDALApplyGeoTransform (adfDEMReverseGeoTransform psTransform)
                                  dfMaxX (padfY ! 0)) of
                            ((dfX1', dfY1'), (dfX2', dfY2')) \<Rightarrow>
                              (let shift = (if eResampleAlg psTransform \<noteq> DRA_NearestNeighbour
                                            then 0.5 else 0);
                                   dfX1 = dfX1' - shift;
                                   dfY1 = dfY1' - shift;
                                   dfX2 = dfX2' - shift;
                                   nXLeft0 = \<lfloor>dfX1\<rfloor>;
                                   nXRight = \<lfloor>dfX2\<rfloor>;
                                   nXWidth0 = nXRight - nXLeft0 + 1;
                                   nYTop0 = \<lfloor>dfY1\<rfloor>;
                                   w = (if eResampleAlg psTransform = DRA_CubicSpline
                                        then (nXLeft0 - 1, nXWidth0 + 3, nYTop0 - 1, 4)
                                        else if eResampleAlg psTransform = DRA_Bilinear
                                        then (nXLeft0, nXWidth0 + 1, nYTop0, 2)
                                        else (nXLeft0, nXWidth0, nYTop0, 1))
                               in case w of
                                    (nXLeft, nXWidth, nYTop, nYHeight) \<Rightarrow>
                                      if nXLeft \<ge> 0 \<and> nXLeft + nXWidth \<le> GetRasterXSize ds \<and>
                                         nYTop \<ge> 0 \<and> nYTop + nYHeight \<le> GetRasterYSize ds
                                      then Some (ds, nXLeft, nXWidth, nYTop, nYHeight)
                                      else None))
                    else None)
          else None)"

text \<open>\<open>GDALRPCTransform\<close>. \<open>bDstToSrc\<close> is flipped when the transformer is reversed; the
  ground-to-image direction goes through the row optimizer when its test holds, else through
  the per-point loop; the other direction needs the Z array and runs the inverse solver.\<close>

definition GDALRPCTransform ::
  "externals \<Rightarrow> GDALRPCTransformInfo \<Rightarrow> bool \<Rightarrow> nat \<Rightarrow> real list \<Rightarrow> real list
     \<Rightarrow> real list option \<Rightarrow> bool \<times> point_result list" where
  "GDALRPCTransform ext psTransform bDstToSrcIn nPointCount padfX padfY padfZ =
     (let bDstToSrc = (if bReversed psTransform \<noteq> 0 then \<not> bDstToSrcIn else bDstToSrcIn)
      in if bDstToSrc
         then (case optimizer_window ext psTransform nPointCount padfX padfY of
                 Some (ds, nXLeft, nXWidth, nYTop, nYHeight) \<Rightarrow>
                   GDALRPCTransformWholeLineWithDEM ext psTransform ds nPointCount padfX padfY
                     padfZ nXLeft nXWidth nYTop nYHeight
               | None \<Rightarrow>
                   GDALRPCTransform_forward_loop psTransform nPointCount padfX padfY padfZ)
         else (case padfZ of
                 None \<Rightarrow> (False, all_failed nPointCount padfX padfY)
               | Some zs \<Rightarrow>
                   point_loop
                     (\<lambda>bRet i. inverse_point psTransform bRet (padfX ! i) (padfY ! i) (zs ! i))
                     nPointCount))"

subsection \<open>Option lists and the serialization tree\<close>

text \<open>Modelled from the spec: the option set is a configuration map with recognized keys
  (the string-list functions of cpl\_string are not under src). A list of \<open>NAME=VALUE\<close>
  strings is an association list; \<open>CSLFetchNameValue\<close> gives the value of the first entry
  with the name, \<open>CSLSetNameValue\<close> replaces the value of that entry or appends a new one.
  The names compared here are the fixed upper-case names of gdal\_rpc.cpp.\<close>

type_synonym CSL = "(string \<times> string) list"

definition CSLFetchNameValue :: "CSL \<Rightarrow> string \<Rightarrow> string option" where
  "CSLFetchNameValue papszStrList pszName = map_of papszStrList pszName"

definition CSLFetchNameValueDef :: "CSL \<Rightarrow> string \<Rightarrow> string \<Rightarrow> string" where
  "CSLFetchNameValueDef papszStrList pszName pszDefault =
     (case CSLFetchNameValue papszStrList pszName of None \<Rightarrow> pszDefault | Some v \<Rightarrow> v)"

fun CSLSetNameValue :: "CSL \<Rightarrow> string \<Rightarrow> string \<Rightarrow> CSL" where
  "CSLSetNameValue [] pszName pszValue = [(pszName, pszValue)]"
| "CSLSetNameValue ((k, v) # rest) pszName pszValue =
     (if k = pszName then (k, pszValue) # rest
      else (k, v) # CSLSetNameValue rest pszName pszValue)"

definition CPLFetchBool :: "externals \<Rightarrow> CSL \<Rightarrow> string \<Rightarrow> bool \<Rightarrow> bool" where
  "CPLFetchBool ext papszStrList pszKey bDefault =
     (case CSLFetchNameValue papszStrList pszKey of
        None \<Rightarrow> bDefault
      | Some v \<Rightarrow> CPLTestBool ext v)"

text \<open>\<open>EQUAL\<close>: comparison of two strings without regard to the case of ASCII letters.\<close>

definition ascii_tolower :: "char \<Rightarrow> char" where
  "ascii_tolower c =
     (
      if c = CHR ''A'' then CHR ''a''
      else if c = CHR ''B'' then CHR ''b''
      else if c = CHR ''C'' then CHR ''c''
      else if c = CHR ''D'' then CHR ''d''
      else if c = CHR ''E'' then CHR ''e''
      else if c = CHR ''F'' then CHR ''f''
      else if c = CHR ''G'' then CHR ''g''
      else if c = CHR ''H'' then CHR ''h''
      else if c = CHR ''I'' then CHR ''i''
      else if c = CHR ''J'' then CHR ''j''
      else if c = CHR ''K'' then CHR ''k''
      else if c = CHR ''L'' then CHR ''l''
      else if c = CHR ''M'' then CHR ''m''
      else if c = CHR ''N'' then CHR ''n''
      else if c = CHR ''O'' then CHR ''o''
      else if c = CHR ''P'' then CHR ''p''
      else if c = CHR ''Q'' then CHR ''q''
      else if c = CHR ''R'' then CHR ''r''
      else if c = CHR ''S'' then CHR ''s''
      else if c = CHR ''T'' then CHR ''t''
      else if c = CHR ''U'' then CHR ''u''
      else if c = CHR ''V'' then CHR ''v''
      else if c = CHR ''W'' then CHR ''w''
      else if c = CHR ''X'' then CHR ''x''
      else if c = CHR ''Y'' then CHR ''y''
      else if c = CHR ''Z'' then CHR ''z''
      else c)"

definition EQUAL :: "string \<Rightarrow> string \<Rightarrow> bool" where
  "EQUAL a b = (map ascii_tolower a = map ascii_tolower b)"

text \<open>Modelled from the spec: serialization exports to and imports from a generic
  hierarchical key-value tree (cpl\_minixml is not under src). A node has a type, a value and
  children; an element's text is its child of type \<open>CXT_Text\<close>, an attribute's value is
  its child. \<open>CPLCreateXMLElementAndValue\<close> builds an element with one text child;
  \<open>CPLGetXMLNode\<close> finds the first child element or attribute with a name;
  \<open>CPLGetXMLValue\<close> reads the text of that child, or gives the default.\<close>

datatype CPLXMLNodeType = CXT_Element | CXT_Text | CXT_Attribute

datatype CPLXMLNode = XMLNode (eType: CPLXMLNodeType) (pszValue: string) (psChild: "CPLXMLNode list")

definition CPLCreateXMLElementAndValue :: "string \<Rightarrow> string \<Rightarrow> CPLXMLNode" where
  "CPLCreateXMLElementAndValue pszName pszText =
     XMLNode CXT_Element pszName [XMLNode CXT_Text pszText []]"

definition CPLGetXMLNode :: "CPLXMLNode \<Rightarrow> string \<Rightarrow> CPLXMLNode option" where
  "CPLGetXMLNode psRoot pszPath =
     find (\<lambda>n. (eType n = CXT_Element \<or> eType n = CXT_Attribute) \<and> EQUAL (pszValue n) pszPath)
       (psChild psRoot)"

definition CPLGetXMLValue :: "CPLXMLNode \<Rightarrow> string \<Rightarrow> string option \<Rightarrow> string option" where
  "CPLGetXMLValue psRoot pszPath pszDefault =
     (case CPLGetXMLNode psRoot pszPath of
        None \<Rightarrow> pszDefault
      | Some psTarget \<Rightarrow>
          if eType psTarget = CXT_Attribute
          then (case psChild psTarget of [] \<Rightarrow> pszDefault | c # _ \<Rightarrow> Some (pszValue c))
          else (case dropWhile (\<lambda>c. eType c = CXT_Attribute) (psChild psTarget) of
                  [c] \<Rightarrow> if eType c = CXT_Text then Some (pszValue c) else pszDefault
                | _ \<Rightarrow> pszDefault))"

text \<open>\<open>CPLGetXMLValue\<close> called with a default that is not null.\<close>

definition CPLGetXMLValueDef :: "CPLXMLNode \<Rightarrow> string \<Rightarrow> string \<Rightarrow> string" where
  "CPLGetXMLValueDef psRoot pszPath pszDefault =
     (case CPLGetXMLValue psRoot pszPath (Some pszDefault) of
        None \<Rightarrow> pszDefault
      | Some v \<Rightarrow> v)"

subsection \<open>Metadata of the RPC model\<close>

text \<open>The loop of \<open>RPCInfoV2ToMD\<close> that joins the twenty coefficients, printed with
  \<open>%.15g\<close>, by single spaces.\<close>

fun join_fields :: "string list \<Rightarrow> string" where
  "join_fields [] = []"
| "join_fields [f] = f"
| "join_fields (f # fs) = f @ '' '' @ join_fields fs"

definition coeffs_field :: "externals \<Rightarrow> real list \<Rightarrow> string" where
  "coeffs_field ext coeffs = join_fields (map (printf_g15 ext) (take 20 coeffs))"

definition RPCInfoV2ToMD :: "externals \<Rightarrow> GDALRPCInfoV2 \<Rightarrow> CSL" where
  "RPCInfoV2ToMD ext psRPCInfo =
     (let md0 = (case dfERR_BIAS psRPCInfo of
                   None \<Rightarrow> []
                 | Some b \<Rightarrow> CSLSetNameValue [] ''ERR_BIAS'' (printf_g15 ext b));
          md1 = (case dfERR_RAND psRPCInfo of
                   None \<Rightarrow> md0
                 | Some r \<Rightarrow> CSLSetNameValue md0 ''ERR_RAND'' (printf_g15 ext r));
          md2 = CSLSetNameValue md1 ''LINE_OFF'' (printf_g15 ext (dfLINE_OFF psRPCInfo));
          md3 = CSLSetNameValue md2 ''SAMP_OFF'' (printf_g15 ext (dfSAMP_OFF psRPCInfo));
          md4 = CSLSetNameValue md3 ''LAT_OFF'' (printf_g15 ext (dfLAT_OFF psRPCInfo));
          md5 = CSLSetNameValue md4 ''LONG_OFF'' (printf_g15 ext (dfLONG_OFF psRPCInfo));
          md6 = CSLSetNameValue md5 ''HEIGHT_OFF'' (printf_g15 ext (dfHEIGHT_OFF psRPCInfo));
          md7 = CSLSetNameValue md6 ''LINE_SCALE'' (printf_g15 ext (dfLINE_SCALE psRPCInfo));
          md8 = CSLSetNameValue md7 ''SAMP_SCALE'' (printf_g15 ext (dfSAMP_SCALE psRPCInfo));
          md9 = CSLSetNameValue md8 ''LAT_SCALE'' (printf_g15 ext (dfLAT_SCALE psRPCInfo));
          md10 = CSLSetNameValue md9 ''LONG_SCALE'' (printf_g15 ext (dfLONG_SCALE psRPCInfo));
          md11 = CSLSetNameValue md10 ''HEIGHT_SCALE''
                   (printf_g15 ext (dfHEIGHT_SCALE psRPCInfo));
          md12 = CSLSetNameValue md11 ''MIN_LONG'' (printf_g15 ext (dfMIN_LONG psRPCInfo));
          md13 = CSLSetNameValue md12 ''MIN_LAT'' (printf_g15 ext (dfMIN_LAT psRPCInfo));
          md14 = CSLSetNameValue md13 ''MAX_LONG'' (printf_g15 ext (dfMAX_LONG psRPCInfo));
          md15 = CSLSetNameValue md14 ''MAX_LAT'' (printf_g15 ext (dfMAX_LAT psRPCInfo));
          md16 = CSLSetNameValue md15 ''LINE_NUM_COEFF''
                   (coeffs_field ext (adfLINE_NUM_COEFF psRPCInfo));
          md17 = CSLSetNameValue md16 ''LINE_DEN_COEFF''
                   (coeffs_field ext (adfLINE_DEN_COEFF psRPCInfo));
          md18 = CSLSetNameValue md17 ''SAMP_NUM_COEFF''
                   (coeffs_field ext (adfSAMP_NUM_COEFF psRPCInfo))
      in CSLSetNameValue md18 ''SAMP_DEN_COEFF''
           (coeffs_field ext (adfSAMP_DEN_COEFF psRPCInfo)))"

text \<open>Modelled from the spec: the RPC model is created from externally supplied metadata, and
  the metadata written for a model is to be enough to reconstruct it
  (\<open>GDALExtractRPCInfoV2\<close> of gdal\_misc is not under src). The reader that goes with
  \<open>RPCInfoV2ToMD\<close>, over the parser of numbers: it fails unless the four coefficient items
  are present; it reads each number from the item that \<open>RPCInfoV2ToMD\<close> writes it under, or
  takes a default; a coefficient item is split at spaces and commas, empty tokens dropped,
  and gives its twenty numbers, or twenty zeros when the count is not twenty; an error
  estimate without item is unknown.\<close>

fun tokenize_loop :: "string \<Rightarrow> string \<Rightarrow> string \<Rightarrow> string list" where
  "tokenize_loop pszDelimiters pszToken [] = (if pszToken = [] then [] else [pszToken])"
| "tokenize_loop pszDelimiters pszToken (c # cs) =
     (if c \<in> set pszDelimiters
      then (if pszToken = [] then [] else [pszToken]) @ tokenize_loop pszDelimiters [] cs
      else tokenize_loop pszDelimiters (pszToken @ [c]) cs)"

definition CSLTokenizeStringComplex :: "string \<Rightarrow> string \<Rightarrow> string list" where
  "CSLTokenizeStringComplex pszString pszDelimiters = tokenize_loop pszDelimiters [] pszString"

definition FetchDblFromMD :: "(string \<Rightarrow> real) \<Rightarrow> CSL \<Rightarrow> string \<Rightarrow> real \<Rightarrow> real" where
  "FetchDblFromMD atof papszMD pszKey dfDefault =
     (case CSLFetchNameValue papszMD pszKey of None \<Rightarrow> dfDefault | Some v \<Rightarrow> atof v)"

definition FetchCoeffsFromMD :: "(string \<Rightarrow> real) \<Rightarrow> CSL \<Rightarrow> string \<Rightarrow> real list" where
  "FetchCoeffsFromMD atof papszMD pszKey =
     (case CSLFetchNameValue papszMD pszKey of
        None \<Rightarrow> replicate 20 0
      | Some v \<Rightarrow>
          (let papszTokens = CSLTokenizeStringComplex v '' ,''
           in if length papszTokens = 20 then map atof papszTokens else replicate 20 0))"

definition ExtractRPCInfoV2 :: "(string \<Rightarrow> real) \<Rightarrow> CSL \<Rightarrow> GDALRPCInfoV2 option" where
  "ExtractRPCInfoV2 atof papszMD =
     (if CSLFetchNameValue papszMD ''LINE_NUM_COEFF'' = None \<or>
         CSLFetchNameValue papszMD ''LINE_DEN_COEFF'' = None \<or>
         CSLFetchNameValue papszMD ''SAMP_NUM_COEFF'' = None \<or>
         CSLFetchNameValue papszMD ''SAMP_DEN_COEFF'' = None
      then None
      else Some
        \<lparr> dfLINE_OFF = FetchDblFromMD atof papszMD ''LINE_OFF'' 0,
          dfSAMP_OFF = FetchDblFromMD atof papszMD ''SAMP_OFF'' 0,
          dfLAT_OFF = FetchDblFromMD atof papszMD ''LAT_OFF'' 0,
          dfLONG_OFF = FetchDblFromMD atof papszMD ''LONG_OFF'' 0,
          dfHEIGHT_OFF = FetchDblFromMD atof papszMD ''HEIGHT_OFF'' 0,
          dfLINE_SCALE = FetchDblFromMD atof papszMD ''LINE_SCALE'' 1,
          dfSAMP_SCALE = FetchDblFromMD atof papszMD ''SAMP_SCALE'' 1,
          dfLAT_SCALE = FetchDblFromMD atof papszMD ''LAT_SCALE'' 1,
          dfLONG_SCALE = FetchDblFromMD atof papszMD ''LONG_SCALE'' 1,
          dfHEIGHT_SCALE = FetchDblFromMD atof papszMD ''HEIGHT_SCALE'' 1,
          adfLINE_NUM_COEFF = FetchCoeffsFromMD atof papszMD ''LINE_NUM_COEFF'',
          adfLINE_DEN_COEFF = FetchCoeffsFromMD atof papszMD ''LINE_DEN_COEFF'',
          adfSAMP_NUM_COEFF = FetchCoeffsFromMD atof papszMD ''SAMP_NUM_COEFF'',
          adfSAMP_DEN_COEFF = FetchCoeffsFromMD atof papszMD ''SAMP_DEN_COEFF'',
          dfMIN_LONG = FetchDblFromMD atof papszMD ''MIN_LONG'' (- 180),
          dfMIN_LAT = FetchDblFromMD atof papszMD ''MIN_LAT'' (- 90),
          dfMAX_LONG = FetchDblFromMD atof papszMD ''MAX_LONG'' 180,
          dfMAX_LAT = FetchDblFromMD atof papszMD ''MAX_LAT'' 90,
          dfERR_BIAS = map_option atof (CSLFetchNameValue papszMD ''ERR_BIAS''),
          dfERR_RAND = map_option atof (CSLFetchNameValue papszMD ''ERR_RAND'') \<rparr>)"



subsection \<open>Construction\<close>

definition DEFAULT_PIX_ERR_THRESHOLD :: real where
  "DEFAULT_PIX_ERR_THRESHOLD = 0.1"

text \<open>The first part of \<open>GDALCreateRPCTransformerV2\<close>, up to the opening of the DEM: the
  state as \<open>CPLCalloc\<close> leaves it (zeros and null pointers), with the fields that are read
  from the parameters and the options.\<close>

definition transformer_from_options ::
  "externals \<Rightarrow> GDALRPCInfoV2 \<Rightarrow> int \<Rightarrow> real \<Rightarrow> CSL \<Rightarrow> GDALRPCTransformInfo" where
  "transformer_from_options ext psRPCInfo bReversedIn dfPixErrThresholdIn papszOptions =
     (let pszDEMInterpolation =
            CSLFetchNameValueDef papszOptions ''RPC_DEMINTERPOLATION'' ''bilinear'';
          pszFootprint = CSLFetchNameValue papszOptions ''RPC_FOOTPRINT'';
          geom = (case pszFootprint of None \<Rightarrow> None | Some f \<Rightarrow> createFootprintGeom ext f)
      in \<lparr> sRPC = psRPCInfo,
           adfPLToLatLongGeoTransform = [0, 0, 0, 0, 0, 0],
           dfRefZ = 0,
           bReversed = bReversedIn,
           dfPixErrThreshold =
             (case CSLFetchNameValue papszOptions ''RPC_PIXEL_ERROR_THRESHOLD'' of
                Some pszPixErrThreshold \<Rightarrow> CPLAtof ext pszPixErrThreshold
              | None \<Rightarrow>
                  if dfPixErrThresholdIn > 0 then dfPixErrThresholdIn
                  else DEFAULT_PIX_ERR_THRESHOLD),
           dfHeightOffset =
             (case CSLFetchNameValue papszOptions ''RPC_HEIGHT'' of
                Some pszHeight \<Rightarrow> CPLAtof ext pszHeight | None \<Rightarrow> 0),
           dfHeightScale =
             (case CSLFetchNameValue papszOptions ''RPC_HEIGHT_SCALE'' of
                Some pszHeightScale \<Rightarrow> CPLAtof ext pszHeightScale | None \<Rightarrow> 1),
           pszDEMPath = CSLFetchNameValue papszOptions ''RPC_DEM'',
           eResampleAlg =
             (if EQUAL pszDEMInterpolation ''near'' then DRA_NearestNeighbour
              else if EQUAL pszDEMInterpolation ''bilinear'' then DRA_Bilinear
              else if EQUAL pszDEMInterpolation ''cubic'' then DRA_CubicSpline
              else DRA_Bilinear),
           bHasDEMMissingValue =
             (CSLFetchNameValue papszOptions ''RPC_DEM_MISSING_VALUE'' \<noteq> None),
           dfDEMMissingValue =
             (case CSLFetchNameValue papszOptions ''RPC_DEM_MISSING_VALUE'' of
                Some pszDEMMissingValue \<Rightarrow> CPLAtof ext pszDEMMissingValue | None \<Rightarrow> 0),
           pszDEMSRS = CSLFetchNameValue papszOptions ''RPC_DEM_SRS'',
           bApplyDEMVDatumShift =
             CPLFetchBool ext papszOptions ''RPC_DEM_APPLY_VDATUM_SHIFT'' True,
           poDS = None,
           poCT = None,
           nMaxIterations =
             atoi ext (CSLFetchNameValueDef papszOptions ''RPC_MAX_ITERATIONS'' ''0''),
           adfDEMGeoTransform = [0, 0, 0, 0, 0, 0],
           adfDEMReverseGeoTransform = [0, 0, 0, 0, 0, 0],
           pszRPCFootprint = pszFootprint,
           poRPCFootprintGeom = geom,
           poRPCFootprintPreparedGeom =
             (if OGRHasPreparedGeometrySupport ext then geom else None) \<rparr>)"

text \<open>\<open>GDALRPCOpenDEM\<close>: \<open>None\<close> when it returns false (the constructor then destroys the
  transformer), else the state with the dataset, the coordinate transformation and the two
  geotransforms. The comparison of spatial references is the external
  \<open>DEMCoordinateTransformation\<close>, which receives the SRS override \<open>pszDEMSRS\<close>.\<close>

definition GDALRPCOpenDEM ::
  "externals \<Rightarrow> GDALRPCTransformInfo \<Rightarrow> GDALRPCTransformInfo option" where
  "GDALRPCOpenDEM ext psTransform =
     (case pszDEMPath psTransform of
        None \<Rightarrow> None
      | Some path \<Rightarrow>
          (case GDALOpen ext path of
             None \<Rightarrow> None
           | Some ds \<Rightarrow>
               if GetRasterCount ds \<ge> 1
               then (case GetGeoTransform ds of
                       None \<Rightarrow> None
                     | Some gt \<Rightarrow>
                         (case GDALInvGeoTransform ext gt of
                            None \<Rightarrow> None
                          | Some rgt \<Rightarrow>
                              Some (psTransform
                                \<lparr>poDS := Some ds,
                                 poCT := DEMCoordinateTransformation ext (pszDEMSRS psTransform)
                                           (bApplyDEMVDatumShift psTransform) ds
                                           (sRPC psTransform),
                                 adfDEMGeoTransform := gt,
                                 adfDEMReverseGeoTransform := rgt\<rparr>)))
               else None))"

text \<open>The block that the constructor runs for a candidate reference point: the transform of
  the single point with the DEM, and the plain forward transform at height 0 when that
  fails. \<open>!(psTransform->bReversed)\<close> is the flag passed to \<open>GDALRPCTransform\<close>.\<close>

definition reference_pixel_line ::
  "externals \<Rightarrow> GDALRPCTransformInfo \<Rightarrow> real \<Rightarrow> real \<Rightarrow> real \<times> real" where
  "reference_pixel_line ext psTransform dfRefLong dfRefLat =
     (case GDALRPCTransform ext psTransform (bReversed psTransform = 0) 1
             [dfRefLong] [dfRefLat] (Some [0]) of
        (bRet, out) \<Rightarrow>
          (case (bRet \<and> panSuccess_i (out ! 0), padfX_i (out ! 0), padfY_i (out ! 0)) of
             (True, Finite dfX, Finite dfY) \<Rightarrow> (dfX, dfY)
           | _ \<Rightarrow> RPCTransformPoint (sRPC psTransform) dfRefLong dfRefLat 0))"

text \<open>The reference point of the constructor, as \<open>(dfRefLong, dfRefLat, dfRefPixel,
  dfRefLine)\<close>: the centre of the validity box when the box is not the whole range of
  longitudes, and the offset point of the model when there is no such box or the pixel and
  line found for it are negative or above 100000.\<close>

definition reference_point ::
  "externals \<Rightarrow> GDALRPCTransformInfo \<Rightarrow> real \<times> real \<times> real \<times> real" where
  "reference_point ext psTransform =
     (let psRPCInfo = sRPC psTransform
      in case (if dfMIN_LONG psRPCInfo \<noteq> - 180 \<or> dfMAX_LONG psRPCInfo \<noteq> 180
               then (case reference_pixel_line ext psTransform
                            ((dfMIN_LONG psRPCInfo + dfMAX_LONG psRPCInfo) * 0.5)
                            ((dfMIN_LAT psRPCInfo + dfMAX_LAT psRPCInfo) * 0.5) of
                       (dfRefPixel, dfRefLine) \<Rightarrow>
                         ((dfMIN_LONG psRPCInfo + dfMAX_LONG psRPCInfo) * 0.5,
                          (dfMIN_LAT psRPCInfo + dfMAX_LAT psRPCInfo) * 0.5,
                          dfRefPixel, dfRefLine))
               else (0, 0, - 1, - 1)) of
           (dfRefLong, dfRefLat, dfRefPixel, dfRefLine) \<Rightarrow>
             if dfRefPixel < 0 \<or> dfRefLine < 0 \<or> dfRefPixel > 100000 \<or> dfRefLine > 100000
             then (case reference_pixel_line ext psTransform
                          (dfLONG_OFF psRPCInfo) (dfLAT_OFF psRPCInfo) of
                     (dfRefPixel', dfRefLine') \<Rightarrow>
                       (dfLONG_OFF psRPCInfo, dfLAT_OFF psRPCInfo, dfRefPixel', dfRefLine'))
             else (dfRefLong, dfRefLat, dfRefPixel, dfRefLine))"

text \<open>The rest of the constructor: the reference height, the affine approximation from two
  nearby points and its inverse.\<close>

definition establish_reference ::
  "externals \<Rightarrow> GDALRPCTransformInfo \<Rightarrow> GDALRPCTransformInfo option" where
  "establish_reference ext psTransform =
     (case reference_point ext psTransform of
        (dfRefLong, dfRefLat, dfRefPixel, dfRefLine) \<Rightarrow>
          (let refZ = (case fst (GDALRPCGetHeightAtLongLat psTransform dfRefLong dfRefLat) of
                         None \<Rightarrow> 0 | Some h \<Rightarrow> h);
               dfLLDelta = 0.0001;
               d1 = RPCTransformPoint (sRPC psTransform) (dfRefLong + dfLLDelta) dfRefLat refZ;
               gt1 = (fst d1 - dfRefPixel) / dfLLDelta;
               gt4 = (snd d1 - dfRefLine) / dfLLDelta;
               d2 = RPCTransformPoint (sRPC psTransform) dfRefLong (dfRefLat + dfLLDelta) refZ;
               gt2 = (fst d2 - dfRefPixel) / dfLLDelta;
               gt5 = (snd d2 - dfRefLine) / dfLLDelta;
               gt0 = dfRefPixel - gt1 * dfRefLong - gt2 * dfRefLat;
               gt3 = dfRefLine - gt4 * dfRefLong - gt5 * dfRefLat
           in case GDALInvGeoTransform ext [gt0, gt1, gt2, gt3, gt4, gt5] of
                None \<Rightarrow> None
              | Some igt \<Rightarrow>
                  Some (psTransform\<lparr>dfRefZ := refZ, adfPLToLatLongGeoTransform := igt\<rparr>)))"

text \<open>\<open>GDALCreateRPCTransformerV2\<close>; \<open>None\<close> is the null pointer it returns on failure.\<close>

definition GDALCreateRPCTransformerV2 ::
  "externals \<Rightarrow> GDALRPCInfoV2 \<Rightarrow> int \<Rightarrow> real \<Rightarrow> CSL \<Rightarrow> GDALRPCTransformInfo option" where
  "GDALCreateRPCTransformerV2 ext psRPCInfo bReversedIn dfPixErrThresholdIn papszOptions =
     (let psTransform =
            transformer_from_options ext psRPCInfo bReversedIn dfPixErrThresholdIn papszOptions
      in case (if pszDEMPath psTransform \<noteq> None then GDALRPCOpenDEM ext psTransform
               else Some psTransform) of
           None \<Rightarrow> None
         | Some psTransform' \<Rightarrow> establish_reference ext psTransform')"

subsection \<open>Clone\<close>

definition GDALSerializeRPCDEMResample :: "DEMResampleAlg \<Rightarrow> string" where
  "GDALSerializeRPCDEMResample alg =
     (case alg of
        DRA_NearestNeighbour \<Rightarrow> ''near''
      | DRA_CubicSpline \<Rightarrow> ''cubic''
      | DRA_Bilinear \<Rightarrow> ''bilinear'')"

text \<open>The option list that \<open>GDALCreateSimilarRPCTransformer\<close> builds.\<close>

definition similar_options :: "externals \<Rightarrow> GDALRPCTransformInfo \<Rightarrow> CSL" where
  "similar_options ext psInfo =
     (let o1 = CSLSetNameValue [] ''RPC_HEIGHT'' (printf_g17 ext (dfHeightOffset psInfo));
          o2 = CSLSetNameValue o1 ''RPC_HEIGHT_SCALE'' (printf_g17 ext (dfHeightScale psInfo));
          o3 = (case pszDEMPath psInfo of
                  None \<Rightarrow> o2
                | Some path \<Rightarrow>
                    (let d1 = CSLSetNameValue o2 ''RPC_DEM'' path;
                         d2 = CSLSetNameValue d1 ''RPC_DEMINTERPOLATION''
                                (GDALSerializeRPCDEMResample (eResampleAlg psInfo));
                         d3 = (if bHasDEMMissingValue psInfo
                               then CSLSetNameValue d2 ''RPC_DEM_MISSING_VALUE''
                                      (printf_g17 ext (dfDEMMissingValue psInfo))
                               else d2)
                     in CSLSetNameValue d3 ''RPC_DEM_APPLY_VDATUM_SHIFT''
                          (if bApplyDEMVDatumShift psInfo then ''TRUE'' else ''FALSE'')))
      in CSLSetNameValue o3 ''RPC_MAX_ITERATIONS'' (printf_d ext (nMaxIterations psInfo)))"

definition GDALCreateSimilarRPCTransformer ::
  "externals \<Rightarrow> GDALRPCTransformInfo \<Rightarrow> real \<Rightarrow> real \<Rightarrow> GDALRPCTransformInfo option" where
  "GDALCreateSimilarRPCTransformer ext psInfo dfRatioX dfRatioY =
     (let rpc = sRPC psInfo;
          rpc' = (if dfRatioX \<noteq> 1 \<or> dfRatioY \<noteq> 1
                  then rpc\<lparr>dfLINE_OFF := dfLINE_OFF rpc / dfRatioY,
                           dfLINE_SCALE := dfLINE_SCALE rpc / dfRatioY,
                           dfSAMP_OFF := dfSAMP_OFF rpc / dfRatioX,
                           dfSAMP_SCALE := dfSAMP_SCALE rpc / dfRatioX\<rparr>
                  else rpc)
      in GDALCreateRPCTransformerV2 ext rpc' (bReversed psInfo) (dfPixErrThreshold psInfo)
           (similar_options ext psInfo))"

subsection \<open>Serialization\<close>

definition GDALSerializeRPCTransformer :: "externals \<Rightarrow> GDALRPCTransformInfo \<Rightarrow> CPLXMLNode" where
  "GDALSerializeRPCTransformer ext psInfo =
     XMLNode CXT_Element ''RPCTransformer''
       ([CPLCreateXMLElementAndValue ''Reversed'' (printf_d ext (bReversed psInfo)),
         CPLCreateXMLElementAndValue ''HeightOffset'' (printf_g15 ext (dfHeightOffset psInfo))] @
        (if dfHeightScale psInfo \<noteq> 1
         then [CPLCreateXMLElementAndValue ''HeightScale''
                 (printf_g15 ext (dfHeightScale psInfo))]
         else []) @
        (case pszDEMPath psInfo of
           None \<Rightarrow> []
         | Some path \<Rightarrow>
             [CPLCreateXMLElementAndValue ''DEMPath'' path,
              CPLCreateXMLElementAndValue ''DEMInterpolation''
                (GDALSerializeRPCDEMResample (eResampleAlg psInfo))] @
             (if bHasDEMMissingValue psInfo
              then [CPLCreateXMLElementAndValue ''DEMMissingValue''
                      (printf_g17 ext (dfDEMMissingValue psInfo))]
              else []) @
             [CPLCreateXMLElementAndValue ''DEMApplyVDatumShift''
                (if bApplyDEMVDatumShift psInfo then ''true'' else ''false'')] @
             (case pszDEMSRS psInfo of
                None \<Rightarrow> []
              | Some srs \<Rightarrow> [CPLCreateXMLElementAndValue ''DEMSRS'' srs])) @
        [CPLCreateXMLElementAndValue ''PixErrThreshold''
           (printf_g15 ext (dfPixErrThreshold psInfo)),
         XMLNode CXT_Element ''Metadata''
           (map (\<lambda>(pszKey, pszRawValue).
                   XMLNode CXT_Element ''MDI''
                     [XMLNode CXT_Attribute ''key'' [XMLNode CXT_Text pszKey []],
                      XMLNode CXT_Text pszRawValue []])
              (RPCInfoV2ToMD ext (sRPC psInfo)))])"

text \<open>The element that the loop of the serializer appends for one metadata item.\<close>

definition MDI_node :: "string \<times> string \<Rightarrow> CPLXMLNode" where
  "MDI_node = (\<lambda>(pszKey, pszRawValue).
                   XMLNode CXT_Element ''MDI''
                     [XMLNode CXT_Attribute ''key'' [XMLNode CXT_Text pszKey []],
                      XMLNode CXT_Text pszRawValue []])"

text \<open>The loop of \<open>GDALDeserializeRPCTransformer\<close> over the children of the metadata
  node.\<close>

definition collect_metadata :: "CPLXMLNode list \<Rightarrow> CSL" where
  "collect_metadata children =
     foldl (\<lambda>papszMD psMDI.
              if \<not> EQUAL (pszValue psMDI) ''MDI'' \<or> eType psMDI \<noteq> CXT_Element
              then papszMD
              else (case psChild psMDI of
                      a # b # _ \<Rightarrow>
                        if eType a \<noteq> CXT_Attribute then papszMD
                        else (case psChild a of
                                [] \<Rightarrow> papszMD
                              | k # _ \<Rightarrow> CSLSetNameValue papszMD (pszValue k) (pszValue b))
                    | _ \<Rightarrow> papszMD))
       [] children"

text \<open>The option list that \<open>GDALDeserializeRPCTransformer\<close> builds from the tree.\<close>

definition deserialized_options :: "CPLXMLNode \<Rightarrow> CSL" where
  "deserialized_options psTree =
     (let o1 = CSLSetNameValue [] ''RPC_HEIGHT''
                 (CPLGetXMLValueDef psTree ''HeightOffset'' ''0'');
          o2 = CSLSetNameValue o1 ''RPC_HEIGHT_SCALE''
                 (CPLGetXMLValueDef psTree ''HeightScale'' ''1'');
          o3 = (case CPLGetXMLValue psTree ''DEMPath'' None of
                  None \<Rightarrow> o2
                | Some pszPath \<Rightarrow> CSLSetNameValue o2 ''RPC_DEM'' pszPath);
          o4 = (case CPLGetXMLValue psTree ''DEMInterpolation'' (Some ''bilinear'') of
                  None \<Rightarrow> o3
                | Some pszDEMInterpolation \<Rightarrow>
                    CSLSetNameValue o3 ''RPC_DEMINTERPOLATION'' pszDEMInterpolation);
          o5 = (case CPLGetXMLValue psTree ''DEMMissingValue'' None of
                  None \<Rightarrow> o4
                | Some pszDEMMissingValue \<Rightarrow>
                    CSLSetNameValue o4 ''RPC_DEM_MISSING_VALUE'' pszDEMMissingValue);
          o6 = (case CPLGetXMLValue psTree ''DEMApplyVDatumShift'' None of
                  None \<Rightarrow> o5
                | Some pszDEMApplyVDatumShift \<Rightarrow>
                    CSLSetNameValue o5 ''RPC_DEM_APPLY_VDATUM_SHIFT'' pszDEMApplyVDatumShift)
      in case CPLGetXMLValue psTree ''DEMSRS'' None of
           None \<Rightarrow> o6
         | Some srs \<Rightarrow> CSLSetNameValue o6 ''RPC_DEM_SRS'' srs)"

definition GDALDeserializeRPCTransformer ::
  "externals \<Rightarrow> CPLXMLNode \<Rightarrow> GDALRPCTransformInfo option" where
  "GDALDeserializeRPCTransformer ext psTree =
     (case CPLGetXMLNode psTree ''Metadata'' of
        None \<Rightarrow> None
      | Some psMetadata \<Rightarrow>
          if eType psMetadata \<noteq> CXT_Element \<or> \<not> EQUAL (pszValue psMetadata) ''Metadata''
          then None
          else (case GDALExtractRPCInfoV2 ext (collect_metadata (psChild psMetadata)) of
                  None \<Rightarrow> None
                | Some rpc \<Rightarrow>
                    GDALCreateRPCTransformerV2 ext rpc
                      (atoi ext (CPLGetXMLValueDef psTree ''Reversed'' ''0''))
                      (CPLAtof ext
                         (CPLGetXMLValueDef psTree ''PixErrThreshold''
                            (printf_f ext DEFAULT_PIX_ERR_THRESHOLD)))
                      (deserialized_options psTree)))"

section \<open>Concrete inputs\<close>

text \<open>A small model, used to run the code on concrete inputs: all offsets 0, all scales 1,
  sample numerator \<open>P + H\<close>, line numerator \<open>L\<close>, both denominators 1, and the validity box
  \<open>[0, 100] \<times> [0, 100]\<close>. Its forward transform is \<open>pixel = long + height + 0.5\<close>,
  \<open>line = lat + 0.5\<close>.\<close>

definition example_rpc :: GDALRPCInfoV2 where
  "example_rpc =
     \<lparr> dfLINE_OFF = 0, dfSAMP_OFF = 0, dfLAT_OFF = 0, dfLONG_OFF = 0,
       dfHEIGHT_OFF = 0, dfLINE_SCALE = 1, dfSAMP_SCALE = 1, dfLAT_SCALE = 1,
       dfLONG_SCALE = 1, dfHEIGHT_SCALE = 1,
       adfLINE_NUM_COEFF = [0, 0, 1] @ replicate 17 0, adfLINE_DEN_COEFF = unit_coeffs,
       adfSAMP_NUM_COEFF = [0, 1, 0, 1] @ replicate 16 0, adfSAMP_DEN_COEFF = unit_coeffs,
       dfMIN_LONG = 0, dfMIN_LAT = 0, dfMAX_LONG = 100, dfMAX_LAT = 100,
       dfERR_BIAS = None, dfERR_RAND = None \<rparr>"

text \<open>Elevation rasters of 100 by 100 cells of one degree over the same box (north up): one
  of constant height \<open>h\<close>, whose interpolation fails outside the raster, and one that holds
  only the nodata value \<open>-9999\<close>, whose interpolation fails everywhere.\<close>

definition flat_dem :: "real \<Rightarrow> GDALDataset" where
  "flat_dem h =
     \<lparr> GetRasterCount = 1,
       GetGeoTransform = Some [0, 1, 0, 100, 0, - 1],
       GetRasterXSize = 100,
       GetRasterYSize = 100,
       RasterIO = (\<lambda>nXOff nYOff nXSize nYSize. Some (replicate (nat (nXSize * nYSize)) h)),
       GetNoDataValue = None,
       GDALInterpolateAtPoint =
         (\<lambda>alg dfX dfY.
            if 0 \<le> dfX \<and> dfX \<le> 100 \<and> 0 \<le> dfY \<and> dfY \<le> 100 then Some h else None) \<rparr>"

definition void_dem :: GDALDataset where
  "void_dem =
     \<lparr> GetRasterCount = 1,
       GetGeoTransform = Some [0, 1, 0, 100, 0, - 1],
       GetRasterXSize = 100,
       GetRasterYSize = 100,
       RasterIO =
         (\<lambda>nXOff nYOff nXSize nYSize. Some (replicate (nat (nXSize * nYSize)) (- 9999))),
       GetNoDataValue = Some (- 9999),
       GDALInterpolateAtPoint = (\<lambda>alg dfX dfY. None) \<rparr>"

text \<open>The externals of the examples. Numbers are printed and parsed by tables that agree
  with the C library on the few values used; the geotransform inversion is the inverse
  affine map; the cubic kernel is the B-spline; two doubles are equal when they are the same;
  the DEM needs a coordinate transformation only under an SRS override, which then shifts
  heights by 30; the one footprint text known is the box of the model; the metadata is
  read by \<open>ExtractRPCInfoV2\<close> over the same parser.\<close>

definition example_atof :: "string \<Rightarrow> real" where
  "example_atof s =
     (if s = ''1'' then 1 else if s = ''2'' then 2 else if s = ''7'' then 7
      else if s = ''100'' then 100 else if s = ''1000'' then 1000
      else if s = ''0.1'' \<or> s = ''0.100000'' \<or> s = ''0.10000000000000001'' then 0.1
      else 0)"

definition example_atoi :: "string \<Rightarrow> int" where
  "example_atoi s = (if s = ''1'' then 1 else if s = ''5'' then 5 else 0)"

definition example_g15 :: "real \<Rightarrow> string" where
  "example_g15 x =
     (if x = 0 then ''0'' else if x = 1 then ''1'' else if x = 2 then ''2''
      else if x = 7 then ''7'' else if x = 100 then ''100'' else if x = 1000 then ''1000''
      else if x = 0.1 then ''0.1'' else ''nan'')"

definition example_g17 :: "real \<Rightarrow> string" where
  "example_g17 x =
     (if x = 0.1 then ''0.10000000000000001'' else example_g15 x)"

definition example_d :: "int \<Rightarrow> string" where
  "example_d n = (if n = 1 then ''1'' else if n = 5 then ''5'' else ''0'')"

definition example_kernel :: "real \<Rightarrow> real" where
  "example_kernel x =
     (let a = (if x + 2 \<le> 0 then 0 else (x + 2) ^ 3);
          b = (if x + 1 \<le> 0 then 0 else (x + 1) ^ 3);
          c = (if x \<le> 0 then 0 else x ^ 3);
          d = (if x - 1 \<le> 0 then 0 else (x - 1) ^ 3)
      in (a - 4 * b + 6 * c - 4 * d) / 6)"

definition affine_inverse :: "real list \<Rightarrow> real list option" where
  "affine_inverse gt =
     (let det = gt ! 1 * gt ! 5 - gt ! 2 * gt ! 4
      in if det = 0 then None
         else Some [(gt ! 2 * gt ! 3 - gt ! 0 * gt ! 5) / det, gt ! 5 / det, - gt ! 2 / det,
                    (- gt ! 1 * gt ! 3 + gt ! 0 * gt ! 4) / det, - gt ! 4 / det, gt ! 1 / det])"

definition example_box :: OGRGeometry where
  "example_box dfLong dfLat = (0 \<le> dfLong \<and> dfLong \<le> 100 \<and> 0 \<le> dfLat \<and> dfLat \<le> 100)"

definition example_shift :: OGRCoordinateTransformation where
  "example_shift x y = Some (x, y, - 30)"

definition example_ext :: externals where
  "example_ext =
     \<lparr> CPLAtof = example_atof,
       atoi = example_atoi,
       CPLTestBool =
         (\<lambda>s. \<not> (EQUAL s ''NO'' \<or> EQUAL s ''FALSE'' \<or> EQUAL s ''OFF'' \<or> EQUAL s ''0'')),
       printf_g15 = example_g15,
       printf_g17 = example_g17,
       printf_d = example_d,
       printf_f = (\<lambda>x. ''0.100000''),
       CubicSplineKernel = example_kernel,
       ARE_REAL_EQUAL = (=),
       GDAL_RPC_DEM_OPTIM = True,
       GDALOpen = (\<lambda>path. if path = ''flat0'' then Some (flat_dem 0)
                           else if path = ''flat7'' then Some (flat_dem 7)
                           else if path = ''void'' then Some void_dem
                           else None),
       GDALInvGeoTransform = affine_inverse,
       DEMCoordinateTransformation =
         (\<lambda>srs vdatum ds rpc. case srs of None \<Rightarrow> None | Some _ \<Rightarrow> Some example_shift),
       createFootprintGeom =
         (\<lambda>s. if s = ''POLYGON((0 0,0 100,100 100,100 0,0 0))'' then Some example_box
               else None),
       OGRHasPreparedGeometrySupport = True,
       GDALExtractRPCInfoV2 = ExtractRPCInfoV2 example_atof \<rparr>"

text \<open>The transformer that the constructor builds from the model with no option and the
  threshold parameter 0, and the parts that an elevation raster adds.\<close>

definition example_transformer :: GDALRPCTransformInfo where
  "example_transformer =
     \<lparr> sRPC = example_rpc,
       adfPLToLatLongGeoTransform = [- 0.5, 1, 0, - 0.5, 0, 1],
       dfRefZ = 0,
       bReversed = 0,
       dfPixErrThreshold = 0.1,
       dfHeightOffset = 0,
       dfHeightScale = 1,
       pszDEMPath = None,
       eResampleAlg = DRA_Bilinear,
       bHasDEMMissingValue = False,
       dfDEMMissingValue = 0,
       pszDEMSRS = None,
       bApplyDEMVDatumShift = True,
       poDS = None,
       poCT = None,
       nMaxIterations = 0,
       adfDEMGeoTransform = [0, 0, 0, 0, 0, 0],
       adfDEMReverseGeoTransform = [0, 0, 0, 0, 0, 0],
       pszRPCFootprint = None,
       poRPCFootprintGeom = None,
       poRPCFootprintPreparedGeom = None \<rparr>"

definition with_dem :: "string \<Rightarrow> GDALDataset \<Rightarrow> GDALRPCTransformInfo \<Rightarrow> GDALRPCTransformInfo" where
  "with_dem path ds psTransform =
     psTransform\<lparr>pszDEMPath := Some path, poDS := Some ds,
                 adfDEMGeoTransform := [0, 1, 0, 100, 0, - 1],
                 adfDEMReverseGeoTransform := [0, 1, 0, 100, 0, - 1]\<rparr>"

text \<open>Options \<open>RPC_DEM=flat0\<close> and \<open>RPC_PIXEL_ERROR_THRESHOLD=0\<close>.\<close>

definition budget_transformer :: GDALRPCTransformInfo where
  "budget_transformer = with_dem ''flat0'' (flat_dem 0) (example_transformer\<lparr>dfPixErrThreshold := 0\<rparr>)"

text \<open>Option \<open>RPC_PIXEL_ERROR_THRESHOLD=0\<close>, no elevation raster.\<close>

definition zero_threshold_transformer :: GDALRPCTransformInfo where
  "zero_threshold_transformer = example_transformer\<lparr>dfPixErrThreshold := 0\<rparr>"

text \<open>Options \<open>RPC_DEM=flat7\<close> and \<open>RPC_HEIGHT=1000\<close>.\<close>

definition snap_transformer :: GDALRPCTransformInfo where
  "snap_transformer =
     with_dem ''flat7'' (flat_dem 7)
       (example_transformer\<lparr>dfHeightOffset := 1000, dfRefZ := 1007,
          adfPLToLatLongGeoTransform := [- 1007.5, 1, 0, - 0.5, 0, 1]\<rparr>)"

text \<open>Option \<open>RPC_FOOTPRINT\<close> with the box of the model.\<close>

definition footprint_transformer :: GDALRPCTransformInfo where
  "footprint_transformer =
     example_transformer
       \<lparr>pszRPCFootprint := Some ''POLYGON((0 0,0 100,100 100,100 0,0 0))'',
        poRPCFootprintGeom := Some example_box,
        poRPCFootprintPreparedGeom := Some example_box\<rparr>"

text \<open>Options \<open>RPC_DEM=void\<close> and \<open>RPC_DEMINTERPOLATION=cubic\<close>.\<close>

definition cubic_transformer :: GDALRPCTransformInfo where
  "cubic_transformer = with_dem ''void'' void_dem (example_transformer\<lparr>eResampleAlg := DRA_CubicSpline\<rparr>)"

text \<open>Options \<open>RPC_DEM=flat7\<close>, \<open>RPC_DEMINTERPOLATION=near\<close>, \<open>RPC_HEIGHT=1000\<close> and
  \<open>RPC_HEIGHT_SCALE=2\<close>.\<close>

definition scaled_transformer :: GDALRPCTransformInfo where
  "scaled_transformer =
     with_dem ''flat7'' (flat_dem 7)
       (example_transformer\<lparr>eResampleAlg := DRA_NearestNeighbour, dfHeightOffset := 1000,
          dfHeightScale := 2, dfRefZ := 1014,
          adfPLToLatLongGeoTransform := [- 1014.5, 1, 0, - 0.5, 0, 1]\<rparr>)"

text \<open>Options \<open>RPC_DEM=flat7\<close>, \<open>RPC_DEM_SRS=EPSG:4979\<close>, \<open>RPC_FOOTPRINT\<close> with the box
  of the model and \<open>RPC_MAX_ITERATIONS=5\<close>; and the transformer that
  \<open>GDALCreateSimilarRPCTransformer\<close> makes of it with both ratios 1.\<close>

definition override_transformer :: GDALRPCTransformInfo where
  "override_transformer =
     with_dem ''flat7'' (flat_dem 7)
       (footprint_transformer\<lparr>pszDEMSRS := Some ''EPSG:4979'', poCT := Some example_shift,
          nMaxIterations := 5, dfRefZ := 37,
          adfPLToLatLongGeoTransform := [- 37.5, 1, 0, - 0.5, 0, 1]\<rparr>)"

definition clone_transformer :: GDALRPCTransformInfo where
  "clone_transformer =
     with_dem ''flat7'' (flat_dem 7)
       (example_transformer\<lparr>nMaxIterations := 5, dfRefZ := 7,
          adfPLToLatLongGeoTransform := [- 7.5, 1, 0, - 0.5, 0, 1]\<rparr>)"


text \<open>A row of ten points at latitude 50, longitudes 10 to 19.\<close>

definition row_X :: "real list" where
  "row_X = [10, 11, 12, 13, 14, 15, 16, 17, 18, 19]"

definition row_Y :: "real list" where
  "row_Y = replicate 10 50"

section \<open>Properties\<close>

subsection \<open>The evaluator\<close>

lemma RPCEvaluate_loop_unfold:
  "RPCEvaluate_loop t c 0 0 0 =
     (t ! 0 * c ! 0 + t ! 2 * c ! 2 + t ! 4 * c ! 4 + t ! 6 * c ! 6 + t ! 8 * c ! 8 +
      t ! 10 * c ! 10 + t ! 12 * c ! 12 + t ! 14 * c ! 14 + t ! 16 * c ! 16 + t ! 18 * c ! 18,
      t ! 1 * c ! 1 + t ! 3 * c ! 3 + t ! 5 * c ! 5 + t ! 7 * c ! 7 + t ! 9 * c ! 9 +
      t ! 11 * c ! 11 + t ! 13 * c ! 13 + t ! 15 * c ! 15 + t ! 17 * c ! 17 + t ! 19 * c ! 19)"
  by (simp add: RPCEvaluate_loop.simps [of t c] del: add_2_eq_Suc add_2_eq_Suc')

lemma lessThan_20: "{..<20::nat} = {0,1,2,3,4,5,6,7,8,9,10,11,12,13,14,15,16,17,18,19}"
  by auto arith

lemma dot20_unfold:
  "dot20 t c =
     t ! 0 * c ! 0 + t ! 1 * c ! 1 + t ! 2 * c ! 2 + t ! 3 * c ! 3 + t ! 4 * c ! 4 +
     t ! 5 * c ! 5 + t ! 6 * c ! 6 + t ! 7 * c ! 7 + t ! 8 * c ! 8 + t ! 9 * c ! 9 +
     t ! 10 * c ! 10 + t ! 11 * c ! 11 + t ! 12 * c ! 12 + t ! 13 * c ! 13 + t ! 14 * c ! 14 +
     t ! 15 * c ! 15 + t ! 16 * c ! 16 + t ! 17 * c ! 17 + t ! 18 * c ! 18 + t ! 19 * c ! 19"
  unfolding dot20_def lessThan_20 by simp

lemma RPCEvaluate_dot20: "RPCEvaluate t c = dot20 t c"
  by (simp add: RPCEvaluate_def RPCEvaluate_loop_unfold dot20_unfold)

text \<open>The SSE2 loop keeps the even indices in the first lane and the odd ones in the second,
  for each of the four vectors at its offset in \<open>padfCoefs\<close>.\<close>

lemma dot20_at_unfold:
  "dot20_at t c k =
     t ! 0 * c ! k + t ! 1 * c ! (1 + k) + t ! 2 * c ! (2 + k) + t ! 3 * c ! (3 + k) +
     t ! 4 * c ! (4 + k) + t ! 5 * c ! (5 + k) + t ! 6 * c ! (6 + k) + t ! 7 * c ! (7 + k) +
     t ! 8 * c ! (8 + k) + t ! 9 * c ! (9 + k) + t ! 10 * c ! (10 + k) + t ! 11 * c ! (11 + k) +
     t ! 12 * c ! (12 + k) + t ! 13 * c ! (13 + k) + t ! 14 * c ! (14 + k) +
     t ! 15 * c ! (15 + k) + t ! 16 * c ! (16 + k) + t ! 17 * c ! (17 + k) +
     t ! 18 * c ! (18 + k) + t ! 19 * c ! (19 + k)"
  unfolding dot20_at_def lessThan_20 by simp

lemma RPCEvaluate4_loop_unfold:
  "RPCEvaluate4_loop t c 0 (0, 0) (0, 0) (0, 0) (0, 0) = (s1, s2, s3, s4) \<Longrightarrow>
     GetHorizSum s1 = dot20_at t c 0 \<and> GetHorizSum s2 = dot20_at t c 20 \<and>
     GetHorizSum s3 = dot20_at t c 40 \<and> GetHorizSum s4 = dot20_at t c 60"
  by (simp add: RPCEvaluate4_loop.simps [of t c] Let_def Load2ValAligned_def xmm_add_def
      xmm_mul_def GetHorizSum_def dot20_at_unfold del: add_2_eq_Suc add_2_eq_Suc') auto

lemma RPCEvaluate4_dot20_at:
  "RPCEvaluate4 t c = (dot20_at t c 0, dot20_at t c 20, dot20_at t c 40, dot20_at t c 60)"
proof -
  obtain s1 s2 s3 s4 where
    l: "RPCEvaluate4_loop t c 0 (0, 0) (0, 0) (0, 0) (0, 0) = (s1, s2, s3, s4)"
    by (metis prod_cases4)
  from RPCEvaluate4_loop_unfold [OF l] l show ?thesis
    by (simp add: RPCEvaluate4_def)
qed

lemma padfCoeffs_nth:
  assumes "length (adfLINE_NUM_COEFF rpc) = 20" "length (adfLINE_DEN_COEFF rpc) = 20"
    "length (adfSAMP_NUM_COEFF rpc) = 20" "length (adfSAMP_DEN_COEFF rpc) = 20"
    and "i < 20"
  shows "padfCoeffs rpc ! (i + 0) = adfLINE_NUM_COEFF rpc ! i"
    and "padfCoeffs rpc ! (i + 20) = adfLINE_DEN_COEFF rpc ! i"
    and "padfCoeffs rpc ! (i + 40) = adfSAMP_NUM_COEFF rpc ! i"
    and "padfCoeffs rpc ! (i + 60) = adfSAMP_DEN_COEFF rpc ! i"
  using assms by (simp_all add: padfCoeffs_def nth_append)

lemma RPCEvaluate4_padfCoeffs:
  assumes "length (adfLINE_NUM_COEFF rpc) = 20" "length (adfLINE_DEN_COEFF rpc) = 20"
    "length (adfSAMP_NUM_COEFF rpc) = 20" "length (adfSAMP_DEN_COEFF rpc) = 20"
  shows "RPCEvaluate4 t (padfCoeffs rpc) =
           (dot20 t (adfLINE_NUM_COEFF rpc), dot20 t (adfLINE_DEN_COEFF rpc),
            dot20 t (adfSAMP_NUM_COEFF rpc), dot20 t (adfSAMP_DEN_COEFF rpc))"
  unfolding RPCEvaluate4_dot20_at dot20_at_def dot20_def
  using padfCoeffs_nth [OF assms] by simp

text \<open>The two builds of the forward transform agree.\<close>

lemma RPCTransformPoint_SSE2_eq:
  assumes "length (adfLINE_NUM_COEFF rpc) = 20" "length (adfLINE_DEN_COEFF rpc) = 20"
    "length (adfSAMP_NUM_COEFF rpc) = 20" "length (adfSAMP_DEN_COEFF rpc) = 20"
  shows "RPCTransformPoint_SSE2 rpc x y z = RPCTransformPoint rpc x y z"
  by (simp add: RPCTransformPoint_SSE2_def RPCTransformPoint_def Let_def
      RPCEvaluate4_padfCoeffs [OF assms] RPCEvaluate_dot20)

lemma scenario_rpc_lengths:
  "length (adfLINE_NUM_COEFF scenario_rpc) = 20" "length (adfLINE_DEN_COEFF scenario_rpc) = 20"
  "length (adfSAMP_NUM_COEFF scenario_rpc) = 20" "length (adfSAMP_DEN_COEFF scenario_rpc) = 20"
  by (simp_all add: scenario_rpc_def unit_coeffs_def)

lemma dot20_unit_coeffs: "dot20 (RPCComputeTerms P L H) unit_coeffs = 1"
  by (simp add: dot20_unfold unit_coeffs_def RPCComputeTerms_def numeral_eq_Suc)

text \<open>
  C4. For every normalised triple \<open>(P, L, H)\<close> (longitude, latitude, height) the evaluator
  computes the twenty monomials in the order 1, P, L, H, PL, PH, LH, P^2, L^2, H^2, PLH, P^3,
  PL^2, PH^2, P^2L, L^3, LH^2, P^2H, L^2H, H^3, and returns the four dot products of this
  vector with the line-numerator, line-denominator, sample-numerator and sample-denominator
  coefficients, in the scalar build (four calls of RPCEvaluate) as in the SSE2 build (one
  call of RPCEvaluate4).
\<close>

theorem C4_polynomial_evaluator:
  assumes "length (adfLINE_NUM_COEFF rpc) = 20" "length (adfLINE_DEN_COEFF rpc) = 20"
    "length (adfSAMP_NUM_COEFF rpc) = 20" "length (adfSAMP_DEN_COEFF rpc) = 20"
  shows "RPCComputeTerms P L H =
           [1, P, L, H, P * L, P * H, L * H, P\<^sup>2, L\<^sup>2, H\<^sup>2, P * L * H, P ^ 3, P * L\<^sup>2,
            P * H\<^sup>2, P\<^sup>2 * L, L ^ 3, L * H\<^sup>2, P\<^sup>2 * H, L\<^sup>2 * H, H ^ 3] \<and>
         RPCEvaluate (RPCComputeTerms P L H) (adfLINE_NUM_COEFF rpc) =
           (\<Sum>i<20. RPCComputeTerms P L H ! i * adfLINE_NUM_COEFF rpc ! i) \<and>
         RPCEvaluate (RPCComputeTerms P L H) (adfLINE_DEN_COEFF rpc) =
           (\<Sum>i<20. RPCComputeTerms P L H ! i * adfLINE_DEN_COEFF rpc ! i) \<and>
         RPCEvaluate (RPCComputeTerms P L H) (adfSAMP_NUM_COEFF rpc) =
           (\<Sum>i<20. RPCComputeTerms P L H ! i * adfSAMP_NUM_COEFF rpc ! i) \<and>
         RPCEvaluate (RPCComputeTerms P L H) (adfSAMP_DEN_COEFF rpc) =
           (\<Sum>i<20. RPCComputeTerms P L H ! i * adfSAMP_DEN_COEFF rpc ! i) \<and>
         RPCEvaluate4 (RPCComputeTerms P L H) (padfCoeffs rpc) =
           (\<Sum>i<20. RPCComputeTerms P L H ! i * adfLINE_NUM_COEFF rpc ! i,
            \<Sum>i<20. RPCComputeTerms P L H ! i * adfLINE_DEN_COEFF rpc ! i,
            \<Sum>i<20. RPCComputeTerms P L H ! i * adfSAMP_NUM_COEFF rpc ! i,
            \<Sum>i<20. RPCComputeTerms P L H ! i * adfSAMP_DEN_COEFF rpc ! i)"
proof -
  have terms: "RPCComputeTerms P L H =
      [1, P, L, H, P * L, P * H, L * H, P\<^sup>2, L\<^sup>2, H\<^sup>2, P * L * H, P ^ 3, P * L\<^sup>2,
       P * H\<^sup>2, P\<^sup>2 * L, L ^ 3, L * H\<^sup>2, P\<^sup>2 * H, L\<^sup>2 * H, H ^ 3]"
    by (simp add: RPCComputeTerms_def power2_eq_square power3_eq_cube algebra_simps)
  have ev: "RPCEvaluate (RPCComputeTerms P L H) c = (\<Sum>i<20. RPCComputeTerms P L H ! i * c ! i)"
    for c
    using RPCEvaluate_dot20 [of "RPCComputeTerms P L H" c] by (simp only: dot20_def)
  have ev4: "RPCEvaluate4 (RPCComputeTerms P L H) (padfCoeffs rpc) =
      (\<Sum>i<20. RPCComputeTerms P L H ! i * adfLINE_NUM_COEFF rpc ! i,
       \<Sum>i<20. RPCComputeTerms P L H ! i * adfLINE_DEN_COEFF rpc ! i,
       \<Sum>i<20. RPCComputeTerms P L H ! i * adfSAMP_NUM_COEFF rpc ! i,
       \<Sum>i<20. RPCComputeTerms P L H ! i * adfSAMP_DEN_COEFF rpc ! i)"
    using RPCEvaluate4_padfCoeffs [OF assms, of "RPCComputeTerms P L H"]
    by (simp only: dot20_def)
  from terms ev ev4 show ?thesis by blast
qed

theorem C4_polynomial_evaluator_witness:
  "length (adfLINE_NUM_COEFF scenario_rpc) = 20 \<and> length (adfLINE_DEN_COEFF scenario_rpc) = 20 \<and>
   length (adfSAMP_NUM_COEFF scenario_rpc) = 20 \<and> length (adfSAMP_DEN_COEFF scenario_rpc) = 20 \<and>
   RPCComputeTerms 2 3 5 =
     [1, 2, 3, 5, 6, 10, 15, 4, 9, 25, 30, 8, 18, 50, 12, 27, 75, 20, 45, 125] \<and>
   RPCEvaluate4 (RPCComputeTerms 2 3 5) (padfCoeffs scenario_rpc) = (1, 1, 1, 1)"
proof -
  have coeffs: "adfLINE_NUM_COEFF scenario_rpc = unit_coeffs"
    "adfLINE_DEN_COEFF scenario_rpc = unit_coeffs" "adfSAMP_NUM_COEFF scenario_rpc = unit_coeffs"
    "adfSAMP_DEN_COEFF scenario_rpc = unit_coeffs"
    by (simp_all add: scenario_rpc_def)
  have "RPCEvaluate4 (RPCComputeTerms 2 3 5) (padfCoeffs scenario_rpc) =
      (dot20 (RPCComputeTerms 2 3 5) unit_coeffs, dot20 (RPCComputeTerms 2 3 5) unit_coeffs,
       dot20 (RPCComputeTerms 2 3 5) unit_coeffs, dot20 (RPCComputeTerms 2 3 5) unit_coeffs)"
    using C4_polynomial_evaluator [OF scenario_rpc_lengths, of 2 3 5]
    unfolding coeffs dot20_def by blast
  then have e4: "RPCEvaluate4 (RPCComputeTerms 2 3 5) (padfCoeffs scenario_rpc) = (1, 1, 1, 1)"
    by (simp only: dot20_unit_coeffs)
  have t: "RPCComputeTerms 2 3 5 =
      [1, 2, 3, 5, 6, 10, 15, 4, 9, 25, 30, 8, 18, 50, 12, 27, 75, 20, 45, 125]"
    by (simp add: RPCComputeTerms_def)
  from e4 t scenario_rpc_lengths show ?thesis by blast
qed

subsection \<open>The forward transform\<close>

text \<open>
  C3 (as stated). With the scenario's model, the forward transform of
  \<open>(long, lat, height) = (-105, 40, 2000)\<close> is claimed to be \<open>(5000.5, 5000.5)\<close>. It is not:
  numerator and denominator are both 1, so the quotient 1 is scaled by 5000 before the offset
  5000 and the half pixel are added.
\<close>

theorem C3_scenario_counterexample:
  "RPCTransformPoint scenario_rpc (- 105) 40 2000 \<noteq> (5000.5, 5000.5)"
  by (simp add: RPCTransformPoint_def Let_def RPCEvaluate_dot20 dot20_unit_coeffs)
    (simp add: scenario_rpc_def dot20_unit_coeffs)

text \<open>
  C3 (amended). The forward transform computes
  \<open>pixel = (sampleNum / sampleDen) * SAMP_SCALE + SAMP_OFF + 0.5\<close> and
  \<open>line = (lineNum / lineDen) * LINE_SCALE + LINE_OFF + 0.5\<close> on the normalised inputs (the
  longitude difference wrapped by 360 degrees when beyond 270); for the scenario's model the
  point \<open>(-105, 40, 2000)\<close> is transformed to exactly \<open>(10000.5, 10000.5)\<close>, in both builds.
\<close>

theorem C3_forward_transform:
  "RPCTransformPoint rpc dfLong dfLat dfHeight =
     (let d = dfLong - dfLONG_OFF rpc;
          P = (if d < - 270 then d + 360 else if d > 270 then d - 360 else d) / dfLONG_SCALE rpc;
          L = (dfLat - dfLAT_OFF rpc) / dfLAT_SCALE rpc;
          H = (dfHeight - dfHEIGHT_OFF rpc) / dfHEIGHT_SCALE rpc;
          terms = RPCComputeTerms P L H
      in ((\<Sum>i<20. terms ! i * adfSAMP_NUM_COEFF rpc ! i) /
          (\<Sum>i<20. terms ! i * adfSAMP_DEN_COEFF rpc ! i) * dfSAMP_SCALE rpc +
            dfSAMP_OFF rpc + 0.5,
          (\<Sum>i<20. terms ! i * adfLINE_NUM_COEFF rpc ! i) /
          (\<Sum>i<20. terms ! i * adfLINE_DEN_COEFF rpc ! i) * dfLINE_SCALE rpc +
            dfLINE_OFF rpc + 0.5)) \<and>
   RPCTransformPoint scenario_rpc (- 105) 40 2000 = (10000.5, 10000.5) \<and>
   RPCTransformPoint_SSE2 scenario_rpc (- 105) 40 2000 = (10000.5, 10000.5)"
proof -
  have general: "RPCTransformPoint rpc dfLong dfLat dfHeight =
     (let d = dfLong - dfLONG_OFF rpc;
          P = (if d < - 270 then d + 360 else if d > 270 then d - 360 else d) / dfLONG_SCALE rpc;
          L = (dfLat - dfLAT_OFF rpc) / dfLAT_SCALE rpc;
          H = (dfHeight - dfHEIGHT_OFF rpc) / dfHEIGHT_SCALE rpc;
          terms = RPCComputeTerms P L H
      in ((\<Sum>i<20. terms ! i * adfSAMP_NUM_COEFF rpc ! i) /
          (\<Sum>i<20. terms ! i * adfSAMP_DEN_COEFF rpc ! i) * dfSAMP_SCALE rpc +
            dfSAMP_OFF rpc + 0.5,
          (\<Sum>i<20. terms ! i * adfLINE_NUM_COEFF rpc ! i) /
          (\<Sum>i<20. terms ! i * adfLINE_DEN_COEFF rpc ! i) * dfLINE_SCALE rpc +
            dfLINE_OFF rpc + 0.5))"
    unfolding RPCTransformPoint_def Let_def RPCEvaluate_dot20 dot20_def by simp
  have scalar: "RPCTransformPoint scenario_rpc (- 105) 40 2000 = (10000.5, 10000.5)"
    by (simp add: RPCTransformPoint_def Let_def RPCEvaluate_dot20 dot20_unit_coeffs)
      (simp add: scenario_rpc_def dot20_unit_coeffs)
  have sse2: "RPCTransformPoint_SSE2 scenario_rpc (- 105) 40 2000 = (10000.5, 10000.5)"
    using scalar by (simp add: RPCTransformPoint_SSE2_eq [OF scenario_rpc_lengths])
  from general scalar sse2 show ?thesis by blast
qed

subsection \<open>Running the examples\<close>

lemma example_forward:
  "- 270 \<le> x \<Longrightarrow> x \<le> 270 \<Longrightarrow> RPCTransformPoint example_rpc x y z = (x + z + 0.5, y + 0.5)"
  by (simp add: RPCTransformPoint_def Let_def RPCEvaluate_dot20 dot20_unfold example_rpc_def
      RPCComputeTerms_def unit_coeffs_def numeral_eq_Suc)

lemmas transformer_defs = budget_transformer_def zero_threshold_transformer_def
  snap_transformer_def footprint_transformer_def cubic_transformer_def scaled_transformer_def
  override_transformer_def clone_transformer_def with_dem_def example_transformer_def

lemmas from_options_defs = transformer_from_options_def Let_def CSLFetchNameValue_def
  CSLFetchNameValueDef_def CPLFetchBool_def example_ext_def EQUAL_def example_atof_def
  example_atoi_def DEFAULT_PIX_ERR_THRESHOLD_def

lemma upt_1: "[0..<Suc 0] = [0]"
  by (simp add: upt_rec)

lemma open_dem:
  "pszDEMPath t = Some path \<Longrightarrow> GDALOpen example_ext path = Some ds \<Longrightarrow>
   GetRasterCount ds = 1 \<Longrightarrow> GetGeoTransform ds = Some [0, 1, 0, 100, 0, - 1] \<Longrightarrow>
   GDALRPCOpenDEM example_ext t =
     Some (t\<lparr>poDS := Some ds,
             poCT := (case pszDEMSRS t of None \<Rightarrow> None | Some _ \<Rightarrow> Some example_shift),
             adfDEMGeoTransform := [0, 1, 0, 100, 0, - 1],
             adfDEMReverseGeoTransform := [0, 1, 0, 100, 0, - 1]\<rparr>)"
  by (simp add: GDALRPCOpenDEM_def affine_inverse_def)
    (simp add: example_ext_def affine_inverse_def)

text \<open>A call for a single point never goes through the row optimizer, and the flag that the
  constructor passes selects the ground-to-image direction whatever \<open>bReversed\<close> is.\<close>

lemma single_point_transform:
  "GDALRPCTransform ext t (bReversed t = 0) (Suc 0) [x] [y] (Some [z]) =
     (case forward_point t True x y z of (b, r) \<Rightarrow> (b, [r]))"
  by (simp add: GDALRPCTransform_def optimizer_window_def GDALRPCTransform_forward_loop_def
      point_loop_def upt_1 Z_at_def split: option.splits prod.splits)

lemma reference_example:
  assumes "sRPC t = example_rpc" "RPCIsValidLongLat t 50 50"
    "fst (GDALRPCGetHeightAtLongLat t 50 50) = Some H"
  shows "reference_pixel_line ext t 50 50 = (50 + H + 0.5, 50.5)"
  using assms
  by (simp add: reference_pixel_line_def single_point_transform forward_point_def
      example_forward)

lemma reference_point_example:
  assumes "sRPC t = example_rpc" "RPCIsValidLongLat t 50 50"
    "fst (GDALRPCGetHeightAtLongLat t 50 50) = Some H" "0 \<le> H" "H \<le> 10000"
  shows "reference_point ext t = (50, 50, 50 + H + 0.5, 50.5)"
proof -
  have rpc: "dfMIN_LONG example_rpc = 0" "dfMAX_LONG example_rpc = 100"
    "dfMIN_LAT example_rpc = 0" "dfMAX_LAT example_rpc = 100"
    by (simp_all add: example_rpc_def)
  show ?thesis
    using assms by (simp add: reference_point_def Let_def rpc reference_example)
qed

lemma establish_example:
  assumes "sRPC t = example_rpc" "RPCIsValidLongLat t 50 50"
    "fst (GDALRPCGetHeightAtLongLat t 50 50) = Some H" "0 \<le> H" "H \<le> 10000"
  shows "establish_reference example_ext t =
           Some (t\<lparr>dfRefZ := H, adfPLToLatLongGeoTransform := [- (H + 0.5), 1, 0, - 0.5, 0, 1]\<rparr>)"
proof -
  have inv: "GDALInvGeoTransform example_ext = affine_inverse"
    by (simp add: example_ext_def)
  show ?thesis
    using assms(1,3)
    by (simp add: establish_reference_def reference_point_example [OF assms] Let_def
        example_forward inv affine_inverse_def)
qed

subsection \<open>The iteration budget of the inverse solver\<close>

lemma loop_evaluations_le:
  "nat (N - i) = n \<Longrightarrow>
     snd (RPCInverseTransformPoint_loop t p l h N i v) \<le> nEvaluations v + n"
proof (induction n arbitrary: i v)
  case 0
  then show ?case by (simp add: RPCInverseTransformPoint_loop.simps [of t p l h N i v])
next
  case (Suc n)
  then have n: "nat (N - (i + 1)) = n" and lt: "i < N" by auto
  note IH = Suc.IH [OF n]
  show ?case
    by (subst RPCInverseTransformPoint_loop.simps)
      (auto simp: lt Let_def split: option.split prod.split intro!: order_trans [OF IH])
qed

lemma from_options_budget:
  "transformer_from_options example_ext example_rpc 0 0
     [(''RPC_DEM'', ''flat0''), (''RPC_PIXEL_ERROR_THRESHOLD'', ''0'')] =
   example_transformer\<lparr>adfPLToLatLongGeoTransform := [0, 0, 0, 0, 0, 0], dfPixErrThreshold := 0,
     pszDEMPath := Some ''flat0''\<rparr>"
  by (simp add: from_options_defs example_transformer_def)

lemma establish_budget:
  "GDALCreateRPCTransformerV2 example_ext example_rpc 0 0
     [(''RPC_DEM'', ''flat0''), (''RPC_PIXEL_ERROR_THRESHOLD'', ''0'')] = Some budget_transformer"
proof -
  have "GDALRPCOpenDEM example_ext (example_transformer
       \<lparr>adfPLToLatLongGeoTransform := [0, 0, 0, 0, 0, 0], dfPixErrThreshold := 0,
         pszDEMPath := Some ''flat0''\<rparr>) = Some (example_transformer
       \<lparr>adfPLToLatLongGeoTransform := [0, 0, 0, 0, 0, 0], dfPixErrThreshold := 0,
         pszDEMPath := Some ''flat0'', poDS := Some (flat_dem 0),
             poCT := None,
             adfDEMGeoTransform := [0, 1, 0, 100, 0, - 1],
             adfDEMReverseGeoTransform := [0, 1, 0, 100, 0, - 1]\<rparr>)"
    by (subst open_dem [where ds = "flat_dem 0" and path = "''flat0''"])
      (simp_all add: example_ext_def flat_dem_def example_transformer_def)
  moreover have "establish_reference example_ext (example_transformer
       \<lparr>adfPLToLatLongGeoTransform := [0, 0, 0, 0, 0, 0], dfPixErrThreshold := 0,
         pszDEMPath := Some ''flat0'', poDS := Some (flat_dem 0),
             poCT := None,
             adfDEMGeoTransform := [0, 1, 0, 100, 0, - 1],
             adfDEMReverseGeoTransform := [0, 1, 0, 100, 0, - 1]\<rparr>) = Some budget_transformer"
    by (subst establish_example [where H = 0])
      (simp_all add: transformer_defs RPCIsValidLongLat_def GDALRPCGetHeightAtLongLat_def
        GDALApplyGeoTransform_def GDALRPCGetDEMHeight_def flat_dem_def)
  ultimately show ?thesis
    by (simp add: GDALCreateRPCTransformerV2_def from_options_budget)
qed

lemma budget_height: "inverse_iteration_height budget_transformer i 10 20 = Some 0"
  by (simp add: inverse_iteration_height_def GDALRPCGetHeightAtLongLat_def
      GDALApplyGeoTransform_def GDALRPCGetDEMHeight_def transformer_defs flat_dem_def)

lemma budget_fields:
  "sRPC budget_transformer = example_rpc" "dfPixErrThreshold budget_transformer = 0"
  "poDS budget_transformer = Some (flat_dem 0)" "nMaxIterations budget_transformer = 0"
  "adfPLToLatLongGeoTransform budget_transformer = [- 0.5, 1, 0, - 0.5, 0, 1]"
  by (simp_all add: transformer_defs)

text \<open>With the threshold 0 the exact guess \<open>(10, 20)\<close> is never accepted: every remaining
  iteration evaluates the forward transform once and keeps the guess.\<close>

lemma budget_loop:
  "dfResultX v = 10 \<Longrightarrow> dfResultY v = 20 \<Longrightarrow> nat (N - i) = n \<Longrightarrow>
     RPCInverseTransformPoint_loop budget_transformer (21 / 2) (41 / 2) 0 N i v =
       (None, nEvaluations v + n)"
proof (induction n arbitrary: i v)
  case 0
  then show ?case
    by (simp add: RPCInverseTransformPoint_loop.simps [of budget_transformer _ _ _ N i v])
next
  case (Suc n)
  then have n: "nat (N - (i + 1)) = n" and lt: "i < N" by auto
  note IH = Suc.IH [OF _ _ n]
  show ?case
    by (subst RPCInverseTransformPoint_loop.simps)
      (simp add: lt Let_def Suc.prems budget_height budget_fields example_forward IH)
qed

lemma budget_count:
  "RPCInverseTransformPoint_count budget_transformer 10.5 20.5 0 = (None, 20)"
  by (simp add: RPCInverseTransformPoint_count_def Let_def budget_fields
      inverse_nMaxIterations_def budget_loop)

text \<open>
  C5 (as stated). The solver is claimed never to make more than \<open>max(10, iterationCap)\<close>
  forward evaluations, \<open>iterationCap\<close> being the configured maximum. The transformer built
  with the options \<open>RPC_DEM=flat0\<close> and \<open>RPC_PIXEL_ERROR_THRESHOLD=0\<close> has no configured
  maximum (\<open>nMaxIterations = 0\<close>) and an elevation raster, so its budget is 20; for the pixel
  and line \<open>(10.5, 20.5)\<close> it makes 20 evaluations, more than \<open>max(10, 0) = 10\<close>.
\<close>

theorem C5_budget_counterexample:
  "GDALCreateRPCTransformerV2 example_ext example_rpc 0 0
     [(''RPC_DEM'', ''flat0''), (''RPC_PIXEL_ERROR_THRESHOLD'', ''0'')] = Some budget_transformer \<and>
   snd (RPCInverseTransformPoint_count budget_transformer 10.5 20.5 0) = 20 \<and>
   \<not> snd (RPCInverseTransformPoint_count budget_transformer 10.5 20.5 0)
       \<le> max 10 (nat (nMaxIterations budget_transformer))"
  using budget_count establish_budget by (simp add: budget_fields)

text \<open>
  C5 (amended). For every single-point inverse solve the number of iterations, and with it
  the number of forward evaluations, is at most the budget \<open>N\<close>: the configured maximum
  when it is positive, else 20 when an elevation raster is configured and 10 when none is.
\<close>

theorem C5_evaluation_budget:
  "snd (RPCInverseTransformPoint_count psTransform dfPixel dfLine dfUserHeight) \<le>
     nat (if nMaxIterations psTransform > 0 then nMaxIterations psTransform
          else if poDS psTransform \<noteq> None then 20 else 10)"
proof -
  define v0 where "v0 =
    \<lparr> dfResultX = adfPLToLatLongGeoTransform psTransform ! 0 +
          adfPLToLatLongGeoTransform psTransform ! 1 * dfPixel +
          adfPLToLatLongGeoTransform psTransform ! 2 * dfLine,
      dfResultY = adfPLToLatLongGeoTransform psTransform ! 3 +
          adfPLToLatLongGeoTransform psTransform ! 4 * dfPixel +
          adfPLToLatLongGeoTransform psTransform ! 5 * dfLine,
      dfLastResultX = 0, dfLastResultY = 0, dfLastPixelDeltaX = 0, dfLastPixelDeltaY = 0,
      bLastPixelDeltaValid = False, nCountConsecutiveErrorBelow2 = 0, nEvaluations = 0 \<rparr>"
  have "snd (RPCInverseTransformPoint_loop psTransform dfPixel dfLine dfUserHeight
          (inverse_nMaxIterations psTransform) 0 v0) \<le>
        nEvaluations v0 + nat (inverse_nMaxIterations psTransform - 0)"
    by (rule loop_evaluations_le [OF refl])
  then have "snd (RPCInverseTransformPoint_count psTransform dfPixel dfLine dfUserHeight) \<le>
      nat (inverse_nMaxIterations psTransform)"
    by (simp add: RPCInverseTransformPoint_count_def Let_def v0_def)
  then show ?thesis by (simp only: inverse_nMaxIterations_def)
qed

subsection \<open>The convergence threshold\<close>

lemma from_options_threshold:
  "dfPixErrThreshold (transformer_from_options ext rpc bRev thr opts) =
     (case CSLFetchNameValue opts ''RPC_PIXEL_ERROR_THRESHOLD'' of
        Some s \<Rightarrow> CPLAtof ext s
      | None \<Rightarrow> if thr > 0 then thr else 0.1)"
  by (simp add: transformer_from_options_def Let_def DEFAULT_PIX_ERR_THRESHOLD_def
      split: option.split)

text \<open>Opening the DEM and establishing the reference point change only the fields they
  compute: every field read from the options is as \<open>transformer_from_options\<close> left it.\<close>

lemma open_dem_fields:
  "GDALRPCOpenDEM ext t = Some t' \<Longrightarrow>
     \<exists>ds gt rgt. t' = t\<lparr>poDS := Some ds,
                    poCT := DEMCoordinateTransformation ext (pszDEMSRS t)
                              (bApplyDEMVDatumShift t) ds (sRPC t),
                    adfDEMGeoTransform := gt, adfDEMReverseGeoTransform := rgt\<rparr>"
  by (auto simp: GDALRPCOpenDEM_def split: option.splits if_splits)

lemma establish_reference_fields:
  "establish_reference ext t = Some t' \<Longrightarrow>
     \<exists>z igt. t' = t\<lparr>dfRefZ := z, adfPLToLatLongGeoTransform := igt\<rparr>"
  by (auto simp: establish_reference_def Let_def split: option.splits prod.splits)

lemma create_fields:
  assumes "GDALCreateRPCTransformerV2 ext rpc bRev thr opts = Some t'"
  shows "\<exists>ds ct gt rgt z igt.
           t' = (transformer_from_options ext rpc bRev thr opts)
                  \<lparr>poDS := ds, poCT := ct, adfDEMGeoTransform := gt,
                   adfDEMReverseGeoTransform := rgt, dfRefZ := z,
                   adfPLToLatLongGeoTransform := igt\<rparr>"
proof (cases "pszDEMPath (transformer_from_options ext rpc bRev thr opts)")
  case None
  let ?t0 = "transformer_from_options ext rpc bRev thr opts"
  from assms None have "establish_reference ext ?t0 = Some t'"
    by (simp add: GDALCreateRPCTransformerV2_def Let_def)
  from establish_reference_fields [OF this] obtain z igt where
    "t' = ?t0\<lparr>dfRefZ := z, adfPLToLatLongGeoTransform := igt\<rparr>" by blast
  then have "t' = ?t0\<lparr>poDS := poDS ?t0, poCT := poCT ?t0, adfDEMGeoTransform := adfDEMGeoTransform ?t0,
                   adfDEMReverseGeoTransform := adfDEMReverseGeoTransform ?t0, dfRefZ := z,
                   adfPLToLatLongGeoTransform := igt\<rparr>" by simp
  then show ?thesis by blast
next
  case (Some path)
  let ?t0 = "transformer_from_options ext rpc bRev thr opts"
  from Some assms obtain t1 where 1: "GDALRPCOpenDEM ext ?t0 = Some t1"
    and 2: "establish_reference ext t1 = Some t'"
    by (auto simp: GDALCreateRPCTransformerV2_def Let_def split: option.splits)
  from open_dem_fields [OF 1] obtain ds gt rgt where
    e1: "t1 = ?t0\<lparr>poDS := Some ds,
                    poCT := DEMCoordinateTransformation ext (pszDEMSRS ?t0)
                              (bApplyDEMVDatumShift ?t0) ds (sRPC ?t0),
                    adfDEMGeoTransform := gt, adfDEMReverseGeoTransform := rgt\<rparr>" by blast
  from establish_reference_fields [OF 2] obtain z igt where
    e2: "t' = t1\<lparr>dfRefZ := z, adfPLToLatLongGeoTransform := igt\<rparr>" by blast
  show ?thesis unfolding e2 e1 by blast
qed

lemma create_threshold:
  assumes "GDALCreateRPCTransformerV2 ext rpc bRev thr opts = Some t'"
  shows "dfPixErrThreshold t' = dfPixErrThreshold (transformer_from_options ext rpc bRev thr opts)"
  using create_fields [OF assms] by auto

lemma loop_never_converges:
  "dfPixErrThreshold t \<le> 0 \<Longrightarrow> nat (N - i) = n \<Longrightarrow>
     fst (RPCInverseTransformPoint_loop t p l h N i v) = None"
proof (induction n arbitrary: i v)
  case 0
  then show ?case by (simp add: RPCInverseTransformPoint_loop.simps [of t p l h N i v])
next
  case (Suc n)
  then have n: "nat (N - (i + 1)) = n" and lt: "i < N" by auto
  note IH = Suc.IH [OF Suc.prems(1) n]
  have nonneg: "\<not> \<bar>a\<bar> < dfPixErrThreshold t" for a :: real
    using Suc.prems(1) by simp
  show ?case
    by (subst RPCInverseTransformPoint_loop.simps)
      (simp add: lt Let_def nonneg IH split: option.split prod.split)
qed

lemma no_dem_height:
  "poDS t = None \<Longrightarrow> inverse_iteration_height t i x y = Some (dfHeightOffset t)"
  by (simp add: inverse_iteration_height_def GDALRPCGetHeightAtLongLat_def)

lemma loop_full_budget:
  "dfPixErrThreshold t \<le> 0 \<Longrightarrow> poDS t = None \<Longrightarrow> nat (N - i) = n \<Longrightarrow>
     snd (RPCInverseTransformPoint_loop t p l h N i v) = nEvaluations v + n"
proof (induction n arbitrary: i v)
  case 0
  then show ?case by (simp add: RPCInverseTransformPoint_loop.simps [of t p l h N i v])
next
  case (Suc n)
  then have n: "nat (N - (i + 1)) = n" and lt: "i < N" by auto
  note IH = Suc.IH [OF Suc.prems(1,2) n]
  have nonneg: "\<not> \<bar>a\<bar> < dfPixErrThreshold t" for a :: real
    using Suc.prems(1) by simp
  show ?case
    by (subst RPCInverseTransformPoint_loop.simps)
      (simp add: lt Let_def nonneg IH no_dem_height Suc.prems(2) split: prod.split)
qed


lemma from_options_zero_threshold:
  "transformer_from_options example_ext example_rpc 0 0.1
     [(''RPC_PIXEL_ERROR_THRESHOLD'', ''0'')] =
   example_transformer\<lparr>adfPLToLatLongGeoTransform := [0, 0, 0, 0, 0, 0], dfPixErrThreshold := 0\<rparr>"
  by (simp add: from_options_defs example_transformer_def)

lemma from_options_default:
  "transformer_from_options example_ext example_rpc 0 0 [] =
   example_transformer\<lparr>adfPLToLatLongGeoTransform := [0, 0, 0, 0, 0, 0]\<rparr>"
  by (simp add: from_options_defs example_transformer_def)

lemma establish_no_dem:
  assumes "sRPC t = example_rpc" "poRPCFootprintPreparedGeom t = None" "poDS t = None"
    "dfHeightOffset t = 0"
  shows "establish_reference example_ext t =
           Some (t\<lparr>dfRefZ := 0, adfPLToLatLongGeoTransform := [- 0.5, 1, 0, - 0.5, 0, 1]\<rparr>)"
  using establish_example [of t 0] assms
  by (simp add: RPCIsValidLongLat_def GDALRPCGetHeightAtLongLat_def)

lemma establish_zero_threshold:
  "GDALCreateRPCTransformerV2 example_ext example_rpc 0 0.1
     [(''RPC_PIXEL_ERROR_THRESHOLD'', ''0'')] = Some zero_threshold_transformer"
  by (simp add: GDALCreateRPCTransformerV2_def from_options_zero_threshold Let_def)
    (simp add: establish_no_dem transformer_defs)

lemma establish_default:
  "GDALCreateRPCTransformerV2 example_ext example_rpc 0 0 [] = Some example_transformer"
  by (simp add: GDALCreateRPCTransformerV2_def from_options_default Let_def)
    (simp add: establish_no_dem transformer_defs)

lemma default_count:
  "RPCInverseTransformPoint_count example_transformer 10.5 20.5 0 = (Some (10, 20), 1)"
  by (simp add: RPCInverseTransformPoint_count_def Let_def inverse_nMaxIterations_def
      RPCInverseTransformPoint_loop.simps [of example_transformer _ _ _ 10 0] no_dem_height)
    (simp add: example_transformer_def example_forward)

text \<open>
  C6 (as stated). A zero configured threshold is claimed to make the solver run its full
  budget. Constructed with the threshold parameter 0 and no option, the transformer stores
  0.1, and the solve for the pixel and line \<open>(10.5, 20.5)\<close> converges at the first of its
  10 iterations.
\<close>

theorem C6_zero_threshold_counterexample:
  "GDALCreateRPCTransformerV2 example_ext example_rpc 0 0 [] = Some example_transformer \<and>
   dfPixErrThreshold example_transformer = 0.1 \<and>
   inverse_nMaxIterations example_transformer = 10 \<and>
   RPCInverseTransformPoint_count example_transformer 10.5 20.5 0 = (Some (10, 20), 1)"
  using establish_default default_count
  by (simp add: example_transformer_def inverse_nMaxIterations_def)

text \<open>
  C6 (amended). The stored threshold is the value of the option
  \<open>RPC_PIXEL_ERROR_THRESHOLD\<close> when it is given, else the threshold parameter when that is
  positive, else the default 0.1; the constructed transformer keeps it. Only a threshold that
  is stored as zero or negative (which the option can give, the parameter cannot) means "run
  the full budget": the solve then never converges, so the point is reported as failed, and
  without an elevation raster it makes exactly \<open>N\<close> forward evaluations.
\<close>

theorem C6_threshold:
  "dfPixErrThreshold (transformer_from_options ext rpc bRev thr opts) =
     (case CSLFetchNameValue opts ''RPC_PIXEL_ERROR_THRESHOLD'' of
        Some s \<Rightarrow> CPLAtof ext s
      | None \<Rightarrow> if thr > 0 then thr else 0.1) \<and>
   (GDALCreateRPCTransformerV2 ext rpc bRev thr opts = Some t' \<longrightarrow>
      dfPixErrThreshold t' = dfPixErrThreshold (transformer_from_options ext rpc bRev thr opts)) \<and>
   (dfPixErrThreshold t \<le> 0 \<longrightarrow>
      fst (RPCInverseTransformPoint_count t dfPixel dfLine dfUserHeight) = None \<and>
      RPCInverseTransformPoint t dfPixel dfLine dfUserHeight = None \<and>
      (poDS t = None \<longrightarrow>
         snd (RPCInverseTransformPoint_count t dfPixel dfLine dfUserHeight) =
           nat (inverse_nMaxIterations t)))"
  using create_threshold [of ext rpc bRev thr opts t']
    loop_never_converges [OF _ refl, where t = t and N = "inverse_nMaxIterations t" and i = 0
      and p = dfPixel and l = dfLine and h = dfUserHeight]
    loop_full_budget [OF _ _ refl, where t = t and N = "inverse_nMaxIterations t" and i = 0
      and p = dfPixel and l = dfLine and h = dfUserHeight]
  by (simp add: from_options_threshold RPCInverseTransformPoint_def
      RPCInverseTransformPoint_count_def Let_def)

theorem C6_threshold_witness:
  "GDALCreateRPCTransformerV2 example_ext example_rpc 0 0.1
     [(''RPC_PIXEL_ERROR_THRESHOLD'', ''0'')] = Some zero_threshold_transformer \<and>
   dfPixErrThreshold zero_threshold_transformer = 0 \<and>
   poDS zero_threshold_transformer = None \<and>
   RPCInverseTransformPoint zero_threshold_transformer 10.5 20.5 0 = None \<and>
   snd (RPCInverseTransformPoint_count zero_threshold_transformer 10.5 20.5 0) = 10"
proof -
  have f: "dfPixErrThreshold zero_threshold_transformer = 0"
    "poDS zero_threshold_transformer = None" "nMaxIterations zero_threshold_transformer = 0"
    by (simp_all add: transformer_defs)
  from C6_threshold [of example_ext example_rpc 0 "0.1" "[(''RPC_PIXEL_ERROR_THRESHOLD'', ''0'')]"
      zero_threshold_transformer zero_threshold_transformer "10.5" "20.5" 0]
  show ?thesis
    using establish_zero_threshold by (simp add: f inverse_nMaxIterations_def)
qed


subsection \<open>Elevation failure on the first iteration\<close>

lemma from_options_snap:
  "transformer_from_options example_ext example_rpc 0 0
     [(''RPC_DEM'', ''flat7''), (''RPC_HEIGHT'', ''1000'')] =
   example_transformer\<lparr>adfPLToLatLongGeoTransform := [0, 0, 0, 0, 0, 0], dfHeightOffset := 1000,
     pszDEMPath := Some ''flat7''\<rparr>"
  by (simp add: from_options_defs example_transformer_def)

lemmas sampler_defs = GDALRPCGetHeightAtLongLat_def GDALRPCGetHeightAtLongLat_retried_def
  GDALApplyGeoTransform_def GDALRPCGetDEMHeight_def RPCIsValidLongLat_def

lemma establish_snap:
  "GDALCreateRPCTransformerV2 example_ext example_rpc 0 0
     [(''RPC_DEM'', ''flat7''), (''RPC_HEIGHT'', ''1000'')] = Some snap_transformer"
proof -
  let ?t0 = "example_transformer\<lparr>adfPLToLatLongGeoTransform := [0, 0, 0, 0, 0, 0],
     dfHeightOffset := 1000, pszDEMPath := Some ''flat7''\<rparr>"
  let ?t1 = "?t0\<lparr>poDS := Some (flat_dem 7), poCT := None,
             adfDEMGeoTransform := [0, 1, 0, 100, 0, - 1],
             adfDEMReverseGeoTransform := [0, 1, 0, 100, 0, - 1]\<rparr>"
  have "GDALRPCOpenDEM example_ext ?t0 = Some ?t1"
    by (subst open_dem [where ds = "flat_dem 7" and path = "''flat7''"])
      (simp_all add: example_ext_def flat_dem_def example_transformer_def)
  moreover have "establish_reference example_ext ?t1 = Some snap_transformer"
    by (subst establish_example [where H = 1007])
      (simp_all add: transformer_defs sampler_defs flat_dem_def)
  ultimately show ?thesis
    by (simp add: GDALCreateRPCTransformerV2_def from_options_snap)
qed

text \<open>
  C7. On the first iteration a failed elevation sample is replaced by the height of the
  nearest raster cell, found by clamping the probed DEM pixel and line in both axes, or by
  the reference height; on a later iteration it fails the point. The code clamps the pixel on
  both sides but the line only at the far edge: its second \<open>else if\<close> tests and assigns
  \<open>dfDEMPixel\<close> again instead of \<open>dfDEMLine\<close>. For the transformer built with
  \<open>RPC_DEM=flat7\<close> and \<open>RPC_HEIGHT=1000\<close>, a first guess north of the raster (DEM line
  \<open>-50\<close>) is not snapped to line 0.5, whose cell has height 7: the probe fails again and the
  reference height 1007 is used, while a guess south (line 150) or west (pixel \<open>-5\<close>) of
  the raster is snapped and gets the height 7.
\<close>

theorem C7_line_not_snapped:
  "GDALCreateRPCTransformerV2 example_ext example_rpc 0 0
     [(''RPC_DEM'', ''flat7''), (''RPC_HEIGHT'', ''1000'')] = Some snap_transformer \<and>
   dfRefZ snap_transformer = 1007 \<and>
   GDALRPCGetHeightAtLongLat snap_transformer 10 150 = (None, Some (10, - 50)) \<and>
   GDALRPCGetDEMHeight snap_transformer 10 0.5 = Some 7 \<and>
   inverse_iteration_height snap_transformer 0 10 150 = Some 1007 \<and>
   GDALRPCGetHeightAtLongLat snap_transformer 10 (- 50) = (None, Some (10, 150)) \<and>
   inverse_iteration_height snap_transformer 0 10 (- 50) = Some 7 \<and>
   GDALRPCGetHeightAtLongLat snap_transformer (- 5) 50 = (None, Some (- 5, 50)) \<and>
   inverse_iteration_height snap_transformer 0 (- 5) 50 = Some 7 \<and>
   inverse_iteration_height snap_transformer 1 10 (- 50) = None"
  using establish_snap
  by (simp add: inverse_iteration_height_def sampler_defs transformer_defs flat_dem_def Let_def)


subsection \<open>The validity footprint\<close>

lemma from_options_footprint:
  "transformer_from_options example_ext example_rpc 0 0
     [(''RPC_FOOTPRINT'', ''POLYGON((0 0,0 100,100 100,100 0,0 0))'')] =
   footprint_transformer\<lparr>adfPLToLatLongGeoTransform := [0, 0, 0, 0, 0, 0]\<rparr>"
  by (simp add: from_options_defs transformer_defs)

lemma establish_footprint:
  "GDALCreateRPCTransformerV2 example_ext example_rpc 0 0
     [(''RPC_FOOTPRINT'', ''POLYGON((0 0,0 100,100 100,100 0,0 0))'')] =
   Some footprint_transformer"
proof -
  have "establish_reference example_ext
      (footprint_transformer\<lparr>adfPLToLatLongGeoTransform := [0, 0, 0, 0, 0, 0]\<rparr>) =
    Some footprint_transformer"
    by (subst establish_example [where H = 0])
      (simp_all add: transformer_defs sampler_defs example_box_def)
  then show ?thesis
    by (simp add: GDALCreateRPCTransformerV2_def from_options_footprint)
      (simp add: transformer_defs)
qed

lemma footprint_fields:
  "sRPC footprint_transformer = example_rpc" "poDS footprint_transformer = None"
  "dfPixErrThreshold footprint_transformer = 0.1" "dfHeightOffset footprint_transformer = 0"
  "nMaxIterations footprint_transformer = 0" "bReversed footprint_transformer = 0"
  "adfPLToLatLongGeoTransform footprint_transformer = [- 0.5, 1, 0, - 0.5, 0, 1]"
  "poRPCFootprintPreparedGeom footprint_transformer = Some example_box"
  by (simp_all add: transformer_defs)

lemma footprint_inverse:
  "RPCInverseTransformPoint footprint_transformer 50 50 200 = Some (- 150.5, 49.5)"
  by (simp add: RPCInverseTransformPoint_def RPCInverseTransformPoint_count_def Let_def
      inverse_nMaxIterations_def footprint_fields no_dem_height example_forward
      RPCInverseTransformPoint_loop.simps [of footprint_transformer _ _ _ 10 0]
      RPCInverseTransformPoint_loop.simps [of footprint_transformer _ _ _ 10 1])

lemma footprint_inverse':
  "RPCInverseTransformPoint footprint_transformer 150.5 50.5 100 = Some (50, 50)"
  by (simp add: RPCInverseTransformPoint_def RPCInverseTransformPoint_count_def Let_def
      inverse_nMaxIterations_def footprint_fields no_dem_height example_forward
      RPCInverseTransformPoint_loop.simps [of footprint_transformer _ _ _ 10 0]
      RPCInverseTransformPoint_loop.simps [of footprint_transformer _ _ _ 10 1])

text \<open>
  C2. A point whose ground longitude and latitude lie outside the footprint is reported as a
  failure in both directions. In the image-to-ground direction the code tests \<open>padfX[i]\<close>
  and \<open>padfY[i]\<close> after the solve, which still hold the pixel and line passed in, not the
  longitude and latitude computed. For the transformer built with the footprint
  \<open>[0, 100] \<times> [0, 100]\<close>: the pixel and line \<open>(50, 50)\<close> at height 200 give the longitude
  and latitude \<open>(-150.5, 49.5)\<close>, outside the footprint, and the point is reported as a
  success; the pixel and line \<open>(150.5, 50.5)\<close> at height 100 give \<open>(50, 50)\<close>, inside the
  footprint, and the point is rejected. The ground-to-image direction rejects
  \<open>(-150.5, 49.5)\<close>.
\<close>

theorem C2_inverse_footprint:
  "GDALCreateRPCTransformerV2 example_ext example_rpc 0 0
     [(''RPC_FOOTPRINT'', ''POLYGON((0 0,0 100,100 100,100 0,0 0))'')] =
     Some footprint_transformer \<and>
   poRPCFootprintPreparedGeom footprint_transformer = Some example_box \<and>
   \<not> example_box (- 150.5) 49.5 \<and>
   GDALRPCTransform example_ext footprint_transformer False 1 [50] [50] (Some [200]) =
     (True, [\<lparr>padfX_i = Finite (- 150.5), padfY_i = Finite 49.5, panSuccess_i = True\<rparr>]) \<and>
   example_box 50 50 \<and>
   GDALRPCTransform example_ext footprint_transformer False 1 [150.5] [50.5] (Some [100]) =
     (False, [\<lparr>padfX_i = HUGE_VAL, padfY_i = HUGE_VAL, panSuccess_i = False\<rparr>]) \<and>
   GDALRPCTransform example_ext footprint_transformer True 1 [- 150.5] [49.5] (Some [200]) =
     (False, [\<lparr>padfX_i = HUGE_VAL, padfY_i = HUGE_VAL, panSuccess_i = False\<rparr>])"
  using establish_footprint footprint_inverse footprint_inverse'
  by (simp add: GDALRPCTransform_def footprint_fields point_loop_def upt_1 inverse_point_def
      RPCIsValidLongLat_def example_box_def optimizer_window_def
      GDALRPCTransform_forward_loop_def forward_point_def)


subsection \<open>The row optimizer on concrete rows\<close>

lemma upt_10: "[0..<10] = [0, 1, 2, 3, 4, 5, 6, 7, 8, 9]"
  by code_simp

lemma row_scan: "optimizer_scan 10 row_X row_Y (Suc 0) 10 10 = (True, 10, 19)"
  unfolding row_X_def row_Y_def One_nat_def [symmetric]
  by (simp add: optimizer_scan.simps [of 10] del: One_nat_def)

lemma row_facts:
  "row_X ! 0 = 10" "row_Y ! 0 = 50" "row_Y ! 9 = 50" "row_Y ! 5 = 50"
  by (simp_all add: row_X_def row_Y_def)

lemma reference_example_fail:
  assumes "sRPC t = example_rpc" "fst (GDALRPCGetHeightAtLongLat t 50 50) = None"
  shows "reference_pixel_line ext t 50 50 = (50.5, 50.5)"
  using assms
  by (simp add: reference_pixel_line_def single_point_transform forward_point_def
      example_forward)

lemma establish_example_fail:
  assumes "sRPC t = example_rpc" "fst (GDALRPCGetHeightAtLongLat t 50 50) = None"
  shows "establish_reference example_ext t =
           Some (t\<lparr>dfRefZ := 0, adfPLToLatLongGeoTransform := [- 0.5, 1, 0, - 0.5, 0, 1]\<rparr>)"
proof -
  have rpc: "dfMIN_LONG example_rpc = 0" "dfMAX_LONG example_rpc = 100"
    "dfMIN_LAT example_rpc = 0" "dfMAX_LAT example_rpc = 100"
    by (simp_all add: example_rpc_def)
  have inv: "GDALInvGeoTransform example_ext = affine_inverse"
    by (simp add: example_ext_def)
  have rp: "reference_point example_ext t = (50, 50, 50.5, 50.5)"
    using assms by (simp add: reference_point_def Let_def rpc reference_example_fail)
  show ?thesis
    using assms
    by (simp add: establish_reference_def rp Let_def example_forward inv affine_inverse_def)
qed

lemma from_options_cubic:
  "transformer_from_options example_ext example_rpc 0 0
     [(''RPC_DEM'', ''void''), (''RPC_DEMINTERPOLATION'', ''cubic'')] =
   example_transformer\<lparr>adfPLToLatLongGeoTransform := [0, 0, 0, 0, 0, 0],
     eResampleAlg := DRA_CubicSpline, pszDEMPath := Some ''void''\<rparr>"
  by (simp add: from_options_defs example_transformer_def ascii_tolower_def)

lemma establish_cubic:
  "GDALCreateRPCTransformerV2 example_ext example_rpc 0 0
     [(''RPC_DEM'', ''void''), (''RPC_DEMINTERPOLATION'', ''cubic'')] = Some cubic_transformer"
proof -
  let ?t0 = "example_transformer\<lparr>adfPLToLatLongGeoTransform := [0, 0, 0, 0, 0, 0],
     eResampleAlg := DRA_CubicSpline, pszDEMPath := Some ''void''\<rparr>"
  let ?t1 = "?t0\<lparr>poDS := Some void_dem, poCT := None,
             adfDEMGeoTransform := [0, 1, 0, 100, 0, - 1],
             adfDEMReverseGeoTransform := [0, 1, 0, 100, 0, - 1]\<rparr>"
  have "GDALRPCOpenDEM example_ext ?t0 = Some ?t1"
    by (subst open_dem [where ds = void_dem and path = "''void''"])
      (simp_all add: example_ext_def void_dem_def example_transformer_def)
  moreover have "establish_reference example_ext ?t1 = Some cubic_transformer"
    by (subst establish_example_fail)
      (simp_all add: transformer_defs sampler_defs void_dem_def)
  ultimately show ?thesis
    by (simp add: GDALCreateRPCTransformerV2_def from_options_cubic)
qed

lemma cubic_fields:
  "sRPC cubic_transformer = example_rpc" "poDS cubic_transformer = Some void_dem"
  "poCT cubic_transformer = None" "bReversed cubic_transformer = 0"
  "eResampleAlg cubic_transformer = DRA_CubicSpline"
  "adfDEMReverseGeoTransform cubic_transformer = [0, 1, 0, 100, 0, - 1]"
  "bHasDEMMissingValue cubic_transformer = False"
  "poRPCFootprintPreparedGeom cubic_transformer = None"
  "dfHeightOffset cubic_transformer = 0" "dfHeightScale cubic_transformer = 1"
  by (simp_all add: transformer_defs)

lemma cubic_window:
  "optimizer_window example_ext cubic_transformer 10 row_X row_Y = Some (void_dem, 8, 13, 48, 4)"
  by (simp add: optimizer_window_def cubic_fields row_scan row_facts GDALApplyGeoTransform_def
      Let_def)
    (simp add: example_ext_def void_dem_def)

lemma cubic_sums_void:
  assumes "9 \<le> n" "n \<le> 18"
  shows "cubic_sums example_ext (Some (- 9999)) (replicate 52 (- 9999)) 13 8 (n - 1) dx dy = (0, 0)"
proof -
  have eq: "ARE_REAL_EQUAL example_ext = (=)"
    by (simp add: example_ext_def)
  have buf: "buffer_at (replicate 52 (- 9999 :: real)) k = - 9999" if "0 \<le> k" "k < 52" for k
    using that by (simp add: buffer_at_def)
  show ?thesis
    using assms by (simp add: cubic_sums_def Let_def eq buf)
qed

lemma row_nX: "x \<in> set row_X \<Longrightarrow> 9 \<le> double_to_int (x - 0.5) \<and> double_to_int (x - 0.5) \<le> 18"
  unfolding row_X_def by (auto simp: double_to_int_def)

lemma cubic_point:
  assumes "x \<in> set row_X"
  shows "whole_line_point example_ext cubic_transformer (Some (- 9999)) (replicate 52 (- 9999))
      8 13 dy b x 50 z =
     (False, \<lparr>padfX_i = Finite x, padfY_i = Finite 50, panSuccess_i = False\<rparr>)"
  using row_nX [OF assms]
  by (simp add: whole_line_point_def cubic_fields Let_def cubic_sums_void)

lemma row_nth: "i < 10 \<Longrightarrow> row_X ! i \<in> set row_X" "i < 10 \<Longrightarrow> row_Y ! i = 50"
  by (simp_all add: row_X_def row_Y_def del: set_simps)

lemma cubic_whole_line:
  "GDALRPCTransformWholeLineWithDEM example_ext cubic_transformer void_dem 10 row_X row_Y None
      8 13 48 4 =
     (False, map (\<lambda>x. \<lparr>padfX_i = Finite x, padfY_i = Finite 50, panSuccess_i = False\<rparr>) row_X)"
  by (simp add: GDALRPCTransformWholeLineWithDEM_def void_dem_def Let_def point_loop_def upt_10
      cubic_point row_nth)
    (simp add: row_X_def)


lemma cubic_forward_point:
  assumes "x \<in> set row_X"
  shows "forward_point cubic_transformer b x 50 z =
     (False, \<lparr>padfX_i = HUGE_VAL, padfY_i = HUGE_VAL, panSuccess_i = False\<rparr>)"
  by (simp add: forward_point_def sampler_defs cubic_fields void_dem_def)

lemma cubic_forward_loop:
  "GDALRPCTransform_forward_loop cubic_transformer 10 row_X row_Y None =
     (False, replicate 10 \<lparr>padfX_i = HUGE_VAL, padfY_i = HUGE_VAL, panSuccess_i = False\<rparr>)"
  by (simp add: GDALRPCTransform_forward_loop_def point_loop_def upt_10 cubic_forward_point
      row_nth)
    (simp add: numeral_eq_Suc)

text \<open>
  C8. Every point that fails has its success flag cleared and both coordinates set to the
  sentinel. The cubic branch of the row optimizer clears the flag of a point whose sixteen
  samples are all nodata (and no missing value is configured) but leaves its coordinates as
  they were, where the bilinear and nearest-neighbour branches and the per-point path write
  \<open>HUGE_VAL\<close>. For the transformer built with \<open>RPC_DEM=void\<close> and
  \<open>RPC_DEMINTERPOLATION=cubic\<close> and the row of ten points at latitude 50, the optimizer
  engages (window 8, 13, 48, 4) and returns false with every flag cleared and every input
  longitude and latitude still in place; the per-point path on the same input writes the
  sentinel into every entry.
\<close>

theorem C8_cubic_no_sentinel:
  "GDALCreateRPCTransformerV2 example_ext example_rpc 0 0
     [(''RPC_DEM'', ''void''), (''RPC_DEMINTERPOLATION'', ''cubic'')] = Some cubic_transformer \<and>
   optimizer_window example_ext cubic_transformer 10 row_X row_Y = Some (void_dem, 8, 13, 48, 4) \<and>
   GDALRPCTransform example_ext cubic_transformer True 10 row_X row_Y None =
     (False, map (\<lambda>x. \<lparr>padfX_i = Finite x, padfY_i = Finite 50, panSuccess_i = False\<rparr>) row_X) \<and>
   GDALRPCTransform_forward_loop cubic_transformer 10 row_X row_Y None =
     (False, replicate 10 \<lparr>padfX_i = HUGE_VAL, padfY_i = HUGE_VAL, panSuccess_i = False\<rparr>)"
  using establish_cubic cubic_window cubic_whole_line cubic_forward_loop
  by (simp add: GDALRPCTransform_def cubic_fields)


subsection \<open>The row optimizer against the per-point path\<close>

lemma from_options_scaled:
  "transformer_from_options example_ext example_rpc 0 0
     [(''RPC_DEM'', ''flat7''), (''RPC_DEMINTERPOLATION'', ''near''), (''RPC_HEIGHT'', ''1000''),
      (''RPC_HEIGHT_SCALE'', ''2'')] =
   example_transformer\<lparr>adfPLToLatLongGeoTransform := [0, 0, 0, 0, 0, 0],
     eResampleAlg := DRA_NearestNeighbour, dfHeightOffset := 1000, dfHeightScale := 2,
     pszDEMPath := Some ''flat7''\<rparr>"
  by (simp add: from_options_defs example_transformer_def)

lemma establish_scaled:
  "GDALCreateRPCTransformerV2 example_ext example_rpc 0 0
     [(''RPC_DEM'', ''flat7''), (''RPC_DEMINTERPOLATION'', ''near''), (''RPC_HEIGHT'', ''1000''),
      (''RPC_HEIGHT_SCALE'', ''2'')] = Some scaled_transformer"
proof -
  let ?t0 = "example_transformer\<lparr>adfPLToLatLongGeoTransform := [0, 0, 0, 0, 0, 0],
     eResampleAlg := DRA_NearestNeighbour, dfHeightOffset := 1000, dfHeightScale := 2,
     pszDEMPath := Some ''flat7''\<rparr>"
  let ?t1 = "?t0\<lparr>poDS := Some (flat_dem 7), poCT := None,
             adfDEMGeoTransform := [0, 1, 0, 100, 0, - 1],
             adfDEMReverseGeoTransform := [0, 1, 0, 100, 0, - 1]\<rparr>"
  have "GDALRPCOpenDEM example_ext ?t0 = Some ?t1"
    by (subst open_dem [where ds = "flat_dem 7" and path = "''flat7''"])
      (simp_all add: example_ext_def flat_dem_def example_transformer_def)
  moreover have "establish_reference example_ext ?t1 = Some scaled_transformer"
    by (subst establish_example [where H = 1014])
      (simp_all add: transformer_defs sampler_defs flat_dem_def)
  ultimately show ?thesis
    by (simp add: GDALCreateRPCTransformerV2_def from_options_scaled)
qed

lemma scaled_fields:
  "sRPC scaled_transformer = example_rpc" "poDS scaled_transformer = Some (flat_dem 7)"
  "poCT scaled_transformer = None" "bReversed scaled_transformer = 0"
  "eResampleAlg scaled_transformer = DRA_NearestNeighbour"
  "adfDEMReverseGeoTransform scaled_transformer = [0, 1, 0, 100, 0, - 1]"
  "bHasDEMMissingValue scaled_transformer = False"
  "poRPCFootprintPreparedGeom scaled_transformer = None"
  "dfHeightOffset scaled_transformer = 1000" "dfHeightScale scaled_transformer = 2"
  by (simp_all add: transformer_defs)

lemma scaled_window:
  "optimizer_window example_ext scaled_transformer 10 row_X row_Y =
     Some (flat_dem 7, 10, 10, 50, 1)"
  by (simp add: optimizer_window_def scaled_fields row_scan row_facts GDALApplyGeoTransform_def
      Let_def)
    (simp add: example_ext_def flat_dem_def)

lemma row_bounds: "x \<in> set row_X \<Longrightarrow> 10 \<le> x \<and> x \<le> 19"
  unfolding row_X_def by auto

lemma row_nX_near:
  "x \<in> set row_X \<Longrightarrow> 10 \<le> double_to_int x \<and> double_to_int x \<le> 19"
  unfolding row_X_def by (auto simp: double_to_int_def)

lemma flat_buffer:
  "10 \<le> n \<Longrightarrow> n \<le> 19 \<Longrightarrow> buffer_at (replicate 10 h) (n - 10) = h"
  by (simp add: buffer_at_def)

lemma scaled_point:
  assumes "x \<in> set row_X"
  shows "whole_line_point example_ext scaled_transformer None (replicate 10 7) 10 10 dy b x 50 0 =
     (b, \<lparr>padfX_i = Finite (x + 2014.5), padfY_i = Finite 50.5, panSuccess_i = True\<rparr>)"
  using row_nX_near [OF assms] row_bounds [OF assms]
  by (simp add: whole_line_point_def scaled_fields Let_def flat_buffer whole_line_finish_def
      RPCIsValidLongLat_def example_forward)

lemma scaled_whole_line:
  "GDALRPCTransformWholeLineWithDEM example_ext scaled_transformer (flat_dem 7) 10 row_X row_Y
      None 10 10 50 1 =
     (True, map (\<lambda>x. \<lparr>padfX_i = Finite (x + 2014.5), padfY_i = Finite 50.5,
                         panSuccess_i = True\<rparr>) row_X)"
  by (simp add: GDALRPCTransformWholeLineWithDEM_def flat_dem_def Let_def point_loop_def upt_10
      scaled_point row_nth Z_at_def)
    (simp add: row_X_def)

lemma scaled_forward_point:
  assumes "x \<in> set row_X"
  shows "forward_point scaled_transformer b x 50 0 =
     (b, \<lparr>padfX_i = Finite (x + 1014.5), padfY_i = Finite 50.5, panSuccess_i = True\<rparr>)"
  using row_bounds [OF assms]
  by (simp add: forward_point_def sampler_defs scaled_fields flat_dem_def example_forward)

lemma scaled_forward_loop:
  "GDALRPCTransform_forward_loop scaled_transformer 10 row_X row_Y None =
     (True, map (\<lambda>x. \<lparr>padfX_i = Finite (x + 1014.5), padfY_i = Finite 50.5,
                         panSuccess_i = True\<rparr>) row_X)"
  by (simp add: GDALRPCTransform_forward_loop_def point_loop_def upt_10 scaled_forward_point
      row_nth Z_at_def)
    (simp add: row_X_def)

text \<open>
  C1. When the row optimizer engages, its results are those of the per-point path. They are
  not when a height offset and a height scale other than 1 are configured: the optimizer
  transforms at \<open>dfZ_i + (dfHeightOffset + dfDEMH) * dfHeightScale\<close>, the per-point path at
  \<open>dfZ_i + dfHeightOffset + dfDEMH * dfHeightScale\<close>. For the transformer built with
  \<open>RPC_DEM=flat7\<close>, \<open>RPC_DEMINTERPOLATION=near\<close>, \<open>RPC_HEIGHT=1000\<close> and
  \<open>RPC_HEIGHT_SCALE=2\<close> and the row of ten points at latitude 50, the optimizer engages
  (window 10, 10, 50, 1) and uses the height 2014, the per-point path the height 1014, so
  every pixel differs by 1000.
\<close>

theorem C1_batch_height_differs:
  "GDALCreateRPCTransformerV2 example_ext example_rpc 0 0
     [(''RPC_DEM'', ''flat7''), (''RPC_DEMINTERPOLATION'', ''near''), (''RPC_HEIGHT'', ''1000''),
      (''RPC_HEIGHT_SCALE'', ''2'')] = Some scaled_transformer \<and>
   optimizer_window example_ext scaled_transformer 10 row_X row_Y =
     Some (flat_dem 7, 10, 10, 50, 1) \<and>
   GDALRPCTransform example_ext scaled_transformer True 10 row_X row_Y None =
     (True, map (\<lambda>x. \<lparr>padfX_i = Finite (x + 2014.5), padfY_i = Finite 50.5,
                         panSuccess_i = True\<rparr>) row_X) \<and>
   GDALRPCTransform_forward_loop scaled_transformer 10 row_X row_Y None =
     (True, map (\<lambda>x. \<lparr>padfX_i = Finite (x + 1014.5), padfY_i = Finite 50.5,
                         panSuccess_i = True\<rparr>) row_X)"
  using establish_scaled scaled_window scaled_whole_line scaled_forward_loop
  by (simp add: GDALRPCTransform_def scaled_fields)

subsection \<open>Reading back the serialization tree\<close>

lemma ascii_tolower_chars:
  "ascii_tolower CHR ''0'' = CHR ''0''" "ascii_tolower CHR ''A'' = CHR ''a''"
  "ascii_tolower CHR ''D'' = CHR ''d''" "ascii_tolower CHR ''E'' = CHR ''e''"
  "ascii_tolower CHR ''F'' = CHR ''f''" "ascii_tolower CHR ''H'' = CHR ''h''"
  "ascii_tolower CHR ''I'' = CHR ''i''" "ascii_tolower CHR ''L'' = CHR ''l''"
  "ascii_tolower CHR ''M'' = CHR ''m''" "ascii_tolower CHR ''N'' = CHR ''n''"
  "ascii_tolower CHR ''O'' = CHR ''o''" "ascii_tolower CHR ''P'' = CHR ''p''"
  "ascii_tolower CHR ''R'' = CHR ''r''" "ascii_tolower CHR ''S'' = CHR ''s''"
  "ascii_tolower CHR ''T'' = CHR ''t''" "ascii_tolower CHR ''U'' = CHR ''u''"
  "ascii_tolower CHR ''V'' = CHR ''v''" "ascii_tolower CHR ''a'' = CHR ''a''"
  "ascii_tolower CHR ''b'' = CHR ''b''" "ascii_tolower CHR ''c'' = CHR ''c''"
  "ascii_tolower CHR ''d'' = CHR ''d''" "ascii_tolower CHR ''e'' = CHR ''e''"
  "ascii_tolower CHR ''f'' = CHR ''f''" "ascii_tolower CHR ''g'' = CHR ''g''"
  "ascii_tolower CHR ''h'' = CHR ''h''" "ascii_tolower CHR ''i'' = CHR ''i''"
  "ascii_tolower CHR ''k'' = CHR ''k''" "ascii_tolower CHR ''l'' = CHR ''l''"
  "ascii_tolower CHR ''m'' = CHR ''m''" "ascii_tolower CHR ''n'' = CHR ''n''"
  "ascii_tolower CHR ''o'' = CHR ''o''" "ascii_tolower CHR ''p'' = CHR ''p''"
  "ascii_tolower CHR ''r'' = CHR ''r''" "ascii_tolower CHR ''s'' = CHR ''s''"
  "ascii_tolower CHR ''t'' = CHR ''t''" "ascii_tolower CHR ''u'' = CHR ''u''"
  "ascii_tolower CHR ''v'' = CHR ''v''" "ascii_tolower CHR ''x'' = CHR ''x''"
  "ascii_tolower CHR ''y'' = CHR ''y''"
  by (simp_all add: ascii_tolower_def)

lemma EQUAL_names:
  "EQUAL ''Reversed'' ''Reversed''" "\<not> EQUAL ''Reversed'' ''HeightOffset''"
  "\<not> EQUAL ''Reversed'' ''HeightScale''" "\<not> EQUAL ''Reversed'' ''DEMPath''"
  "\<not> EQUAL ''Reversed'' ''DEMInterpolation''" "\<not> EQUAL ''Reversed'' ''DEMMissingValue''"
  "\<not> EQUAL ''Reversed'' ''DEMApplyVDatumShift''" "\<not> EQUAL ''Reversed'' ''DEMSRS''"
  "\<not> EQUAL ''Reversed'' ''PixErrThreshold''" "\<not> EQUAL ''Reversed'' ''Metadata''"
  "\<not> EQUAL ''HeightOffset'' ''Reversed''" "EQUAL ''HeightOffset'' ''HeightOffset''"
  "\<not> EQUAL ''HeightOffset'' ''HeightScale''" "\<not> EQUAL ''HeightOffset'' ''DEMPath''"
  "\<not> EQUAL ''HeightOffset'' ''DEMInterpolation''" "\<not> EQUAL ''HeightOffset'' ''DEMMissingValue''"
  "\<not> EQUAL ''HeightOffset'' ''DEMApplyVDatumShift''" "\<not> EQUAL ''HeightOffset'' ''DEMSRS''"
  "\<not> EQUAL ''HeightOffset'' ''PixErrThreshold''" "\<not> EQUAL ''HeightOffset'' ''Metadata''"
  "\<not> EQUAL ''HeightScale'' ''Reversed''" "\<not> EQUAL ''HeightScale'' ''HeightOffset''"
  "EQUAL ''HeightScale'' ''HeightScale''" "\<not> EQUAL ''HeightScale'' ''DEMPath''"
  "\<not> EQUAL ''HeightScale'' ''DEMInterpolation''" "\<not> EQUAL ''HeightScale'' ''DEMMissingValue''"
  "\<not> EQUAL ''HeightScale'' ''DEMApplyVDatumShift''" "\<not> EQUAL ''HeightScale'' ''DEMSRS''"
  "\<not> EQUAL ''HeightScale'' ''PixErrThreshold''" "\<not> EQUAL ''HeightScale'' ''Metadata''"
  "\<not> EQUAL ''DEMPath'' ''Reversed''" "\<not> EQUAL ''DEMPath'' ''HeightOffset''"
  "\<not> EQUAL ''DEMPath'' ''HeightScale''" "EQUAL ''DEMPath'' ''DEMPath''"
  "\<not> EQUAL ''DEMPath'' ''DEMInterpolation''" "\<not> EQUAL ''DEMPath'' ''DEMMissingValue''"
  "\<not> EQUAL ''DEMPath'' ''DEMApplyVDatumShift''" "\<not> EQUAL ''DEMPath'' ''DEMSRS''"
  "\<not> EQUAL ''DEMPath'' ''PixErrThreshold''" "\<not> EQUAL ''DEMPath'' ''Metadata''"
  "\<not> EQUAL ''DEMInterpolation'' ''Reversed''" "\<not> EQUAL ''DEMInterpolation'' ''HeightOffset''"
  "\<not> EQUAL ''DEMInterpolation'' ''HeightScale''" "\<not> EQUAL ''DEMInterpolation'' ''DEMPath''"
  "EQUAL ''DEMInterpolation'' ''DEMInterpolation''" "\<not> EQUAL ''DEMInterpolation'' ''DEMMissingValue''"
  "\<not> EQUAL ''DEMInterpolation'' ''DEMApplyVDatumShift''" "\<not> EQUAL ''DEMInterpolation'' ''DEMSRS''"
  "\<not> EQUAL ''DEMInterpolation'' ''PixErrThreshold''" "\<not> EQUAL ''DEMInterpolation'' ''Metadata''"
  "\<not> EQUAL ''DEMMissingValue'' ''Reversed''" "\<not> EQUAL ''DEMMissingValue'' ''HeightOffset''"
  "\<not> EQUAL ''DEMMissingValue'' ''HeightScale''" "\<not> EQUAL ''DEMMissingValue'' ''DEMPath''"
  "\<not> EQUAL ''DEMMissingValue'' ''DEMInterpolation''" "EQUAL ''DEMMissingValue'' ''DEMMissingValue''"
  "\<not> EQUAL ''DEMMissingValue'' ''DEMApplyVDatumShift''" "\<not> EQUAL ''DEMMissingValue'' ''DEMSRS''"
  "\<not> EQUAL ''DEMMissingValue'' ''PixErrThreshold''" "\<not> EQUAL ''DEMMissingValue'' ''Metadata''"
  "\<not> EQUAL ''DEMApplyVDatumShift'' ''Reversed''" "\<not> EQUAL ''DEMApplyVDatumShift'' ''HeightOffset''"
  "\<not> EQUAL ''DEMApplyVDatumShift'' ''HeightScale''" "\<not> EQUAL ''DEMApplyVDatumShift'' ''DEMPath''"
  "\<not> EQUAL ''DEMApplyVDatumShift'' ''DEMInterpolation''" "\<not> EQUAL ''DEMApplyVDatumShift'' ''DEMMissingValue''"
  "EQUAL ''DEMApplyVDatumShift'' ''DEMApplyVDatumShift''" "\<not> EQUAL ''DEMApplyVDatumShift'' ''DEMSRS''"
  "\<not> EQUAL ''DEMApplyVDatumShift'' ''PixErrThreshold''" "\<not> EQUAL ''DEMApplyVDatumShift'' ''Metadata''"
  "\<not> EQUAL ''DEMSRS'' ''Reversed''" "\<not> EQUAL ''DEMSRS'' ''HeightOffset''"
  "\<not> EQUAL ''DEMSRS'' ''HeightScale''" "\<not> EQUAL ''DEMSRS'' ''DEMPath''"
  "\<not> EQUAL ''DEMSRS'' ''DEMInterpolation''" "\<not> EQUAL ''DEMSRS'' ''DEMMissingValue''"
  "\<not> EQUAL ''DEMSRS'' ''DEMApplyVDatumShift''" "EQUAL ''DEMSRS'' ''DEMSRS''"
  "\<not> EQUAL ''DEMSRS'' ''PixErrThreshold''" "\<not> EQUAL ''DEMSRS'' ''Metadata''"
  "\<not> EQUAL ''PixErrThreshold'' ''Reversed''" "\<not> EQUAL ''PixErrThreshold'' ''HeightOffset''"
  "\<not> EQUAL ''PixErrThreshold'' ''HeightScale''" "\<not> EQUAL ''PixErrThreshold'' ''DEMPath''"
  "\<not> EQUAL ''PixErrThreshold'' ''DEMInterpolation''" "\<not> EQUAL ''PixErrThreshold'' ''DEMMissingValue''"
  "\<not> EQUAL ''PixErrThreshold'' ''DEMApplyVDatumShift''" "\<not> EQUAL ''PixErrThreshold'' ''DEMSRS''"
  "EQUAL ''PixErrThreshold'' ''PixErrThreshold''" "\<not> EQUAL ''PixErrThreshold'' ''Metadata''"
  "\<not> EQUAL ''Metadata'' ''Reversed''" "\<not> EQUAL ''Metadata'' ''HeightOffset''"
  "\<not> EQUAL ''Metadata'' ''HeightScale''" "\<not> EQUAL ''Metadata'' ''DEMPath''"
  "\<not> EQUAL ''Metadata'' ''DEMInterpolation''" "\<not> EQUAL ''Metadata'' ''DEMMissingValue''"
  "\<not> EQUAL ''Metadata'' ''DEMApplyVDatumShift''" "\<not> EQUAL ''Metadata'' ''DEMSRS''"
  "\<not> EQUAL ''Metadata'' ''PixErrThreshold''" "EQUAL ''Metadata'' ''Metadata''"
  by (simp_all add: EQUAL_def ascii_tolower_chars)

lemmas xml_defs = GDALSerializeRPCTransformer_def CPLGetXMLValue_def CPLGetXMLNode_def
  CPLCreateXMLElementAndValue_def CPLGetXMLValueDef_def EQUAL_names

lemma get_Reversed:
  "CPLGetXMLValueDef (GDALSerializeRPCTransformer ext t) ''Reversed'' d =
     printf_d ext (bReversed t)"
  by (simp add: xml_defs)

lemma get_HeightOffset:
  "CPLGetXMLValueDef (GDALSerializeRPCTransformer ext t) ''HeightOffset'' d =
     printf_g15 ext (dfHeightOffset t)"
  by (simp add: xml_defs)

lemma get_HeightScale:
  "CPLGetXMLValueDef (GDALSerializeRPCTransformer ext t) ''HeightScale'' d =
     (if dfHeightScale t \<noteq> 1 then printf_g15 ext (dfHeightScale t) else d)"
  by (cases "pszDEMPath t"; cases "pszDEMSRS t"; cases "bHasDEMMissingValue t";
      cases "dfHeightScale t = 1"; simp add: xml_defs)

lemma get_DEMPath:
  "CPLGetXMLValue (GDALSerializeRPCTransformer ext t) ''DEMPath'' None = pszDEMPath t"
  by (cases "pszDEMPath t"; cases "pszDEMSRS t"; cases "bHasDEMMissingValue t";
      cases "dfHeightScale t = 1"; simp add: xml_defs)

lemma get_DEMInterpolation:
  "CPLGetXMLValue (GDALSerializeRPCTransformer ext t) ''DEMInterpolation'' (Some d) =
     Some (case pszDEMPath t of None \<Rightarrow> d
           | Some _ \<Rightarrow> GDALSerializeRPCDEMResample (eResampleAlg t))"
  by (cases "pszDEMPath t"; cases "pszDEMSRS t"; cases "bHasDEMMissingValue t";
      cases "dfHeightScale t = 1"; simp add: xml_defs)

lemma get_DEMMissingValue:
  "CPLGetXMLValue (GDALSerializeRPCTransformer ext t) ''DEMMissingValue'' None =
     (if pszDEMPath t \<noteq> None \<and> bHasDEMMissingValue t
      then Some (printf_g17 ext (dfDEMMissingValue t)) else None)"
  by (cases "pszDEMPath t"; cases "pszDEMSRS t"; cases "bHasDEMMissingValue t";
      cases "dfHeightScale t = 1"; simp add: xml_defs)

lemma get_DEMApplyVDatumShift:
  "CPLGetXMLValue (GDALSerializeRPCTransformer ext t) ''DEMApplyVDatumShift'' None =
     (case pszDEMPath t of None \<Rightarrow> None
      | Some _ \<Rightarrow> Some (if bApplyDEMVDatumShift t then ''true'' else ''false''))"
  by (cases "pszDEMPath t"; cases "pszDEMSRS t"; cases "bHasDEMMissingValue t";
      cases "dfHeightScale t = 1"; simp add: xml_defs)

lemma get_DEMSRS:
  "CPLGetXMLValue (GDALSerializeRPCTransformer ext t) ''DEMSRS'' None =
     (case pszDEMPath t of None \<Rightarrow> None | Some _ \<Rightarrow> pszDEMSRS t)"
  by (cases "pszDEMPath t"; cases "pszDEMSRS t"; cases "bHasDEMMissingValue t";
      cases "dfHeightScale t = 1"; simp add: xml_defs)

lemma get_PixErrThreshold:
  "CPLGetXMLValueDef (GDALSerializeRPCTransformer ext t) ''PixErrThreshold'' d =
     printf_g15 ext (dfPixErrThreshold t)"
  by (cases "pszDEMPath t"; cases "pszDEMSRS t"; cases "bHasDEMMissingValue t";
      cases "dfHeightScale t = 1"; simp add: xml_defs)

lemma get_Metadata:
  "CPLGetXMLNode (GDALSerializeRPCTransformer ext t) ''Metadata'' =
     Some (XMLNode CXT_Element ''Metadata'' (map MDI_node (RPCInfoV2ToMD ext (sRPC t))))"
  unfolding MDI_node_def
  by (cases "pszDEMPath t"; cases "pszDEMSRS t"; cases "bHasDEMMissingValue t";
      cases "dfHeightScale t = 1"; simp add: xml_defs)


lemma fetch_set:
  "CSLFetchNameValue (CSLSetNameValue l k v) k' =
     (if k' = k then Some v else CSLFetchNameValue l k')"
  by (induction l) (auto simp: CSLFetchNameValue_def)

lemma fetch_Nil: "CSLFetchNameValue [] k = None"
  by (simp add: CSLFetchNameValue_def)

lemma deserialized_fetch:
  "CSLFetchNameValue (deserialized_options (GDALSerializeRPCTransformer ext t))
     ''RPC_PIXEL_ERROR_THRESHOLD'' = None"
  "CSLFetchNameValue (deserialized_options (GDALSerializeRPCTransformer ext t))
     ''RPC_HEIGHT'' = Some (printf_g15 ext (dfHeightOffset t))"
  "CSLFetchNameValue (deserialized_options (GDALSerializeRPCTransformer ext t))
     ''RPC_HEIGHT_SCALE'' =
       Some (if dfHeightScale t \<noteq> 1 then printf_g15 ext (dfHeightScale t) else ''1'')"
  "CSLFetchNameValue (deserialized_options (GDALSerializeRPCTransformer ext t))
     ''RPC_DEM'' = pszDEMPath t"
  "CSLFetchNameValue (deserialized_options (GDALSerializeRPCTransformer ext t))
     ''RPC_DEMINTERPOLATION'' =
       Some (case pszDEMPath t of None \<Rightarrow> ''bilinear''
             | Some _ \<Rightarrow> GDALSerializeRPCDEMResample (eResampleAlg t))"
  "CSLFetchNameValue (deserialized_options (GDALSerializeRPCTransformer ext t))
     ''RPC_DEM_MISSING_VALUE'' =
       (if pszDEMPath t \<noteq> None \<and> bHasDEMMissingValue t
        then Some (printf_g17 ext (dfDEMMissingValue t)) else None)"
  "CSLFetchNameValue (deserialized_options (GDALSerializeRPCTransformer ext t))
     ''RPC_DEM_SRS'' = (case pszDEMPath t of None \<Rightarrow> None | Some _ \<Rightarrow> pszDEMSRS t)"
  "CSLFetchNameValue (deserialized_options (GDALSerializeRPCTransformer ext t))
     ''RPC_DEM_APPLY_VDATUM_SHIFT'' =
       (case pszDEMPath t of None \<Rightarrow> None
        | Some _ \<Rightarrow> Some (if bApplyDEMVDatumShift t then ''true'' else ''false''))"
  "CSLFetchNameValue (deserialized_options (GDALSerializeRPCTransformer ext t))
     ''RPC_MAX_ITERATIONS'' = None"
  "CSLFetchNameValue (deserialized_options (GDALSerializeRPCTransformer ext t))
     ''RPC_FOOTPRINT'' = None"
  by (cases "pszDEMPath t"; cases "bHasDEMMissingValue t"; cases "pszDEMSRS t";
      simp add: deserialized_options_def Let_def get_HeightOffset get_HeightScale
        get_DEMPath get_DEMInterpolation get_DEMMissingValue get_DEMApplyVDatumShift get_DEMSRS
        fetch_set fetch_Nil del: CSLSetNameValue.simps)+


lemma EQUAL_interpolation:
  "EQUAL ''near'' ''near''" "\<not> EQUAL ''bilinear'' ''near''" "\<not> EQUAL ''cubic'' ''near''"
  "EQUAL ''bilinear'' ''bilinear''" "\<not> EQUAL ''cubic'' ''bilinear''"
  "EQUAL ''cubic'' ''cubic''"
  by (simp_all add: EQUAL_def ascii_tolower_chars)

lemma deserialized_from_options:
  "transformer_from_options ext rpc bRev thr
     (deserialized_options (GDALSerializeRPCTransformer ext t)) =
   \<lparr> sRPC = rpc,
     adfPLToLatLongGeoTransform = [0, 0, 0, 0, 0, 0],
     dfRefZ = 0,
     bReversed = bRev,
     dfPixErrThreshold = (if thr > 0 then thr else 0.1),
     dfHeightOffset = CPLAtof ext (printf_g15 ext (dfHeightOffset t)),
     dfHeightScale =
       CPLAtof ext (if dfHeightScale t \<noteq> 1 then printf_g15 ext (dfHeightScale t) else ''1''),
     pszDEMPath = pszDEMPath t,
     eResampleAlg = (case pszDEMPath t of None \<Rightarrow> DRA_Bilinear | Some _ \<Rightarrow> eResampleAlg t),
     bHasDEMMissingValue = (pszDEMPath t \<noteq> None \<and> bHasDEMMissingValue t),
     dfDEMMissingValue =
       (if pszDEMPath t \<noteq> None \<and> bHasDEMMissingValue t
        then CPLAtof ext (printf_g17 ext (dfDEMMissingValue t)) else 0),
     pszDEMSRS = (case pszDEMPath t of None \<Rightarrow> None | Some _ \<Rightarrow> pszDEMSRS t),
     bApplyDEMVDatumShift =
       (case pszDEMPath t of None \<Rightarrow> True
        | Some _ \<Rightarrow> CPLTestBool ext (if bApplyDEMVDatumShift t then ''true'' else ''false'')),
     poDS = None,
     poCT = None,
     nMaxIterations = atoi ext ''0'',
     adfDEMGeoTransform = [0, 0, 0, 0, 0, 0],
     adfDEMReverseGeoTransform = [0, 0, 0, 0, 0, 0],
     pszRPCFootprint = None,
     poRPCFootprintGeom = None,
     poRPCFootprintPreparedGeom = None \<rparr>"
  by (cases "pszDEMPath t"; cases "eResampleAlg t")
    (simp_all add: transformer_from_options_def Let_def deserialized_fetch
      CSLFetchNameValueDef_def CPLFetchBool_def DEFAULT_PIX_ERR_THRESHOLD_def
      GDALSerializeRPCDEMResample_def EQUAL_interpolation)


lemma keys_set: "fst ` set (CSLSetNameValue l k v) = insert k (fst ` set l)"
proof (induction l)
  case Nil
  then show ?case by simp
next
  case (Cons a l)
  obtain x y where a: "a = (x, y)" by (cases a)
  show ?case
  proof (cases "x = k")
    case True
    then show ?thesis by (simp add: a)
  next
    case False
    then show ?thesis using Cons.IH by (simp add: a insert_commute)
  qed
qed

lemma distinct_set:
  "distinct (map fst l) \<Longrightarrow> distinct (map fst (CSLSetNameValue l k v))"
proof (induction l)
  case Nil
  then show ?case by simp
next
  case (Cons a l)
  then show ?case
    using keys_set [of l k v] by (cases a) (auto simp: image_iff)
qed

lemma set_fresh: "k \<notin> fst ` set l \<Longrightarrow> CSLSetNameValue l k v = l @ [(k, v)]"
  by (induction l) auto

lemma foldl_set_fresh:
  "distinct (map fst md) \<Longrightarrow> fst ` set acc \<inter> fst ` set md = {} \<Longrightarrow>
     foldl (\<lambda>a (k, v). CSLSetNameValue a k v) acc md = acc @ md"
proof (induction md arbitrary: acc)
  case Nil
  then show ?case by simp
next
  case (Cons e md)
  obtain k v where e: "e = (k, v)" by (cases e)
  from Cons.prems e have fresh: "k \<notin> fst ` set acc" by auto
  have "foldl (\<lambda>a (k, v). CSLSetNameValue a k v) (acc @ [(k, v)]) md = (acc @ [(k, v)]) @ md"
    using Cons.prems e by (intro Cons.IH) (auto simp: image_iff)
  then show ?case by (simp add: e set_fresh [OF fresh])
qed

lemma EQUAL_MDI: "EQUAL ''MDI'' ''MDI''"
  by (simp add: EQUAL_def)

lemma collect_MDI:
  "foldl (\<lambda>papszMD psMDI.
              if \<not> EQUAL (pszValue psMDI) ''MDI'' \<or> eType psMDI \<noteq> CXT_Element
              then papszMD
              else (case psChild psMDI of
                      a # b # _ \<Rightarrow>
                        if eType a \<noteq> CXT_Attribute then papszMD
                        else (case psChild a of
                                [] \<Rightarrow> papszMD
                              | k # _ \<Rightarrow> CSLSetNameValue papszMD (pszValue k) (pszValue b))
                    | _ \<Rightarrow> papszMD)) acc (map MDI_node md) =
   foldl (\<lambda>a (k, v). CSLSetNameValue a k v) acc md"
  by (induction md arbitrary: acc) (auto simp: MDI_node_def EQUAL_MDI)

lemma distinct_RPCInfoV2ToMD: "distinct (map fst (RPCInfoV2ToMD ext rpc))"
  unfolding RPCInfoV2ToMD_def Let_def
  by (intro distinct_set) (simp split: option.split)

lemma collect_serialized:
  "collect_metadata (map MDI_node (RPCInfoV2ToMD ext rpc)) = RPCInfoV2ToMD ext rpc"
  unfolding collect_metadata_def collect_MDI
  using foldl_set_fresh [OF distinct_RPCInfoV2ToMD, of "[]" ext rpc] by simp

lemma EQUAL_Metadata: "EQUAL ''Metadata'' ''Metadata''"
  by (simp add: EQUAL_def)

lemma deserialize_serialize:
  "GDALDeserializeRPCTransformer ext (GDALSerializeRPCTransformer ext t) =
     (case GDALExtractRPCInfoV2 ext (RPCInfoV2ToMD ext (sRPC t)) of
        None \<Rightarrow> None
      | Some rpc \<Rightarrow>
          GDALCreateRPCTransformerV2 ext rpc (atoi ext (printf_d ext (bReversed t)))
            (CPLAtof ext (printf_g15 ext (dfPixErrThreshold t)))
            (deserialized_options (GDALSerializeRPCTransformer ext t)))"
  by (simp add: GDALDeserializeRPCTransformer_def get_Metadata EQUAL_Metadata collect_serialized
      get_Reversed get_PixErrThreshold split: option.split)


lemma create_poCT:
  assumes "GDALCreateRPCTransformerV2 ext rpc bRev thr opts = Some t'"
  shows "(case poDS t' of
            None \<Rightarrow> poCT t' = None \<and> pszDEMPath t' = None
          | Some ds \<Rightarrow>
              poCT t' = DEMCoordinateTransformation ext (pszDEMSRS t')
                          (bApplyDEMVDatumShift t') ds (sRPC t'))"
proof (cases "pszDEMPath (transformer_from_options ext rpc bRev thr opts)")
  case None
  let ?t0 = "transformer_from_options ext rpc bRev thr opts"
  from assms None have "establish_reference ext ?t0 = Some t'"
    by (simp add: GDALCreateRPCTransformerV2_def Let_def)
  from establish_reference_fields [OF this] obtain z igt where
    "t' = ?t0\<lparr>dfRefZ := z, adfPLToLatLongGeoTransform := igt\<rparr>" by blast
  with None show ?thesis by (simp add: transformer_from_options_def Let_def)
next
  case (Some path)
  let ?t0 = "transformer_from_options ext rpc bRev thr opts"
  from Some assms obtain t1 where 1: "GDALRPCOpenDEM ext ?t0 = Some t1"
    and 2: "establish_reference ext t1 = Some t'"
    by (auto simp: GDALCreateRPCTransformerV2_def Let_def split: option.splits)
  from open_dem_fields [OF 1] obtain ds gt rgt where
    e1: "t1 = ?t0\<lparr>poDS := Some ds,
                    poCT := DEMCoordinateTransformation ext (pszDEMSRS ?t0)
                              (bApplyDEMVDatumShift ?t0) ds (sRPC ?t0),
                    adfDEMGeoTransform := gt, adfDEMReverseGeoTransform := rgt\<rparr>" by blast
  from establish_reference_fields [OF 2] obtain z igt where
    e2: "t' = t1\<lparr>dfRefZ := z, adfPLToLatLongGeoTransform := igt\<rparr>" by blast
  show ?thesis unfolding e2 e1 by simp
qed









subsection \<open>The round trip on concrete transformers\<close>







lemma round_trip_max_iterations:
  assumes "GDALDeserializeRPCTransformer ext (GDALSerializeRPCTransformer ext t) = Some t'"
  shows "nMaxIterations t' = atoi ext ''0''"
proof -
  from assms obtain rpc where
    create: "GDALCreateRPCTransformerV2 ext rpc (atoi ext (printf_d ext (bReversed t)))
            (CPLAtof ext (printf_g15 ext (dfPixErrThreshold t)))
            (deserialized_options (GDALSerializeRPCTransformer ext t)) = Some t'"
    by (auto simp: deserialize_serialize split: option.splits)
  from create_fields [OF create] obtain ds ct gt rgt z igt where
    t': "t' = (transformer_from_options ext rpc (atoi ext (printf_d ext (bReversed t)))
            (CPLAtof ext (printf_g15 ext (dfPixErrThreshold t)))
            (deserialized_options (GDALSerializeRPCTransformer ext t)))
                  \<lparr>poDS := ds, poCT := ct, adfDEMGeoTransform := gt,
                   adfDEMReverseGeoTransform := rgt, dfRefZ := z,
                   adfPLToLatLongGeoTransform := igt\<rparr>"
    by blast
  show ?thesis unfolding t' deserialized_from_options by simp
qed





subsection \<open>The clone\<close>

lemma similar_options_keys:
  "fst ` set (similar_options ext psInfo) \<subseteq>
     {''RPC_HEIGHT'', ''RPC_HEIGHT_SCALE'', ''RPC_DEM'', ''RPC_DEMINTERPOLATION'',
      ''RPC_DEM_MISSING_VALUE'', ''RPC_DEM_APPLY_VDATUM_SHIFT'', ''RPC_MAX_ITERATIONS''}"
  by (simp add: similar_options_def Let_def keys_set del: CSLSetNameValue.simps
      split: option.split)

lemma fetch_absent: "k \<notin> fst ` set l \<Longrightarrow> CSLFetchNameValue l k = None"
  by (simp add: CSLFetchNameValue_def map_of_eq_None_iff)

lemma similar_options_absent:
  "CSLFetchNameValue (similar_options ext psInfo) ''RPC_FOOTPRINT'' = None"
  "CSLFetchNameValue (similar_options ext psInfo) ''RPC_DEM_SRS'' = None"
  using similar_options_keys [of ext psInfo]
  by (auto intro!: fetch_absent)

text \<open>
  C10. The options that \<open>GDALCreateSimilarRPCTransformer\<close> passes to the constructor are
  among the height offset, the height scale, the DEM path, the interpolation, the DEM missing
  value, the vdatum shift flag and the maximum of iterations. So the clone has no footprint,
  accepts every longitude and latitude, has no DEM SRS, and its coordinate transformation to
  the DEM is made without an SRS override, whatever the original had.
\<close>

theorem C10_clone_options:
  assumes "GDALCreateSimilarRPCTransformer ext psInfo dfRatioX dfRatioY = Some psNewInfo"
  shows "fst ` set (similar_options ext psInfo) \<subseteq>
           {''RPC_HEIGHT'', ''RPC_HEIGHT_SCALE'', ''RPC_DEM'', ''RPC_DEMINTERPOLATION'',
            ''RPC_DEM_MISSING_VALUE'', ''RPC_DEM_APPLY_VDATUM_SHIFT'', ''RPC_MAX_ITERATIONS''} \<and>
         pszRPCFootprint psNewInfo = None \<and> poRPCFootprintGeom psNewInfo = None \<and>
         poRPCFootprintPreparedGeom psNewInfo = None \<and>
         RPCIsValidLongLat psNewInfo dfLong dfLat \<and>
         pszDEMSRS psNewInfo = None \<and>
         (case poDS psNewInfo of
            None \<Rightarrow> poCT psNewInfo = None
          | Some ds \<Rightarrow>
              poCT psNewInfo =
                DEMCoordinateTransformation ext None (bApplyDEMVDatumShift psNewInfo) ds
                  (sRPC psNewInfo))"
proof -
  from assms obtain rpc where
    create: "GDALCreateRPCTransformerV2 ext rpc (bReversed psInfo) (dfPixErrThreshold psInfo)
               (similar_options ext psInfo) = Some psNewInfo"
    by (auto simp: GDALCreateSimilarRPCTransformer_def Let_def)
  from create_fields [OF create] obtain ds ct gt rgt z igt where
    new: "psNewInfo = (transformer_from_options ext rpc (bReversed psInfo)
            (dfPixErrThreshold psInfo) (similar_options ext psInfo))
                  \<lparr>poDS := ds, poCT := ct, adfDEMGeoTransform := gt,
                   adfDEMReverseGeoTransform := rgt, dfRefZ := z,
                   adfPLToLatLongGeoTransform := igt\<rparr>"
    by blast
  have fields: "pszRPCFootprint psNewInfo = None" "poRPCFootprintGeom psNewInfo = None"
    "poRPCFootprintPreparedGeom psNewInfo = None" "pszDEMSRS psNewInfo = None"
    unfolding new by (simp_all add: transformer_from_options_def Let_def similar_options_absent)
  have valid: "RPCIsValidLongLat psNewInfo dfLong dfLat"
    by (simp add: RPCIsValidLongLat_def fields)
  have ct: "(case poDS psNewInfo of
            None \<Rightarrow> poCT psNewInfo = None
          | Some ds \<Rightarrow>
              poCT psNewInfo =
                DEMCoordinateTransformation ext None (bApplyDEMVDatumShift psNewInfo) ds
                  (sRPC psNewInfo))"
    using create_poCT [OF create] by (simp add: fields split: option.splits)
  from similar_options_keys fields valid ct show ?thesis by blast
qed


lemma from_options_override:
  "transformer_from_options example_ext example_rpc 0 0
     [(''RPC_DEM'', ''flat7''), (''RPC_DEM_SRS'', ''EPSG:4979''),
      (''RPC_FOOTPRINT'', ''POLYGON((0 0,0 100,100 100,100 0,0 0))''),
      (''RPC_MAX_ITERATIONS'', ''5'')] =
   footprint_transformer\<lparr>adfPLToLatLongGeoTransform := [0, 0, 0, 0, 0, 0],
     pszDEMPath := Some ''flat7'', pszDEMSRS := Some ''EPSG:4979'', nMaxIterations := 5\<rparr>"
  by (simp add: from_options_defs transformer_defs)

lemma establish_override:
  "GDALCreateRPCTransformerV2 example_ext example_rpc 0 0
     [(''RPC_DEM'', ''flat7''), (''RPC_DEM_SRS'', ''EPSG:4979''),
      (''RPC_FOOTPRINT'', ''POLYGON((0 0,0 100,100 100,100 0,0 0))''),
      (''RPC_MAX_ITERATIONS'', ''5'')] = Some override_transformer"
proof -
  let ?t0 = "footprint_transformer\<lparr>adfPLToLatLongGeoTransform := [0, 0, 0, 0, 0, 0],
     pszDEMPath := Some ''flat7'', pszDEMSRS := Some ''EPSG:4979'', nMaxIterations := 5\<rparr>"
  let ?t1 = "?t0\<lparr>poDS := Some (flat_dem 7), poCT := Some example_shift,
             adfDEMGeoTransform := [0, 1, 0, 100, 0, - 1],
             adfDEMReverseGeoTransform := [0, 1, 0, 100, 0, - 1]\<rparr>"
  have "GDALRPCOpenDEM example_ext ?t0 = Some ?t1"
    by (subst open_dem [where ds = "flat_dem 7" and path = "''flat7''"])
      (simp_all add: example_ext_def flat_dem_def transformer_defs)
  moreover have "establish_reference example_ext ?t1 = Some override_transformer"
    by (subst establish_example [where H = 37])
      (simp_all add: transformer_defs sampler_defs flat_dem_def example_box_def
        example_shift_def)
  ultimately show ?thesis
    by (simp add: GDALCreateRPCTransformerV2_def from_options_override)
qed

lemma similar_options_override:
  "similar_options example_ext override_transformer =
     [(''RPC_HEIGHT'', ''0''), (''RPC_HEIGHT_SCALE'', ''1''), (''RPC_DEM'', ''flat7''),
      (''RPC_DEMINTERPOLATION'', ''bilinear''), (''RPC_DEM_APPLY_VDATUM_SHIFT'', ''TRUE''),
      (''RPC_MAX_ITERATIONS'', ''5'')]"
  by (simp add: similar_options_def Let_def transformer_defs example_ext_def example_g17_def
      example_g15_def example_d_def GDALSerializeRPCDEMResample_def)

lemma from_options_clone:
  "transformer_from_options example_ext example_rpc 0 0.1
     [(''RPC_HEIGHT'', ''0''), (''RPC_HEIGHT_SCALE'', ''1''), (''RPC_DEM'', ''flat7''),
      (''RPC_DEMINTERPOLATION'', ''bilinear''), (''RPC_DEM_APPLY_VDATUM_SHIFT'', ''TRUE''),
      (''RPC_MAX_ITERATIONS'', ''5'')] =
   example_transformer\<lparr>adfPLToLatLongGeoTransform := [0, 0, 0, 0, 0, 0],
     pszDEMPath := Some ''flat7'', nMaxIterations := 5\<rparr>"
  by (simp add: from_options_defs transformer_defs)

lemma establish_clone:
  "GDALCreateSimilarRPCTransformer example_ext override_transformer 1 1 = Some clone_transformer"
proof -
  let ?t0 = "example_transformer\<lparr>adfPLToLatLongGeoTransform := [0, 0, 0, 0, 0, 0],
     pszDEMPath := Some ''flat7'', nMaxIterations := 5\<rparr>"
  let ?t1 = "?t0\<lparr>poDS := Some (flat_dem 7), poCT := None,
             adfDEMGeoTransform := [0, 1, 0, 100, 0, - 1],
             adfDEMReverseGeoTransform := [0, 1, 0, 100, 0, - 1]\<rparr>"
  have f: "sRPC override_transformer = example_rpc" "bReversed override_transformer = 0"
    "dfPixErrThreshold override_transformer = 0.1"
    by (simp_all add: transformer_defs)
  have "GDALRPCOpenDEM example_ext ?t0 = Some ?t1"
    by (subst open_dem [where ds = "flat_dem 7" and path = "''flat7''"])
      (simp_all add: example_ext_def flat_dem_def transformer_defs)
  moreover have "establish_reference example_ext ?t1 = Some clone_transformer"
    by (subst establish_example [where H = 7])
      (simp_all add: transformer_defs sampler_defs flat_dem_def)
  ultimately show ?thesis
    by (simp add: GDALCreateSimilarRPCTransformer_def Let_def f similar_options_override
        GDALCreateRPCTransformerV2_def from_options_clone)
qed

text \<open>
  C10 on the transformer built with \<open>RPC_DEM=flat7\<close>, \<open>RPC_DEM_SRS=EPSG:4979\<close>, the
  footprint \<open>[0, 100] \<times> [0, 100]\<close> and \<open>RPC_MAX_ITERATIONS=5\<close>: the original rejects the
  longitude and latitude \<open>(150, 50)\<close> and shifts DEM heights through its coordinate
  transformation; the clone accepts the point and has no coordinate transformation.
\<close>

theorem C10_clone_options_witness:
  "GDALCreateRPCTransformerV2 example_ext example_rpc 0 0
     [(''RPC_DEM'', ''flat7''), (''RPC_DEM_SRS'', ''EPSG:4979''),
      (''RPC_FOOTPRINT'', ''POLYGON((0 0,0 100,100 100,100 0,0 0))''),
      (''RPC_MAX_ITERATIONS'', ''5'')] = Some override_transformer \<and>
   GDALCreateSimilarRPCTransformer example_ext override_transformer 1 1 =
     Some clone_transformer \<and>
   pszRPCFootprint override_transformer = Some ''POLYGON((0 0,0 100,100 100,100 0,0 0))'' \<and>
   pszDEMSRS override_transformer = Some ''EPSG:4979'' \<and>
   poCT override_transformer = Some example_shift \<and>
   \<not> RPCIsValidLongLat override_transformer 150 50 \<and>
   pszRPCFootprint clone_transformer = None \<and>
   poRPCFootprintPreparedGeom clone_transformer = None \<and>
   RPCIsValidLongLat clone_transformer 150 50 \<and>
   pszDEMSRS clone_transformer = None \<and>
   poCT clone_transformer = None"
proof -
  have orig: "pszRPCFootprint override_transformer =
      Some ''POLYGON((0 0,0 100,100 100,100 0,0 0))''"
    "pszDEMSRS override_transformer = Some ''EPSG:4979''"
    "poCT override_transformer = Some example_shift"
    "\<not> RPCIsValidLongLat override_transformer 150 50"
    by (simp_all add: transformer_defs RPCIsValidLongLat_def example_box_def)
  have ds: "poDS clone_transformer = Some (flat_dem 7)"
    by (simp add: transformer_defs)
  have none: "DEMCoordinateTransformation example_ext None b d r = None" for b d r
    by (simp add: example_ext_def)
  from C10_clone_options [OF establish_clone, of 150 50] orig establish_override establish_clone
  show ?thesis by (simp add: ds none)
qed

end
